theory Spec2Isabelle
  imports Main "HOL-Library.Word"
begin

unbundle bit_operations_syntax

section \<open>Machine integers and error codes\<close>

type_synonym u8 = "8 word"
type_synonym u16 = "16 word"
type_synonym u32 = "32 word"
type_synonym u64 = "64 word"

text \<open>
  The functions of both source files return an \<open>int\<close>: 0 for success, otherwise one of the
  \<open>WIMLIB_ERR_*\<close> codes. The codes that the two files name are constructors; a code that
  only a callback can produce is \<open>WIMLIB_ERR_OTHER\<close> with its number.
\<close>

datatype wimlib_error =
    WIMLIB_ERR_INVALID_METADATA_RESOURCE
  | WIMLIB_ERR_NOMEM
  | WIMLIB_ERR_READ
  | WIMLIB_ERR_UNEXPECTED_END_OF_FILE
  | WIMLIB_ERR_DECOMPRESSION
  | WIMLIB_ERR_NTFS_3G
  | WIMLIB_ERR_INVALID_REPARSE_DATA
  | WIMLIB_ERR_UNSUPPORTED_FILE
  | WIMLIB_ERR_OTHER int

section \<open>metadata_resource.c: the data model\<close>

text \<open>The lookup table entry of the metadata resource, as far as the reader uses it.\<close>

record wim_lookup_table_entry =
  lte_size :: u64
  lte_hash :: "u8 list"
  dont_check_metadata_hash :: bool

record wim_security_data =
  total_length :: u32
  num_entries :: u32
  sizes :: "u64 list"
  descriptors :: "u8 list list"

text \<open>
  One directory entry as \<open>read_dentry\<close> fills it in. A name is a pointer in the source:
  \<open>None\<close> is the null pointer. The attributes are those of the inode that \<open>read_dentry\<close>
  allocates for the dentry.
\<close>

record wim_dentry_rec =
  d_length :: u64
  d_attributes :: u32
  d_security_id :: u32
  subdir_offset :: u64
  d_hard_link_group_id :: u64
  file_name :: "u16 list option"
  file_name_nbytes :: u16
  short_name :: "u16 list option"
  short_name_nbytes :: u16

datatype wim_dentry = Dentry (d_rec: wim_dentry_rec) (d_children: "wim_dentry list")

record wim_inode_rec =
  i_attributes_r :: u32
  i_security_id_r :: u32
  i_hard_link_group :: u64

record wim_image_metadata =
  root_dentry :: "wim_dentry option"
  security_data :: wim_security_data
  inode_list :: "wim_inode_rec list"
  unhashed_streams :: "u64 list"

text \<open>
  Modelled from the spec: the constant \<open>WIM_DENTRY_DISK_SIZE\<close> is declared in a header that
  is not among the sources; section 6.2 gives the minimum on-disk dentry as 102 bytes.
\<close>

definition WIM_DENTRY_DISK_SIZE :: u64 where
  "WIM_DENTRY_DISK_SIZE = 102"

text \<open>
  Modelled from the spec: \<open>hashes_equal\<close> is an inline helper of a missing header; it
  compares the \<open>SHA1_HASH_SIZE = 20\<close> bytes of two message digests.
\<close>

definition hashes_equal :: "u8 list \<Rightarrow> u8 list \<Rightarrow> bool" where
  "hashes_equal h1 h2 = (take 20 h1 = take 20 h2)"

text \<open>
  Modelled from the spec ("carries a non-empty short or long name"): the two inline
  helpers test the byte counts of the names.
\<close>

definition dentry_has_long_name :: "wim_dentry_rec \<Rightarrow> bool" where
  "dentry_has_long_name d = (file_name_nbytes d \<noteq> 0)"

definition dentry_has_short_name :: "wim_dentry_rec \<Rightarrow> bool" where
  "dentry_has_short_name d = (short_name_nbytes d \<noteq> 0)"

text \<open>
  The functions that \<open>read_metadata_resource\<close> calls and that live in other files of the
  library (resource.c, sha1.c, security.c, dentry.c, hardlink.c, verify.c), and the one
  allocation it makes, are parameters of the model. \<open>read_dentry_tree\<close> returns the
  children it attaches to the root, \<open>dentry_tree_fix_inodes\<close> the inode list it builds.
\<close>

record reader_env =
  read_full_stream_into_alloc_buf :: "wim_lookup_table_entry \<Rightarrow> wimlib_error + u8 list"
  sha1_buffer :: "u8 list \<Rightarrow> u64 \<Rightarrow> u8 list"
  read_wim_security_data :: "u8 list \<Rightarrow> u64 \<Rightarrow> wimlib_error + wim_security_data"
  MALLOC_root :: bool
  read_dentry :: "u8 list \<Rightarrow> u64 \<Rightarrow> u64 \<Rightarrow> wimlib_error + wim_dentry_rec"
  dentry_is_directory :: "wim_dentry_rec \<Rightarrow> bool"
  read_dentry_tree :: "u8 list \<Rightarrow> u64 \<Rightarrow> wim_dentry_rec \<Rightarrow> wimlib_error + wim_dentry list"
  dentry_tree_fix_inodes :: "wim_dentry \<Rightarrow> wimlib_error + wim_inode_rec list"
  verify_inode :: "wim_inode_rec \<Rightarrow> wim_security_data \<Rightarrow> wimlib_error option"

section \<open>metadata_resource.c: read_metadata_resource\<close>

text \<open>The loop \<open>image_for_each_inode\<close>: the first inode that fails verification ends it.\<close>

fun verify_inodes :: "reader_env \<Rightarrow> wim_inode_rec list \<Rightarrow> wim_security_data \<Rightarrow> wimlib_error option" where
  "verify_inodes env [] sd = None"
| "verify_inodes env (inode # rest) sd =
     (case verify_inode env inode sd of
        Some e \<Rightarrow> Some e
      | None \<Rightarrow> verify_inodes env rest sd)"

text \<open>The label \<open>out_success\<close>.\<close>

definition out_success :: "wim_dentry option \<Rightarrow> wim_security_data \<Rightarrow> wim_inode_rec list \<Rightarrow> wim_image_metadata" where
  "out_success root sd inodes =
     \<lparr>root_dentry = root, security_data = sd, inode_list = inodes, unhashed_streams = []\<rparr>"

text \<open>Lines 139 to 147: a root that carries a long or a short name loses both.\<close>

definition clear_root_names :: "wim_dentry_rec \<Rightarrow> wim_dentry_rec" where
  "clear_root_names root =
     (if dentry_has_long_name root \<or> dentry_has_short_name root
      then root\<lparr>file_name := None, short_name := None,
                file_name_nbytes := 0, short_name_nbytes := 0\<rparr>
      else root)"

text \<open>The part of the function after the root dentry was read and found not to be the
  end-of-directory entry: lines 139 to 179.\<close>

definition read_root_and_tree ::
  "reader_env \<Rightarrow> u8 list \<Rightarrow> u64 \<Rightarrow> wim_security_data \<Rightarrow> wim_dentry_rec \<Rightarrow> wimlib_error + wim_image_metadata" where
  "read_root_and_tree env buf metadata_len sd root0 =
     (let root = clear_root_names root0
      in if \<not> dentry_is_directory env root then Inl WIMLIB_ERR_INVALID_METADATA_RESOURCE
         else (case read_dentry_tree env buf metadata_len root of
                 Inl e \<Rightarrow> Inl e
               | Inr children \<Rightarrow>
                   (case dentry_tree_fix_inodes env (Dentry root children) of
                      Inl e \<Rightarrow> Inl e
                    | Inr inodes \<Rightarrow>
                        (case verify_inodes env inodes sd of
                           Some e \<Rightarrow> Inl e
                         | None \<Rightarrow> Inr (out_success (Some (Dentry root children)) sd inodes)))))"

text \<open>
  Lines 105 to 185: what the function does with the buffer once it is in memory and its
  hash was checked or the check was skipped. The inode list of an empty image is the
  one the caller initialised, taken to be empty.
\<close>

definition read_metadata_buffer ::
  "reader_env \<Rightarrow> u8 list \<Rightarrow> u64 \<Rightarrow> wimlib_error + wim_image_metadata" where
  "read_metadata_buffer env buf metadata_len =
     (case read_wim_security_data env buf metadata_len of
        Inl e \<Rightarrow> Inl e
      | Inr sd \<Rightarrow>
          (if \<not> MALLOC_root env then Inl WIMLIB_ERR_NOMEM
           else (case read_dentry env buf metadata_len (ucast (total_length sd)) of
                   Inl e \<Rightarrow> Inl e
                 | Inr root \<Rightarrow>
                     (if d_length root = 0 then Inr (out_success None sd [])
                      else read_root_and_tree env buf metadata_len sd root))))"

text \<open>
  The whole function: the length floor, reading the resource into memory, the hash check,
  then the rest. The buffer is freed on every path and is not part of the result. On
  failure the source leaves \<open>imd\<close> without a root; the model returns the error alone.
\<close>

definition read_metadata_resource ::
  "reader_env \<Rightarrow> wim_lookup_table_entry \<Rightarrow> wimlib_error + wim_image_metadata" where
  "read_metadata_resource env metadata_lte =
     (let metadata_len = lte_size metadata_lte
      in if metadata_len < 8 + WIM_DENTRY_DISK_SIZE then Inl WIMLIB_ERR_INVALID_METADATA_RESOURCE
         else (case read_full_stream_into_alloc_buf env metadata_lte of
                 Inl e \<Rightarrow> Inl e
               | Inr buf \<Rightarrow>
                   (if \<not> dont_check_metadata_hash metadata_lte \<and>
                       \<not> hashes_equal (lte_hash metadata_lte) (sha1_buffer env buf metadata_len)
                    then Inl WIMLIB_ERR_INVALID_METADATA_RESOURCE
                    else read_metadata_buffer env buf metadata_len)))"

section \<open>The byte layout of section 6.2, for concrete inputs\<close>

text \<open>Little-endian fields of a buffer; bytes beyond the end of the buffer read as absent.\<close>

fun le_nat :: "u8 list \<Rightarrow> nat" where
  "le_nat [] = 0"
| "le_nat (b # bs) = unat b + 256 * le_nat bs"

definition get_le16 :: "u8 list \<Rightarrow> nat \<Rightarrow> u16" where
  "get_le16 buf off = of_nat (le_nat (take 2 (drop off buf)))"

definition get_le32 :: "u8 list \<Rightarrow> nat \<Rightarrow> u32" where
  "get_le32 buf off = of_nat (le_nat (take 4 (drop off buf)))"

definition get_le64 :: "u8 list \<Rightarrow> nat \<Rightarrow> u64" where
  "get_le64 buf off = of_nat (le_nat (take 8 (drop off buf)))"

fun get_le64s :: "u8 list \<Rightarrow> nat \<Rightarrow> nat \<Rightarrow> u64 list" where
  "get_le64s buf off 0 = []"
| "get_le64s buf off (Suc n) = get_le64 buf off # get_le64s buf (off + 8) n"

fun get_le16s :: "u8 list \<Rightarrow> nat \<Rightarrow> nat \<Rightarrow> u16 list" where
  "get_le16s buf off 0 = []"
| "get_le16s buf off (Suc n) = get_le16 buf off # get_le16s buf (off + 2) n"

fun get_descriptors :: "u8 list \<Rightarrow> nat \<Rightarrow> u64 list \<Rightarrow> u8 list list" where
  "get_descriptors buf off [] = []"
| "get_descriptors buf off (sz # szs) =
     take (unat sz) (drop off buf) # get_descriptors buf (off + unat sz) szs"

text \<open>
  Modelled from the spec: \<open>read_wim_security_data\<close> is in security.c, which is not among
  the sources. Section 6.2: a 32-bit total length (header included, padded to 8), a 32-bit
  number of entries, one 64-bit size per entry, the descriptors one after the other;
  a total length of 0 stands for a total length of 8 with no entries. The total length
  kept in memory is rounded up to a multiple of 8 (section 4.7, step 3). A block that
  does not fit the resource, or whose entries do not fit the block, is invalid.
\<close>

definition spec_read_wim_security_data :: "u8 list \<Rightarrow> u64 \<Rightarrow> wimlib_error + wim_security_data" where
  "spec_read_wim_security_data buf metadata_len =
     (let tl = get_le32 buf 0; n = get_le32 buf 4
      in if unat metadata_len < 8 \<or> length buf < 8 then Inl WIMLIB_ERR_INVALID_METADATA_RESOURCE
         else if tl = 0
         then Inr \<lparr>total_length = 8, num_entries = 0, sizes = [], descriptors = []\<rparr>
         else (let szs = get_le64s buf 8 (unat n);
                   used = 8 + 8 * unat n + sum_list (map unat szs)
               in if unat tl > unat metadata_len \<or> unat tl > length buf \<or> used > unat tl
                     \<or> tl > 0xFFFFFFF8
                  then Inl WIMLIB_ERR_INVALID_METADATA_RESOURCE
                  else Inr \<lparr>total_length = (tl + 7) AND NOT 7, num_entries = n, sizes = szs,
                            descriptors = get_descriptors buf (8 + 8 * unat n) szs\<rparr>))"

text \<open>
  Modelled from the spec: \<open>read_dentry\<close> is in dentry.c, which is not among the sources.
  The fields are read at the positions that the listing of section 6.2 gives them, one
  after the other: the length at 0, the attributes at 8, the security ID at 12, the
  subdirectory offset at 16, the hard link group ID at 92, the byte counts of the short
  and the long name at 102 and 104, the long name at 108 and the short name after the
  long name and its terminator. An entry of length 0 is the end-of-directory entry and
  has no other field. An entry that does not lie inside the resource is invalid.
  The alternate-stream entries are not read.
\<close>

definition spec_read_dentry :: "u8 list \<Rightarrow> u64 \<Rightarrow> u64 \<Rightarrow> wimlib_error + wim_dentry_rec" where
  "spec_read_dentry buf metadata_len offset =
     (let off = unat offset; len = get_le64 buf off;
          snb = get_le16 buf (off + 102); fnb = get_le16 buf (off + 104)
      in if off + 8 > unat metadata_len \<or> off + 8 > length buf
         then Inl WIMLIB_ERR_INVALID_METADATA_RESOURCE
         else if len = 0
         then Inr \<lparr>d_length = 0, d_attributes = 0, d_security_id = 0, subdir_offset = 0,
                   d_hard_link_group_id = 0, file_name = None, file_name_nbytes = 0,
                   short_name = None, short_name_nbytes = 0\<rparr>
         else if unat len < unat WIM_DENTRY_DISK_SIZE \<or> off + unat len > unat metadata_len
                 \<or> off + unat len > length buf
                 \<or> 108 + unat fnb + 2 + unat snb + 2 > unat len
         then Inl WIMLIB_ERR_INVALID_METADATA_RESOURCE
         else Inr \<lparr>d_length = len,
                   d_attributes = get_le32 buf (off + 8),
                   d_security_id = get_le32 buf (off + 12),
                   subdir_offset = get_le64 buf (off + 16),
                   d_hard_link_group_id = get_le64 buf (off + 92),
                   file_name = (if fnb = 0 then None
                                  else Some (get_le16s buf (off + 108) (unat fnb div 2))),
                   file_name_nbytes = fnb,
                   short_name = (if snb = 0 then None
                                   else Some (get_le16s buf (off + 108 + unat fnb + 2) (unat snb div 2))),
                   short_name_nbytes = snb\<rparr>)"

text \<open>
  Modelled from the spec: \<open>dentry_is_directory\<close> is an inline helper of dentry.h. A
  dentry is a directory when its attributes have the Windows flag
  \<open>FILE_ATTRIBUTE_DIRECTORY = 0x10\<close>.
\<close>

definition spec_dentry_is_directory :: "wim_dentry_rec \<Rightarrow> bool" where
  "spec_dentry_is_directory d = (d_attributes d AND 0x10 \<noteq> 0)"

text \<open>
  A stand-in for the collaborators on concrete inputs: the resource is held in memory, the
  digest of a buffer is a 20-byte checksum in place of SHA-1, the security data and the
  root are parsed as above, a root without a subdirectory offset has no children, each
  image has the one inode of its root, and every inode passes verification.
\<close>

definition checksum20 :: "u8 list \<Rightarrow> u64 \<Rightarrow> u8 list" where
  "checksum20 buf n = sum_list (take (unat n) buf) # replicate 19 0"

definition memory_env :: "u8 list \<Rightarrow> reader_env" where
  "memory_env resource =
     \<lparr>read_full_stream_into_alloc_buf = (\<lambda>lte. Inr resource),
      sha1_buffer = checksum20,
      read_wim_security_data = spec_read_wim_security_data,
      MALLOC_root = True,
      read_dentry = spec_read_dentry,
      dentry_is_directory = spec_dentry_is_directory,
      read_dentry_tree = (\<lambda>buf len root.
         if subdir_offset root = 0 then Inr [] else Inl WIMLIB_ERR_INVALID_METADATA_RESOURCE),
      dentry_tree_fix_inodes = (\<lambda>root.
         Inr [\<lparr>i_attributes_r = d_attributes (d_rec root),
                i_security_id_r = d_security_id (d_rec root),
                i_hard_link_group = d_hard_link_group_id (d_rec root)\<rparr>]),
      verify_inode = (\<lambda>inode sd. None)\<rparr>"

text \<open>Boundary scenario 1 of the spec: the 16 bytes of an empty image.\<close>

definition empty_image_16 :: "u8 list" where
  "empty_image_16 = [8, 0, 0, 0, 0, 0, 0, 0] @ replicate 8 0"

text \<open>The same image padded with zero bytes to the 110 bytes of the length floor.\<close>

definition empty_image_110 :: "u8 list" where
  "empty_image_110 = [8, 0, 0, 0, 0, 0, 0, 0] @ replicate 102 0"

text \<open>
  Boundary scenario 2 of the spec: an image whose root is a directory (attributes 0x10)
  named "X": a long name of 4 bytes, the code unit 0x58 and a zero code unit. The
  security block of 8 bytes, the root of 120 bytes, the end-of-directory entry of 8.
\<close>

definition named_root_image :: "u8 list" where
  "named_root_image =
     [8, 0, 0, 0, 0, 0, 0, 0]
     @ [120, 0, 0, 0, 0, 0, 0, 0] @ [0x10, 0, 0, 0] @ replicate 92 0
     @ [4, 0] @ [0, 0] @ [0x58, 0, 0, 0] @ replicate 8 0
     @ replicate 8 0"

text \<open>The same image with the attributes of a plain file (0x20) on its root.\<close>

definition file_root_image :: "u8 list" where
  "file_root_image =
     [8, 0, 0, 0, 0, 0, 0, 0]
     @ [120, 0, 0, 0, 0, 0, 0, 0] @ [0x20, 0, 0, 0] @ replicate 92 0
     @ [4, 0] @ [0, 0] @ [0x58, 0, 0, 0] @ replicate 8 0
     @ replicate 8 0"

definition lte_of :: "u8 list \<Rightarrow> u8 list \<Rightarrow> bool \<Rightarrow> wim_lookup_table_entry" where
  "lte_of resource h flag =
     \<lparr>lte_size = of_nat (length resource), lte_hash = h, dont_check_metadata_hash = flag\<rparr>"

section \<open>ntfs-3g_capture.c: the data model\<close>

text \<open>
  The attribute types of the NTFS library that the file uses; every other type of the
  library's enumeration is \<open>AT_OTHER\<close>.
\<close>

datatype ATTR_TYPES = AT_DATA | AT_REPARSE_POINT | AT_OTHER

datatype stream_type = STREAM_TYPE_DATA | STREAM_TYPE_REPARSE_POINT | STREAM_TYPE_UNKNOWN

datatype blob_location_t = BLOB_NONEXISTENT | BLOB_IN_NTFS_VOLUME

text \<open>
  \<open>struct ntfs_location\<close>. The volume wrapper is shared by all locations of one capture;
  its reference count is part of the capture state. The attribute name is a pointer:
  \<open>None\<close> is the null pointer of the zeroed allocation.
\<close>

record ntfs_location =
  loc_mft_no :: u64
  loc_attr_type :: ATTR_TYPES
  loc_attr_name_nchars :: u32
  loc_attr_name :: "u16 list option"
  loc_sort_key :: u64

text \<open>The fields of \<open>struct blob_descriptor\<close> that the file touches.\<close>

record blob_descriptor =
  blob_location :: blob_location_t
  blob_size :: u64
  blob_ntfs_loc :: "ntfs_location option"

record wim_inode_stream =
  stream_type :: stream_type
  stream_name :: "u16 list option"
  stream_blob :: "blob_descriptor option"
  stream_id :: nat

text \<open>
  \<open>struct wim_inode\<close> as the capture fills it in. The link count is a 32-bit field in the
  source; a count of links that reaches \<open>2 ^ 32\<close> is out of reach and the model counts
  in \<open>nat\<close>. The security ID is a signed 32-bit field, \<open>-1\<close> when there is none.
\<close>

record wim_inode =
  i_ino :: u64
  i_nlink :: nat
  i_creation_time :: u64
  i_last_write_time :: u64
  i_last_access_time :: u64
  i_attributes :: u32
  i_reparse_tag :: u32
  i_rp_flags :: u16
  i_security_id :: int
  i_streams :: "wim_inode_stream list"

section \<open>ntfs-3g_capture.c: the NTFS library\<close>

text \<open>
  The volume is read through the NTFS-3G library. The model of the library is a volume
  that holds, for each MFT reference, what the library answers about that inode; each
  way in which a call of the library can fail is a field.

  An attribute record, with what opening and reading the attribute gives:
  \<open>ntfs_attr_open\<close> fails when \<open>attr_open_fails\<close>; \<open>ntfs_attr_find_vcn\<close> at VCN 0
  returns no runlist element (\<open>None\<close>) or one with the given LCN; \<open>ntfs_attr_pread\<close>
  reads from \<open>attr_contents\<close>, which may be shorter than the value length that the
  record declares (a read error or a truncated attribute).
\<close>

record ATTR_RECORD =
  attr_rec_type :: ATTR_TYPES
  attr_rec_name :: "u16 list"
  attr_value_length :: u64
  attr_open_fails :: bool
  attr_first_lcn :: "int option"
  attr_contents :: "u8 list"

text \<open>A directory entry as \<open>ntfs_readdir\<close> hands it to the callback.\<close>

record ntfs_dirent =
  de_name :: "u16 list"
  de_name_type :: u8
  de_mref :: u64

text \<open>
  An inode of the volume: the fields of \<open>ntfs_inode\<close> that the file reads, and the
  answers of the library: \<open>ntfs_get_ntfs_attrib\<close> (\<open>None\<close> when it fails), the search
  context and the attribute records that \<open>ntfs_attr_lookup\<close> enumerates, whether the
  enumeration of a type ends with an error other than \<open>ENOENT\<close>, what
  \<open>ntfs_get_ntfs_acl\<close> returns for a buffer of a given size (the return value and
  the bytes written), and the directory entries that \<open>ntfs_readdir\<close> delivers, with
  whether it then fails by itself.
\<close>

record ntfs_inode =
  mft_no :: u64
  creation_time :: u64
  last_data_change_time :: u64
  last_access_time :: u64
  ni_attrib :: "u32 option"
  ni_search_ctx_fails :: bool
  ni_attr_records :: "ATTR_RECORD list"
  ni_lookup_fails :: "ATTR_TYPES \<Rightarrow> bool"
  ni_acl :: "nat \<Rightarrow> int \<times> u8 list"
  ni_dirents :: "ntfs_dirent list"
  ni_readdir_fails :: bool

type_synonym ntfs_volume = "u64 \<Rightarrow> ntfs_inode option"

definition ntfs_inode_open :: "ntfs_volume \<Rightarrow> u64 \<Rightarrow> ntfs_inode option" where
  "ntfs_inode_open vol mref = vol mref"

text \<open>\<open>ntfs_attr_open\<close> finds the attribute of the inode with the given type and name.\<close>

definition ntfs_attr_open :: "ntfs_inode \<Rightarrow> ATTR_TYPES \<Rightarrow> u16 list option \<Rightarrow> u32 \<Rightarrow> ATTR_RECORD option" where
  "ntfs_attr_open ni type name name_len =
     (case find (\<lambda>r. attr_rec_type r = type \<and>
                      attr_rec_name r = (case name of None \<Rightarrow> [] | Some n \<Rightarrow> n))
                (ni_attr_records ni) of
        None \<Rightarrow> None
      | Some r \<Rightarrow> if attr_open_fails r then None else Some r)"

text \<open>\<open>ntfs_attr_pread\<close>: the bytes read; fewer than asked for at the end of the contents.\<close>

definition ntfs_attr_pread :: "ATTR_RECORD \<Rightarrow> u64 \<Rightarrow> u64 \<Rightarrow> u8 list" where
  "ntfs_attr_pread na pos count = take (unat count) (drop (unat pos) (attr_contents na))"

definition LCN_HOLE :: int where
  "LCN_HOLE = -1"

definition REPARSE_DATA_OFFSET :: u64 where
  "REPARSE_DATA_OFFSET = 8"

text \<open>
  Modelled from the spec: \<open>BUFFER_SIZE\<close> is a macro of a missing header. Section 4.2
  asks for chunks of a fixed size of 32 to 64 KiB.
\<close>

definition BUFFER_SIZE :: u64 where
  "BUFFER_SIZE = 32768"

section \<open>ntfs-3g_capture.c: blob descriptors\<close>

text \<open>
  Modelled from the spec: \<open>cmp_u64\<close> is an inline helper of a missing header; section 4.2
  has \<open>order\<close> as the order of the sort keys. The three-way comparison of two unsigned
  64-bit numbers: negative, zero or positive.
\<close>

definition cmp_u64 :: "u64 \<Rightarrow> u64 \<Rightarrow> int" where
  "cmp_u64 n1 n2 = (if n1 < n2 then -1 else if n1 > n2 then 1 else 0)"

definition cmp_ntfs_locations :: "ntfs_location \<Rightarrow> ntfs_location \<Rightarrow> int" where
  "cmp_ntfs_locations loc1 loc2 = cmp_u64 (loc_sort_key loc1) (loc_sort_key loc2)"

definition open_ntfs_attr :: "ntfs_inode \<Rightarrow> ntfs_location \<Rightarrow> ATTR_RECORD option" where
  "open_ntfs_attr ni loc =
     ntfs_attr_open ni (loc_attr_type loc) (loc_attr_name loc) (loc_attr_name_nchars loc)"

text \<open>
  The loop of \<open>read_ntfs_attribute_prefix\<close>. \<open>bytes_remaining\<close>, \<open>pos\<close> and \<open>to_read\<close>
  are signed 64-bit variables; \<open>min\<close> compares \<open>bytes_remaining\<close> with the unsigned
  \<open>sizeof(buf)\<close>, so the comparison is unsigned, and addition, subtraction and the test
  against 0 are the same in two's complement: the model computes in \<open>u64\<close>. The sink is
  \<open>call_consume_chunk\<close> with its context; it returns 0 (\<open>None\<close>) or a code that ends
  the read.
\<close>

function read_ntfs_attribute_loop ::
  "ATTR_RECORD \<Rightarrow> (u8 list \<Rightarrow> 'c \<Rightarrow> wimlib_error option \<times> 'c) \<Rightarrow> u64 \<Rightarrow> u64 \<Rightarrow> 'c
     \<Rightarrow> wimlib_error option \<times> 'c" where
  "read_ntfs_attribute_loop na consume_chunk pos bytes_remaining ctx =
     (if bytes_remaining = 0 then (None, ctx)
      else (let to_read = min bytes_remaining BUFFER_SIZE;
                buf = ntfs_attr_pread na pos to_read
            in if length buf \<noteq> unat to_read then (Some WIMLIB_ERR_NTFS_3G, ctx)
               else (case consume_chunk buf ctx of
                       (Some ret, ctx') \<Rightarrow> (Some ret, ctx')
                     | (None, ctx') \<Rightarrow>
                         read_ntfs_attribute_loop na consume_chunk
                           (pos + to_read) (bytes_remaining - to_read) ctx')))"
  by pat_completeness auto
termination
proof (relation "measure (\<lambda>(na, consume_chunk, pos, bytes_remaining, ctx). unat bytes_remaining)")
  show "wf (measure (\<lambda>(na, consume_chunk, pos, bytes_remaining, ctx). unat bytes_remaining))"
    by simp
next
  fix na :: ATTR_RECORD and consume_chunk :: "u8 list \<Rightarrow> 'c \<Rightarrow> wimlib_error option \<times> 'c"
    and pos bytes_remaining :: u64 and ctx :: 'c and to_read :: u64
    and buf x y ctx'
  assume nz: "bytes_remaining \<noteq> 0" and tr: "to_read = min bytes_remaining BUFFER_SIZE"
  have "to_read \<le> bytes_remaining" using tr by simp
  moreover have "to_read \<noteq> 0" using nz tr by (auto simp add: min_def BUFFER_SIZE_def)
  ultimately have "unat (bytes_remaining - to_read) = unat bytes_remaining - unat to_read"
    and "0 < unat to_read" and "unat to_read \<le> unat bytes_remaining"
    by (simp_all add: unat_sub unat_gt_0 word_le_nat_alt)
  then have "unat (bytes_remaining - to_read) < unat bytes_remaining"
    by simp
  then show "((na, consume_chunk, pos + to_read, bytes_remaining - to_read, ctx'),
              (na, consume_chunk, pos, bytes_remaining, ctx))
             \<in> measure (\<lambda>(na, consume_chunk, pos, bytes_remaining, ctx). unat bytes_remaining)"
    by simp
qed

text \<open>
  \<open>read_ntfs_attribute_prefix\<close>: open the inode and the attribute of the blob's
  location, then read \<open>size\<close> bytes from offset 8 for a reparse point and from offset 0
  otherwise. The inode and the attribute are closed on every path.
\<close>

definition read_ntfs_attribute_prefix ::
  "ntfs_volume \<Rightarrow> ntfs_location \<Rightarrow> u64 \<Rightarrow> (u8 list \<Rightarrow> 'c \<Rightarrow> wimlib_error option \<times> 'c) \<Rightarrow> 'c
     \<Rightarrow> wimlib_error option \<times> 'c" where
  "read_ntfs_attribute_prefix vol loc size_arg consume_chunk ctx =
     (case ntfs_inode_open vol (loc_mft_no loc) of
        None \<Rightarrow> (Some WIMLIB_ERR_NTFS_3G, ctx)
      | Some ni \<Rightarrow>
          (case open_ntfs_attr ni loc of
             None \<Rightarrow> (Some WIMLIB_ERR_NTFS_3G, ctx)
           | Some na \<Rightarrow>
               read_ntfs_attribute_loop na consume_chunk
                 (if loc_attr_type loc = AT_REPARSE_POINT then REPARSE_DATA_OFFSET else 0)
                 size_arg ctx))"

text \<open>
  The reading of section 4.2 in its own words, to compare the loop with: the bytes cut
  into chunks of a fixed size, the last one shorter when the size does not divide the
  length, and the chunks handed to the sink one after the other until it returns a code.
\<close>

function chunks :: "nat \<Rightarrow> 'a list \<Rightarrow> 'a list list" where
  "chunks k xs = (if k = 0 \<or> xs = [] then [] else take k xs # chunks k (drop k xs))"
  by pat_completeness auto
termination
  by (relation "measure (\<lambda>(k, xs). length xs)") auto

fun deliver :: "('b \<Rightarrow> 'c \<Rightarrow> wimlib_error option \<times> 'c) \<Rightarrow> 'b list \<Rightarrow> 'c \<Rightarrow> wimlib_error option \<times> 'c" where
  "deliver consume_chunk [] ctx = (None, ctx)"
| "deliver consume_chunk (ch # chs) ctx =
     (case consume_chunk ch ctx of
        (Some ret, ctx') \<Rightarrow> (Some ret, ctx')
      | (None, ctx') \<Rightarrow> deliver consume_chunk chs ctx')"

text \<open>
  A small volume for concrete inputs. Inode 5 is a symbolic link: a reparse point
  attribute of 12 bytes (the tag \<open>0xA000000C\<close>, a data length of 4, then 4 bytes of
  data) and an unnamed data attribute of 3 bytes. Its security descriptor has 2 bytes.
\<close>

definition example_reparse_attr :: ATTR_RECORD where
  "example_reparse_attr =
     \<lparr>attr_rec_type = AT_REPARSE_POINT, attr_rec_name = [], attr_value_length = 12,
      attr_open_fails = False, attr_first_lcn = None,
      attr_contents = [0x0C, 0, 0, 0xA0, 4, 0, 0, 0, 1, 2, 3, 4]\<rparr>"

definition example_data_attr :: ATTR_RECORD where
  "example_data_attr =
     \<lparr>attr_rec_type = AT_DATA, attr_rec_name = [], attr_value_length = 3,
      attr_open_fails = False, attr_first_lcn = Some 77,
      attr_contents = [7, 8, 9]\<rparr>"

definition example_link_inode :: ntfs_inode where
  "example_link_inode =
     \<lparr>mft_no = 5, creation_time = 100, last_data_change_time = 200, last_access_time = 300,
      ni_attrib = Some 0x420, ni_search_ctx_fails = False,
      ni_attr_records = [example_reparse_attr, example_data_attr],
      ni_lookup_fails = (\<lambda>t. False),
      ni_acl = (\<lambda>avail. (2, [1, 2])),
      ni_dirents = [], ni_readdir_fails = False\<rparr>"

definition example_reparse_loc :: ntfs_location where
  "example_reparse_loc =
     \<lparr>loc_mft_no = 5, loc_attr_type = AT_REPARSE_POINT, loc_attr_name_nchars = 0,
      loc_attr_name = None, loc_sort_key = 0\<rparr>"

text \<open>A sink that keeps the chunks it is given and never ends the read.\<close>

definition keep_chunks :: "u8 list \<Rightarrow> u8 list list \<Rightarrow> wimlib_error option \<times> u8 list list" where
  "keep_chunks ch ctx = (None, ctx @ [ch])"

section \<open>ntfs-3g_capture.c: the capture state and its collaborators\<close>

datatype scan_status =
  WIMLIB_SCAN_DENTRY_OK | WIMLIB_SCAN_DENTRY_EXCLUDED | WIMLIB_SCAN_DENTRY_UNSUPPORTED

text \<open>
  What the capture receives from outside the file: the allocator (whether the
  allocation number \<open>k\<close> of the capture succeeds), the path matcher \<open>try_exclude\<close>
  (negative: excluded, positive: error, 0: included), the progress callback and the
  capture-error hook (0 is \<open>None\<close>), the transcoding of names, the two inline tests
  on inodes, and the three flags of \<open>params->add_flags\<close> that the file tests.
\<close>

record capture_env =
  alloc_ok :: "nat \<Rightarrow> bool"
  try_exclude :: "string \<Rightarrow> int"
  do_capture_progress :: "scan_status \<Rightarrow> string \<Rightarrow> wimlib_error option"
  report_capture_error :: "wimlib_error \<Rightarrow> string \<Rightarrow> wimlib_error option"
  utf16le_to_tstr :: "u16 list \<Rightarrow> wimlib_error + string"
  inode_is_directory :: "wim_inode \<Rightarrow> bool"
  inode_is_symlink :: "wim_inode \<Rightarrow> bool"
  ADD_FLAG_NO_UNSUPPORTED_EXCLUDE :: bool
  ADD_FLAG_RPFIX :: bool
  ADD_FLAG_NO_ACLS :: bool

text \<open>
  What the capture changes: the number of allocations made so far, the reference count of
  the volume wrapper (a \<open>size_t\<close>) and whether the volume is still mounted, the inode table, the set
  of security descriptors and the list of unhashed blobs.
\<close>

record capture_state =
  alloc_count :: nat
  volume_refcnt :: u64
  volume_mounted :: bool
  inode_table :: "u64 \<Rightarrow> wim_inode option"
  sd_set :: "u8 list list"
  unhashed_blobs :: "blob_descriptor list"

text \<open>One allocation (\<open>MALLOC\<close>, \<open>CALLOC\<close> or a function that allocates its result).\<close>

definition alloc :: "capture_env \<Rightarrow> capture_state \<Rightarrow> bool \<times> capture_state" where
  "alloc env s = (alloc_ok env (alloc_count s), s\<lparr>alloc_count := Suc (alloc_count s)\<rparr>)"

definition get_ntfs_volume :: "capture_state \<Rightarrow> capture_state" where
  "get_ntfs_volume s = s\<lparr>volume_refcnt := volume_refcnt s + 1\<rparr>"

text \<open>
  \<open>refcnt\<close> is a \<open>size_t\<close>, of 64 bits here: \<open>--volume->refcnt\<close> wraps around at a
  count of 0, and the volume is unmounted only when the decremented count is 0.
\<close>

definition put_ntfs_volume :: "capture_state \<Rightarrow> capture_state" where
  "put_ntfs_volume s =
     s\<lparr>volume_refcnt := volume_refcnt s - 1,
       volume_mounted := (volume_mounted s \<and> volume_refcnt s - 1 \<noteq> 0)\<rparr>"

definition free_ntfs_location :: "ntfs_location \<Rightarrow> capture_state \<Rightarrow> capture_state" where
  "free_ntfs_location loc s = put_ntfs_volume s"

text \<open>
  Modelled from the spec: \<open>free_blob_descriptor\<close> is in blob_table.c, which is not among
  the sources. Section 4.2, \<open>release\<close>: it releases the location of the blob, if the blob
  and its location exist.
\<close>

definition free_blob_descriptor :: "blob_descriptor option \<Rightarrow> capture_state \<Rightarrow> capture_state" where
  "free_blob_descriptor blob s =
     (case blob of
        None \<Rightarrow> s
      | Some b \<Rightarrow> (case blob_ntfs_loc b of None \<Rightarrow> s | Some loc \<Rightarrow> free_ntfs_location loc s))"

text \<open>
  Modelled from the spec: \<open>prepare_unhashed_blob\<close> is in blob_table.c. Section 4.6: the
  blob of the stream, when there is one, is registered in the list of unhashed blobs.
\<close>

definition prepare_unhashed_blob :: "blob_descriptor option \<Rightarrow> capture_state \<Rightarrow> capture_state" where
  "prepare_unhashed_blob blob s =
     (case blob of None \<Rightarrow> s | Some b \<Rightarrow> s\<lparr>unhashed_blobs := unhashed_blobs s @ [b]\<rparr>)"

section \<open>ntfs-3g_capture.c: scanning the attributes of an inode\<close>

definition read_reparse_tag :: "ntfs_inode \<Rightarrow> ntfs_location \<Rightarrow> wimlib_error + u32" where
  "read_reparse_tag ni loc =
     (case open_ntfs_attr ni loc of
        None \<Rightarrow> Inl WIMLIB_ERR_NTFS_3G
      | Some na \<Rightarrow>
          (let buf = ntfs_attr_pread na 0 4
           in if length buf \<noteq> 4 then Inl WIMLIB_ERR_NTFS_3G else Inr (get_le32 buf 0)))"

text \<open>The default case asserts that it is not reached; the callers pass the two types.\<close>

fun attr_type_to_wimlib_stream_type :: "ATTR_TYPES \<Rightarrow> stream_type" where
  "attr_type_to_wimlib_stream_type AT_DATA = STREAM_TYPE_DATA"
| "attr_type_to_wimlib_stream_type AT_REPARSE_POINT = STREAM_TYPE_REPARSE_POINT"
| "attr_type_to_wimlib_stream_type AT_OTHER = STREAM_TYPE_UNKNOWN"

definition set_attr_sort_key :: "ntfs_inode \<Rightarrow> ntfs_location \<Rightarrow> wimlib_error + ntfs_location" where
  "set_attr_sort_key ni loc =
     (case open_ntfs_attr ni loc of
        None \<Rightarrow> Inl WIMLIB_ERR_NTFS_3G
      | Some na \<Rightarrow>
          Inr (loc\<lparr>loc_sort_key :=
                 (case attr_first_lcn na of
                    None \<Rightarrow> 0
                  | Some lcn \<Rightarrow> if lcn \<noteq> LCN_HOLE then of_int lcn else 0)\<rparr>))"

text \<open>
  Lines 289 to 335 of \<open>scan_ntfs_attr\<close>: the blob descriptor of a stream that is not
  empty. An error comes with the state after \<open>out_cleanup\<close> freed the blob.
\<close>

definition scan_ntfs_attr_blob ::
  "capture_env \<Rightarrow> capture_state \<Rightarrow> wim_inode \<Rightarrow> ntfs_inode \<Rightarrow> ATTR_TYPES \<Rightarrow> ATTR_RECORD
     \<Rightarrow> (wimlib_error \<times> capture_state) + (blob_descriptor \<times> wim_inode \<times> capture_state)" where
  "scan_ntfs_attr_blob env s0 inode ni type attr =
     (let data_size = attr_value_length attr;
          name_nchars = length (attr_rec_name attr);
          (blob_ok, s1) = alloc env s0
      in if \<not> blob_ok then Inl (WIMLIB_ERR_NOMEM, s1)
         else (let (loc_ok, s2) = alloc env s1;
                   blob0 = \<lparr>blob_location = BLOB_NONEXISTENT, blob_size = 0, blob_ntfs_loc = None\<rparr>
               in if \<not> loc_ok then Inl (WIMLIB_ERR_NOMEM, free_blob_descriptor (Some blob0) s2)
                  else (let s3 = get_ntfs_volume s2;
                            loc0 = \<lparr>loc_mft_no = mft_no ni, loc_attr_type = type,
                                    loc_attr_name_nchars = 0, loc_attr_name = None,
                                    loc_sort_key = 0\<rparr>;
                            blob1 = \<lparr>blob_location = BLOB_IN_NTFS_VOLUME, blob_size = data_size,
                                     blob_ntfs_loc = Some loc0\<rparr>;
                            (name_ok, s4) = (if name_nchars \<noteq> 0 then alloc env s3 else (True, s3))
                        in if \<not> name_ok
                           then Inl (WIMLIB_ERR_NOMEM, free_blob_descriptor (Some blob1) s4)
                           else (let loc1 = (if name_nchars \<noteq> 0
                                             then loc0\<lparr>loc_attr_name := Some (attr_rec_name attr),
                                                       loc_attr_name_nchars := of_nat name_nchars\<rparr>
                                             else loc0);
                                     blob2 = blob1\<lparr>blob_ntfs_loc := Some loc1\<rparr>
                                 in (case set_attr_sort_key ni loc1 of
                                       Inl e \<Rightarrow> Inl (e, free_blob_descriptor (Some blob2) s4)
                                     | Inr loc2 \<Rightarrow>
                                         (let blob3 = blob2\<lparr>blob_ntfs_loc := Some loc2\<rparr>
                                          in if type = AT_REPARSE_POINT
                                             then (if blob_size blob3 < REPARSE_DATA_OFFSET
                                                   then Inl (WIMLIB_ERR_INVALID_REPARSE_DATA,
                                                             free_blob_descriptor (Some blob3) s4)
                                                   else (let blob4 = blob3\<lparr>blob_size :=
                                                                 blob_size blob3 - REPARSE_DATA_OFFSET\<rparr>
                                                         in (case read_reparse_tag ni loc2 of
                                                               Inl e \<Rightarrow>
                                                                 Inl (e, free_blob_descriptor (Some blob4) s4)
                                                             | Inr tag \<Rightarrow>
                                                                 Inr (blob4, inode\<lparr>i_reparse_tag := tag\<rparr>, s4))))
                                             else Inr (blob3, inode, s4)))))))"

text \<open>
  \<open>scan_ntfs_attr\<close>: the name of the stream, its blob when the attribute is not empty,
  then the stream is added to the inode (\<open>inode_add_stream\<close>, one allocation, the new
  stream after the others) and the blob registered as unhashed.
\<close>

definition scan_ntfs_attr ::
  "capture_env \<Rightarrow> capture_state \<Rightarrow> wim_inode \<Rightarrow> ntfs_inode \<Rightarrow> ATTR_TYPES \<Rightarrow> ATTR_RECORD
     \<Rightarrow> wimlib_error option \<times> wim_inode \<times> capture_state" where
  "scan_ntfs_attr env s0 inode ni type attr =
     (let data_size = attr_value_length attr;
          name_nchars = length (attr_rec_name attr);
          (name_ok, s1) = (if name_nchars \<noteq> 0 then alloc env s0 else (True, s0));
          stream_name = (if name_nchars \<noteq> 0 then Some (attr_rec_name attr) else None)
      in if \<not> name_ok then (Some WIMLIB_ERR_NOMEM, inode, s1)
         else (case (if data_size \<noteq> 0
                     then map_sum id (\<lambda>(b, i, s). (Some b, i, s))
                            (scan_ntfs_attr_blob env s1 inode ni type attr)
                     else Inr (None, inode, s1)) of
                 Inl (e, s2) \<Rightarrow> (Some e, inode, s2)
               | Inr (blob, inode2, s2) \<Rightarrow>
                   (let (strm_ok, s3) = alloc env s2
                    in if \<not> strm_ok
                       then (Some WIMLIB_ERR_NOMEM, inode2, free_blob_descriptor blob s3)
                       else (None,
                             inode2\<lparr>i_streams := i_streams inode2 @
                                 [\<lparr>stream_type = attr_type_to_wimlib_stream_type type,
                                   stream_name = stream_name,
                                   stream_blob = blob,
                                   stream_id = length (i_streams inode2)\<rparr>]\<rparr>,
                             prepare_unhashed_blob blob s3))))"

text \<open>
  \<open>scan_ntfs_attrs_with_type\<close>: the loop over the attribute records of one type, in
  the order of the enumeration; the first error ends it.
\<close>

fun scan_ntfs_attrs_loop ::
  "capture_env \<Rightarrow> capture_state \<Rightarrow> wim_inode \<Rightarrow> ntfs_inode \<Rightarrow> ATTR_TYPES \<Rightarrow> ATTR_RECORD list
     \<Rightarrow> wimlib_error option \<times> wim_inode \<times> capture_state" where
  "scan_ntfs_attrs_loop env s inode ni type [] =
     (if ni_lookup_fails ni type then (Some WIMLIB_ERR_NTFS_3G, inode, s) else (None, inode, s))"
| "scan_ntfs_attrs_loop env s inode ni type (attr # attrs) =
     (case scan_ntfs_attr env s inode ni type attr of
        (Some e, inode', s') \<Rightarrow> (Some e, inode', s')
      | (None, inode', s') \<Rightarrow> scan_ntfs_attrs_loop env s' inode' ni type attrs)"

definition scan_ntfs_attrs_with_type ::
  "capture_env \<Rightarrow> capture_state \<Rightarrow> wim_inode \<Rightarrow> ntfs_inode \<Rightarrow> ATTR_TYPES
     \<Rightarrow> wimlib_error option \<times> wim_inode \<times> capture_state" where
  "scan_ntfs_attrs_with_type env s inode ni type =
     (if ni_search_ctx_fails ni then (Some WIMLIB_ERR_NTFS_3G, inode, s)
      else scan_ntfs_attrs_loop env s inode ni type
             (filter (\<lambda>attr. attr_rec_type attr = type) (ni_attr_records ni)))"

section \<open>ntfs-3g_capture.c: the security descriptor of an inode\<close>

fun sd_set_lookup :: "u8 list list \<Rightarrow> u8 list \<Rightarrow> nat option" where
  "sd_set_lookup [] sd = None"
| "sd_set_lookup (x # xs) sd =
     (if x = sd then Some 0 else map_option Suc (sd_set_lookup xs sd))"

text \<open>
  Modelled from the spec: \<open>sd_set_add_sd\<close> is in security.c, which is not among the
  sources. Section 4.4: \<open>add\<close> returns the ID of the descriptor, the existing one for a
  duplicate and the next free one for a new descriptor, or -1 if the allocation failed.
\<close>

definition sd_set_add_sd :: "capture_env \<Rightarrow> capture_state \<Rightarrow> u8 list \<Rightarrow> int \<times> capture_state" where
  "sd_set_add_sd env s sd =
     (case sd_set_lookup (sd_set s) sd of
        Some i \<Rightarrow> (int i, s)
      | None \<Rightarrow>
          (let (ok, s') = alloc env s
           in if ok then (int (length (sd_set s)), s'\<lparr>sd_set := sd_set s @ [sd]\<rparr>)
              else (-1, s')))"

text \<open>
  \<open>get_security_descriptor\<close> from the label \<open>retry\<close> on, with the size of the buffer
  it has. The library may ask for a larger buffer each time it is called, so the
  retries need not end: the function is partial, and \<open>None\<close> is a call that does not
  return. A buffer from the heap is freed on every path.
\<close>

partial_function (option) get_security_descriptor_retry ::
  "capture_env \<Rightarrow> ntfs_inode \<Rightarrow> nat \<Rightarrow> wim_inode \<Rightarrow> capture_state
     \<Rightarrow> (wimlib_error option \<times> wim_inode \<times> capture_state) option" where
  "get_security_descriptor_retry env ni avail_size inode s =
     (let (ret, buf) = ni_acl ni avail_size
      in if ret < 0 then Some (Some WIMLIB_ERR_NTFS_3G, inode, s)
         else if nat ret > avail_size
         then (let (ok, s') = alloc env s
               in if \<not> ok then Some (Some WIMLIB_ERR_NOMEM, inode, s')
                  else get_security_descriptor_retry env ni (nat ret) inode s')
         else if ret > 0
         then (let (sd_id, s') = sd_set_add_sd env s (take (nat ret) buf);
                   inode' = inode\<lparr>i_security_id := sd_id\<rparr>
               in if sd_id < 0 then Some (Some WIMLIB_ERR_NOMEM, inode', s')
                  else Some (None, inode', s'))
         else Some (None, inode, s))"

declare get_security_descriptor_retry.simps [code]

text \<open>The function starts with its buffer of 4096 bytes on the stack.\<close>

definition get_security_descriptor ::
  "capture_env \<Rightarrow> ntfs_inode \<Rightarrow> wim_inode \<Rightarrow> capture_state
     \<Rightarrow> (wimlib_error option \<times> wim_inode \<times> capture_state) option" where
  "get_security_descriptor env ni inode s = get_security_descriptor_retry env ni 4096 inode s"

section \<open>ntfs-3g_capture.c: inodes and dentries\<close>

text \<open>
  Windows attribute flags and reparse tags, and the flag of \<open>i_rp_flags\<close>; they are
  declared in headers that are not among the sources and have the values of the Windows
  API and of the WIM format.
\<close>

definition FILE_ATTRIBUTE_DIRECTORY :: u32 where
  "FILE_ATTRIBUTE_DIRECTORY = 0x10"

definition FILE_ATTRIBUTE_REPARSE_POINT :: u32 where
  "FILE_ATTRIBUTE_REPARSE_POINT = 0x400"

definition FILE_ATTRIBUTE_ENCRYPTED :: u32 where
  "FILE_ATTRIBUTE_ENCRYPTED = 0x4000"

definition WIM_IO_REPARSE_TAG_SYMLINK :: u32 where
  "WIM_IO_REPARSE_TAG_SYMLINK = 0xA000000C"

definition WIM_IO_REPARSE_TAG_MOUNT_POINT :: u32 where
  "WIM_IO_REPARSE_TAG_MOUNT_POINT = 0xA0000003"

definition WIM_RP_FLAG_NOT_FIXED :: u16 where
  "WIM_RP_FLAG_NOT_FIXED = 1"

text \<open>
  Modelled from the spec: the inode that \<open>inode_table_new_dentry\<close> allocates for an inode
  number it has not seen (inode.c and inode_table.c are not among the sources). Section 3:
  no stream, no security descriptor (the ID \<open>-1\<close>), and no dentry refers to it yet.
\<close>

definition new_inode :: "u64 \<Rightarrow> wim_inode" where
  "new_inode ino =
     \<lparr>i_ino = ino, i_nlink = 0, i_creation_time = 0, i_last_write_time = 0,
      i_last_access_time = 0, i_attributes = 0, i_reparse_tag = 0,
      i_rp_flags = WIM_RP_FLAG_NOT_FIXED, i_security_id = -1, i_streams = []\<rparr>"

text \<open>
  Collaborators for concrete inputs: no allocation fails, nothing is excluded, the
  progress callback never ends the capture, the error hook passes every error on, names
  are transcoded code unit by code unit, a directory is an inode with the directory flag
  and without the reparse point flag, a symbolic link is a reparse point with the tag of
  a symbolic link or of a mount point, and no flag is set.
\<close>

definition quiet_env :: capture_env where
  "quiet_env =
     \<lparr>alloc_ok = (\<lambda>k. True),
      try_exclude = (\<lambda>path. 0),
      do_capture_progress = (\<lambda>status path. None),
      report_capture_error = (\<lambda>e path. Some e),
      utf16le_to_tstr = (\<lambda>name. Inr (map (\<lambda>c. char_of (unat c)) name)),
      inode_is_directory = (\<lambda>inode.
         i_attributes inode AND (FILE_ATTRIBUTE_DIRECTORY OR FILE_ATTRIBUTE_REPARSE_POINT)
           = FILE_ATTRIBUTE_DIRECTORY),
      inode_is_symlink = (\<lambda>inode.
         i_attributes inode AND FILE_ATTRIBUTE_REPARSE_POINT \<noteq> 0 \<and>
         (i_reparse_tag inode = WIM_IO_REPARSE_TAG_SYMLINK \<or>
          i_reparse_tag inode = WIM_IO_REPARSE_TAG_MOUNT_POINT)),
      ADD_FLAG_NO_UNSUPPORTED_EXCLUDE = False,
      ADD_FLAG_RPFIX = False,
      ADD_FLAG_NO_ACLS = False\<rparr>"

text \<open>The state in which \<open>ntfs_3g_build_dentry_tree\<close> starts the scan: the volume is
  mounted and the capture holds the one reference to it.\<close>

definition initial_capture_state :: capture_state where
  "initial_capture_state =
     \<lparr>alloc_count = 0, volume_refcnt = 1, volume_mounted = True,
      inode_table = (\<lambda>ino. None), sd_set = [], unhashed_blobs = []\<rparr>"

text \<open>Boundary scenario 5 of the spec: a reparse point attribute of 4 bytes.\<close>

definition short_reparse_attr :: ATTR_RECORD where
  "short_reparse_attr =
     \<lparr>attr_rec_type = AT_REPARSE_POINT, attr_rec_name = [], attr_value_length = 4,
      attr_open_fails = False, attr_first_lcn = None,
      attr_contents = [0x0C, 0, 0, 0xA0]\<rparr>"

definition short_link_inode :: ntfs_inode where
  "short_link_inode = example_link_inode\<lparr>ni_attr_records := [short_reparse_attr]\<rparr>"

text \<open>An inode whose security descriptor has length 0.\<close>

definition no_acl_inode :: ntfs_inode where
  "no_acl_inode = example_link_inode\<lparr>ni_acl := (\<lambda>avail. (0, []))\<rparr>"

text \<open>A reparse point attribute of 8 bytes: the tag and a data length of 0, no data.\<close>

definition header_only_reparse_attr :: ATTR_RECORD where
  "header_only_reparse_attr =
     \<lparr>attr_rec_type = AT_REPARSE_POINT, attr_rec_name = [], attr_value_length = 8,
      attr_open_fails = False, attr_first_lcn = None,
      attr_contents = [0x0C, 0, 0, 0xA0, 0, 0, 0, 0]\<rparr>"

definition header_only_link_inode :: ntfs_inode where
  "header_only_link_inode = example_link_inode\<lparr>ni_attr_records := [header_only_reparse_attr]\<rparr>"

text \<open>Collaborators with an allocator that has no memory left.\<close>

definition no_memory_env :: capture_env where
  "no_memory_env = quiet_env\<lparr>alloc_ok := (\<lambda>k. False)\<rparr>"

section \<open>metadata_resource.c: writing the metadata resource\<close>

text \<open>
  The length is a \<open>u32\<close> in the source; each addition to it wraps around at \<open>2 ^ 32\<close>:
  the product \<open>sizeof(u64) * num_entries\<close> and the sizes are 64-bit values that the
  assignment truncates. The model computes in \<open>nat\<close> with the wrap-around written out;
  \<open>(total_length + 7) & ~7\<close> clears the three low bits of the wrapped sum.
\<close>

definition recalculate_security_data_length :: "wim_security_data \<Rightarrow> wim_security_data" where
  "recalculate_security_data_length sd =
     (let total0 = (8 * unat (num_entries sd) + 2 * 4) mod 2 ^ 32;
          total1 = foldl (\<lambda>total_length sz. (total_length + unat sz) mod 2 ^ 32) total0
                     (take (unat (num_entries sd)) (sizes sd))
      in sd\<lparr>total_length := of_nat (((total1 + 7) mod 2 ^ 32) div 8 * 8)\<rparr>)"

text \<open>A little-endian field of a given width.\<close>

fun put_le :: "nat \<Rightarrow> nat \<Rightarrow> u8 list" where
  "put_le 0 v = []"
| "put_le (Suc w) v = of_nat (v mod 256) # put_le w (v div 256)"

definition align8 :: "nat \<Rightarrow> nat" where
  "align8 n = (n + 7) div 8 * 8"

definition name_bytes :: "u16 list option \<Rightarrow> u8 list" where
  "name_bytes name = concat (map (\<lambda>c. put_le 2 (unat c)) (case name of None \<Rightarrow> [] | Some n \<Rightarrow> n))"

text \<open>
  Modelled from the spec: \<open>dentry_out_total_length\<close> and \<open>write_dentry\<close> are in dentry.c,
  which is not among the sources. The serialized dentry is the listing of section 6.2,
  field after field: the fixed fields, the long name and the short name, each followed by
  a zero code unit, and the padding to a multiple of 8. Its length is computed from the
  byte counts of the names. The fields that the model of a dentry does not carry
  (timestamps, hash, reparse fields) are written as zero bytes, and so is the number of
  alternate streams: a dentry of the model has none. The lengths and offsets are 64-bit
  values in the source; a metadata resource of \<open>2 ^ 64\<close> bytes is out of reach and the
  model counts in \<open>nat\<close>.
\<close>

definition dentry_out_total_length :: "wim_dentry_rec \<Rightarrow> nat" where
  "dentry_out_total_length d =
     align8 (108 + unat (file_name_nbytes d) + 2 + unat (short_name_nbytes d) + 2)"

definition write_dentry :: "wim_dentry_rec \<Rightarrow> u8 list" where
  "write_dentry d =
     (let unpadded =
            put_le 8 (dentry_out_total_length d)
            @ put_le 4 (unat (d_attributes d))
            @ put_le 4 (unat (d_security_id d))
            @ put_le 8 (unat (subdir_offset d))
            @ replicate 16 0
            @ replicate 24 0
            @ replicate 20 0
            @ replicate 4 0
            @ replicate 4 0
            @ put_le 8 (unat (d_hard_link_group_id d))
            @ put_le 2 0
            @ put_le 2 (unat (short_name_nbytes d))
            @ put_le 2 (unat (file_name_nbytes d))
            @ put_le 2 0
            @ name_bytes (file_name d) @ put_le 2 0
            @ name_bytes (short_name d) @ put_le 2 0
      in unpadded @ replicate (align8 (length unpadded) - length unpadded) 0)"

text \<open>
  Modelled from the spec: \<open>calculate_subdir_offsets\<close> is in dentry.c. Section 4.8, step
  4: a pre-order walk that gives each directory the cursor as its subdirectory offset
  and advances the cursor by the serialized length of its children and by the 8 bytes of
  the end-of-directory entry; a dentry that is not a directory gets the offset 0
  (section 6.2).
\<close>

fun calculate_subdir_offsets :: "wim_dentry \<Rightarrow> nat \<Rightarrow> wim_dentry \<times> nat"
  and calculate_subdir_offsets_list :: "wim_dentry list \<Rightarrow> nat \<Rightarrow> wim_dentry list \<times> nat" where
  "calculate_subdir_offsets (Dentry d children) cursor =
     (if spec_dentry_is_directory d
      then (let (children', cursor') =
                  calculate_subdir_offsets_list children
                    (cursor + sum_list (map (\<lambda>c. dentry_out_total_length (d_rec c)) children) + 8)
            in (Dentry (d\<lparr>subdir_offset := of_nat cursor\<rparr>) children', cursor'))
      else (let (children', cursor') = calculate_subdir_offsets_list children cursor
            in (Dentry (d\<lparr>subdir_offset := 0\<rparr>) children', cursor')))"
| "calculate_subdir_offsets_list [] cursor = ([], cursor)"
| "calculate_subdir_offsets_list (c # cs) cursor =
     (let (c', cursor1) = calculate_subdir_offsets c cursor;
          (cs', cursor2) = calculate_subdir_offsets_list cs cursor1
      in (c' # cs', cursor2))"

text \<open>
  Modelled from the spec: \<open>write_wim_security_data\<close> is in security.c and
  \<open>write_dentry_tree\<close> in dentry.c. The security block is the listing of section 6.2: the
  two 32-bit fields, the sizes, the descriptors as they are, the padding to a multiple
  of 8. The tree is the root and an end-of-directory entry, then in pre-order, for each
  dentry with a subdirectory offset, its children and an end-of-directory entry
  (sections 4.7 and 4.8).
\<close>

definition write_wim_security_data :: "wim_security_data \<Rightarrow> u8 list" where
  "write_wim_security_data sd =
     (let unpadded =
            put_le 4 (unat (total_length sd))
            @ put_le 4 (unat (num_entries sd))
            @ concat (map (\<lambda>sz. put_le 8 (unat sz)) (sizes sd))
            @ concat (descriptors sd)
      in unpadded @ replicate (align8 (length unpadded) - length unpadded) 0)"

fun write_dir_dentries :: "wim_dentry \<Rightarrow> u8 list"
  and write_dir_dentries_list :: "wim_dentry list \<Rightarrow> u8 list" where
  "write_dir_dentries (Dentry d children) =
     (if subdir_offset d \<noteq> 0
      then concat (map (\<lambda>c. write_dentry (d_rec c)) children) @ put_le 8 0
      else [])
     @ write_dir_dentries_list children"
| "write_dir_dentries_list [] = []"
| "write_dir_dentries_list (c # cs) = write_dir_dentries c @ write_dir_dentries_list cs"

definition write_dentry_tree :: "wim_dentry \<Rightarrow> u8 list" where
  "write_dentry_tree root = write_dentry (d_rec root) @ put_le 8 0 @ write_dir_dentries root"

text \<open>
  What \<open>prepare_metadata_resource\<close> calls beyond the above: \<open>select_wim_image\<close> (its
  return value), \<open>new_filler_directory\<close> for an image without root, and the allocation of
  the buffer of a given length.
\<close>

record writer_env =
  select_wim_image :: "wimlib_error option"
  new_filler_directory :: "wimlib_error + wim_dentry"
  MALLOC_buf :: "nat \<Rightarrow> bool"

text \<open>
  \<open>prepare_metadata_resource\<close>: the buffer and its length, or an error. The bytes are
  written into a buffer of \<open>len\<close> bytes; when the bytes written are not \<open>len\<close> the
  assertion of line 269 fails (and the buffer was overrun or not filled): the function
  does not return, which is \<open>None\<close>.
\<close>

definition prepare_metadata_resource ::
  "writer_env \<Rightarrow> wim_image_metadata \<Rightarrow> (wimlib_error + u8 list \<times> nat) option" where
  "prepare_metadata_resource env imd =
     (case select_wim_image env of
        Some e \<Rightarrow> Some (Inl e)
      | None \<Rightarrow>
          (case (case root_dentry imd of
                   None \<Rightarrow> new_filler_directory env
                 | Some root \<Rightarrow> Inr root) of
             Inl e \<Rightarrow> Some (Inl e)
           | Inr root \<Rightarrow>
               (let sd = recalculate_security_data_length (security_data imd);
                    subdir_offset0 = align8 (unat (total_length sd))
                                     + dentry_out_total_length (d_rec root) + 8;
                    (root', subdir_offset_final) = calculate_subdir_offsets root subdir_offset0;
                    len = subdir_offset_final
                in if \<not> MALLOC_buf env len then Some (Inl WIMLIB_ERR_NOMEM)
                   else (let written = write_wim_security_data sd @ write_dentry_tree root'
                         in if length written = len then Some (Inr (written, len)) else None))))"

text \<open>
  The invariants of the image that the writer relies on: the security data has as many
  sizes and descriptors as it has entries, and each size is the length of its
  descriptor; the byte counts of the names of a dentry are those of its names.
\<close>

definition security_data_ok :: "wim_security_data \<Rightarrow> bool" where
  "security_data_ok sd =
     (unat (num_entries sd) = length (sizes sd) \<and>
      map length (descriptors sd) = map unat (sizes sd))"

definition dentry_names_ok :: "wim_dentry_rec \<Rightarrow> bool" where
  "dentry_names_ok d =
     (unat (file_name_nbytes d) = 2 * length (case file_name d of None \<Rightarrow> [] | Some n \<Rightarrow> n) \<and>
      unat (short_name_nbytes d) = 2 * length (case short_name d of None \<Rightarrow> [] | Some n \<Rightarrow> n))"

fun tree_names_ok :: "wim_dentry \<Rightarrow> bool"
  and tree_names_ok_list :: "wim_dentry list \<Rightarrow> bool" where
  "tree_names_ok (Dentry d children) = (dentry_names_ok d \<and> tree_names_ok_list children)"
| "tree_names_ok_list [] = True"
| "tree_names_ok_list (c # cs) = (tree_names_ok c \<and> tree_names_ok_list cs)"

text \<open>
  The number of bytes that follow the root and its end-of-directory entry: for each
  directory its children and one end-of-directory entry.
\<close>

fun subdirs_length :: "wim_dentry \<Rightarrow> nat"
  and subdirs_length_list :: "wim_dentry list \<Rightarrow> nat" where
  "subdirs_length (Dentry d children) =
     (if spec_dentry_is_directory d
      then sum_list (map (\<lambda>c. dentry_out_total_length (d_rec c)) children) + 8
      else 0)
     + subdirs_length_list children"
| "subdirs_length_list [] = 0"
| "subdirs_length_list (c # cs) = subdirs_length c + subdirs_length_list cs"

text \<open>The unwrapped length of the security data: header, sizes and descriptors.\<close>

definition security_data_length :: "wim_security_data \<Rightarrow> nat" where
  "security_data_length sd =
     8 + 8 * unat (num_entries sd) + sum_list (map unat (sizes sd))"

text \<open>
  Concrete inputs of the writer: no collaborator fails; an empty directory as root; an
  image with two descriptors of 3 and 5 bytes and a root with one file named "a"; and an
  image with two different descriptors of \<open>2 ^ 31 - 8\<close> bytes each.
\<close>

definition plain_writer_env :: writer_env where
  "plain_writer_env =
     \<lparr>select_wim_image = None,
      new_filler_directory = Inr (Dentry
         \<lparr>d_length = 0, d_attributes = 0x10, d_security_id = 0, subdir_offset = 0,
          d_hard_link_group_id = 0, file_name = None, file_name_nbytes = 0,
          short_name = None, short_name_nbytes = 0\<rparr> []),
      MALLOC_buf = (\<lambda>len. True)\<rparr>"

definition empty_root :: wim_dentry_rec where
  "empty_root =
     \<lparr>d_length = 0, d_attributes = 0x10, d_security_id = 0, subdir_offset = 0,
      d_hard_link_group_id = 0, file_name = None, file_name_nbytes = 0,
      short_name = None, short_name_nbytes = 0\<rparr>"

definition small_image :: wim_image_metadata where
  "small_image =
     \<lparr>root_dentry = Some (Dentry empty_root
        [Dentry (empty_root\<lparr>d_attributes := 0x20, file_name := Some [0x61],
                            file_name_nbytes := 2\<rparr>) []]),
      security_data = \<lparr>total_length = 0, num_entries = 2, sizes = [3, 5],
                        descriptors = [[1, 2, 3], [4, 5, 6, 7, 8]]\<rparr>,
      inode_list = [], unhashed_streams = []\<rparr>"

definition huge_security_image :: wim_image_metadata where
  "huge_security_image =
     \<lparr>root_dentry = Some (Dentry empty_root []),
      security_data = \<lparr>total_length = 0, num_entries = 2, sizes = [2147483640, 2147483640],
                        descriptors = [replicate 2147483640 0, replicate 2147483640 1]\<rparr>,
      inode_list = [], unhashed_streams = []\<rparr>"

text \<open>The offsets are the only thing that their assignment changes in a dentry.\<close>

definition same_but_offset :: "wim_dentry \<Rightarrow> wim_dentry \<Rightarrow> bool" where
  "same_but_offset c' c = (\<exists>x. d_rec c' = (d_rec c)\<lparr>subdir_offset := x\<rparr>)"

section \<open>ntfs-3g_capture.c: the dentry tree\<close>

text \<open>
  A dentry of the capture with its children, in the order in which they were added. The
  inode of a dentry is an inode of the inode table; the dentry holds its number.
\<close>

record capture_dentry_rec =
  d_name :: string
  d_inode :: u64
  is_win32_name :: bool
  d_short_name :: "u16 list option"
  d_short_name_nbytes :: nat

datatype capture_dentry =
  CaptureDentry (cd_rec: capture_dentry_rec) (cd_children: "capture_dentry list")

text \<open>
  Modelled from the spec: \<open>inode_table_new_dentry\<close> is in inode_table.c, which is not
  among the sources. Sections 3 and 4.5: the inode table maps the inode numbers of the
  volume to shared inodes; the new dentry is bound to the inode of its number, a fresh
  one when the number was not seen; the link count of an inode is the number of dentries
  that refer to it. The dentry is one allocation, which may fail.
\<close>

definition inode_table_new_dentry ::
  "capture_env \<Rightarrow> capture_state \<Rightarrow> string \<Rightarrow> u64
     \<Rightarrow> (wimlib_error + capture_dentry) \<times> capture_state" where
  "inode_table_new_dentry env s name ino =
     (let (ok, s1) = alloc env s
      in if \<not> ok then (Inl WIMLIB_ERR_NOMEM, s1)
         else (let inode = (case inode_table s1 ino of None \<Rightarrow> new_inode ino | Some i \<Rightarrow> i)
               in (Inr (CaptureDentry
                          \<lparr>d_name = name, d_inode = ino, is_win32_name = False,
                           d_short_name = None, d_short_name_nbytes = 0\<rparr> []),
                   s1\<lparr>inode_table := (inode_table s1)(ino \<mapsto> inode\<lparr>i_nlink := i_nlink inode + 1\<rparr>)\<rparr>)))"

text \<open>The inode of a dentry: \<open>dentry->d_inode\<close>, read through the table.\<close>

definition dentry_inode :: "capture_state \<Rightarrow> capture_dentry \<Rightarrow> wim_inode" where
  "dentry_inode s dentry =
     (case inode_table s (d_inode (cd_rec dentry)) of
        None \<Rightarrow> new_inode (d_inode (cd_rec dentry))
      | Some inode \<Rightarrow> inode)"

text \<open>
  Modelled from the spec: \<open>free_dentry_tree\<close> is in dentry.c. Sections 3, 4.6 and 5: an
  error tears down the subtree built so far; each of its dentries stops referring to its
  inode, and an inode to which no dentry refers any more leaves the table. The blobs
  already registered stay in the list of unhashed blobs.
\<close>

definition put_inode :: "u64 \<Rightarrow> capture_state \<Rightarrow> capture_state" where
  "put_inode ino s =
     (case inode_table s ino of
        None \<Rightarrow> s
      | Some inode \<Rightarrow>
          if i_nlink inode \<le> 1 then s\<lparr>inode_table := (inode_table s)(ino := None)\<rparr>
          else s\<lparr>inode_table := (inode_table s)(ino \<mapsto> inode\<lparr>i_nlink := i_nlink inode - 1\<rparr>)\<rparr>)"

fun free_dentry :: "capture_dentry \<Rightarrow> capture_state \<Rightarrow> capture_state"
  and free_dentries :: "capture_dentry list \<Rightarrow> capture_state \<Rightarrow> capture_state" where
  "free_dentry (CaptureDentry d children) s = put_inode (d_inode d) (free_dentries children s)"
| "free_dentries [] s = s"
| "free_dentries (c # cs) s = free_dentries cs (free_dentry c s)"

definition free_dentry_tree :: "capture_dentry option \<Rightarrow> capture_state \<Rightarrow> capture_state" where
  "free_dentry_tree root s = (case root of None \<Rightarrow> s | Some r \<Rightarrow> free_dentry r s)"

text \<open>
  Modelled from the spec: \<open>path_basename_with_len\<close> is in paths.c. The name of a dentry
  is the last component of its path, empty for the root \<open>/\<close> (sections 3 and 4.6).
\<close>

definition path_basename_with_len :: "string \<Rightarrow> string" where
  "path_basename_with_len path = rev (takeWhile (\<lambda>c. c \<noteq> CHR ''/'') (rev path))"

section \<open>ntfs-3g_capture.c: DOS names\<close>

text \<open>The name types of the library and the inode number of an MFT reference.\<close>

definition FILE_NAME_POSIX :: u8 where "FILE_NAME_POSIX = 0"
definition FILE_NAME_WIN32 :: u8 where "FILE_NAME_WIN32 = 1"
definition FILE_NAME_DOS :: u8 where "FILE_NAME_DOS = 2"

definition MREF :: "u64 \<Rightarrow> u64" where
  "MREF mref = mref AND 0xFFFFFFFFFFFF"

text \<open>
  The map from inode numbers to DOS names is a search tree in the source. Inserting a
  name allocates a node, asserts that the name has at most 24 bytes (a failed assertion
  ends the program: \<open>None\<close>) and keeps the name that is already there for the inode.
\<close>

type_synonym dos_name_map = "u64 \<Rightarrow> u16 list option"

definition insert_dos_name ::
  "capture_env \<Rightarrow> capture_state \<Rightarrow> dos_name_map \<Rightarrow> u16 list \<Rightarrow> u64
     \<Rightarrow> (wimlib_error option \<times> dos_name_map \<times> capture_state) option" where
  "insert_dos_name env s dmap dos_name ntfs_ino =
     (let (ok, s1) = alloc env s
      in if \<not> ok then Some (Some WIMLIB_ERR_NOMEM, dmap, s1)
         else if 2 * length dos_name > 24 then None
         else (case dmap ntfs_ino of
                 Some existing \<Rightarrow> Some (None, dmap, s1)
               | None \<Rightarrow> Some (None, dmap(ntfs_ino \<mapsto> dos_name), s1)))"

definition lookup_dos_name :: "dos_name_map \<Rightarrow> u64 \<Rightarrow> u16 list option" where
  "lookup_dos_name dmap ntfs_ino = dmap ntfs_ino"

text \<open>The inode number of the dentry's inode is the number under which the table has it.\<close>

definition set_dentry_dos_name ::
  "capture_env \<Rightarrow> capture_state \<Rightarrow> capture_dentry \<Rightarrow> dos_name_map
     \<Rightarrow> wimlib_error option \<times> capture_dentry \<times> capture_state" where
  "set_dentry_dos_name env s dentry dmap =
     (if is_win32_name (cd_rec dentry)
      then (case lookup_dos_name dmap (d_inode (cd_rec dentry)) of
              Some dos_name \<Rightarrow>
                (let (ok, s1) = alloc env s
                 in if \<not> ok then (Some WIMLIB_ERR_NOMEM, dentry, s1)
                    else (None,
                          CaptureDentry
                            ((cd_rec dentry)\<lparr>d_short_name := Some dos_name,
                                             d_short_name_nbytes := 2 * length dos_name\<rparr>)
                            (cd_children dentry),
                          s1))
            | None \<Rightarrow> (None, dentry, s))
      else (None, dentry, s))"

text \<open>The loop \<open>for_dentry_child\<close> of \<open>ntfs_3g_recurse_directory\<close>; an error ends it.\<close>

fun set_dentry_dos_names ::
  "capture_env \<Rightarrow> capture_state \<Rightarrow> capture_dentry list \<Rightarrow> dos_name_map
     \<Rightarrow> wimlib_error option \<times> capture_dentry list \<times> capture_state" where
  "set_dentry_dos_names env s [] dmap = (None, [], s)"
| "set_dentry_dos_names env s (child # children) dmap =
     (case set_dentry_dos_name env s child dmap of
        (Some e, child', s') \<Rightarrow> (Some e, child' # children, s')
      | (None, child', s') \<Rightarrow>
          (case set_dentry_dos_names env s' children dmap of
             (ret, children', s'') \<Rightarrow> (ret, child' # children', s'')))"

section \<open>ntfs-3g_capture.c: building the dentry tree\<close>

text \<open>
  The arguments of \<open>ntfs_3g_build_dentry_tree_recursive\<close> that change from call to call
  (the state, the MFT reference, the path and the name type) and what it returns: the
  return value (0 is \<open>None\<close>), the dentry (\<open>None\<close> is the null pointer) and the state.
\<close>

type_synonym build_args = "capture_state \<times> u64 \<times> string \<times> u8"
type_synonym build_result = "wimlib_error option \<times> capture_dentry option \<times> capture_state"

text \<open>
  \<open>struct readdir_ctx\<close>: the children of the parent so far, the path of the parent, the
  DOS names and the last return value of the callback. The path buffer is shared in the
  source; each call writes the child's path behind the parent's path. The buffer has
  32768 bytes and the source does not check that a path fits; the model does not bound
  the length of a path.
\<close>

record readdir_ctx =
  ctx_children :: "capture_dentry list"
  ctx_path :: string
  ctx_dos_name_map :: dos_name_map
  ctx_ret :: "wimlib_error option"

text \<open>
  The callback \<open>filldir\<close>; \<open>build\<close> is the recursive call. Modelled from the spec:
  \<open>dentry_add_child\<close> is in dentry.c; the children of a directory keep the order of the
  directory (section 5).
\<close>

definition filldir ::
  "(build_args \<Rightarrow> build_result option) \<Rightarrow> capture_env \<Rightarrow> readdir_ctx \<Rightarrow> capture_state \<Rightarrow> ntfs_dirent
     \<Rightarrow> (wimlib_error option \<times> readdir_ctx \<times> capture_state) option" where
  "filldir build env ctx s entry =
     (let name = de_name entry; name_type = de_name_type entry; mref = de_mref entry
      in case (if name_type AND FILE_NAME_DOS \<noteq> 0
               then insert_dos_name env s (ctx_dos_name_map ctx) name (MREF mref)
               else Some (None, ctx_dos_name_map ctx, s)) of
           None \<Rightarrow> None
         | Some (ret, dmap, s1) \<Rightarrow>
             (let ctx1 = ctx\<lparr>ctx_dos_name_map := dmap\<rparr>
              in if name_type AND FILE_NAME_DOS \<noteq> 0 \<and> (ret \<noteq> None \<or> name_type = FILE_NAME_DOS)
                 then Some (ret, ctx1\<lparr>ctx_ret := ret\<rparr>, s1)
                 else if name = [0x2E] \<or> name = [0x2E, 0x2E]
                 then Some (None, ctx1\<lparr>ctx_ret := None\<rparr>, s1)
                 else (case utf16le_to_tstr env name of
                         Inl e \<Rightarrow> Some (Some e, ctx1\<lparr>ctx_ret := Some e\<rparr>, s1)
                       | Inr mbs_name \<Rightarrow>
                           (let path = ctx_path ctx
                                       @ (if length (ctx_path ctx) \<noteq> 1 then ''/'' else [])
                                       @ mbs_name
                            in (case build (s1, mref, path, name_type) of
                                  None \<Rightarrow> None
                                | Some (ret, child, s2) \<Rightarrow>
                                    Some (ret,
                                          ctx1\<lparr>ctx_children :=
                                                  (case child of
                                                     None \<Rightarrow> ctx_children ctx
                                                   | Some c \<Rightarrow> ctx_children ctx @ [c]),
                                                ctx_ret := ret\<rparr>,
                                          s2))))))"

text \<open>
  \<open>ntfs_readdir\<close> of the library: the callback for each entry in turn; it stops and
  returns nonzero (\<open>True\<close>) when the callback does, and after the last entry when the
  library itself fails.
\<close>

fun ntfs_readdir ::
  "(readdir_ctx \<Rightarrow> capture_state \<Rightarrow> ntfs_dirent
      \<Rightarrow> (wimlib_error option \<times> readdir_ctx \<times> capture_state) option)
     \<Rightarrow> bool \<Rightarrow> readdir_ctx \<Rightarrow> capture_state \<Rightarrow> ntfs_dirent list
     \<Rightarrow> (bool \<times> readdir_ctx \<times> capture_state) option" where
  "ntfs_readdir callback fails ctx s [] = Some (fails, ctx, s)"
| "ntfs_readdir callback fails ctx s (entry # entries) =
     (case callback ctx s entry of
        None \<Rightarrow> None
      | Some (Some e, ctx', s') \<Rightarrow> Some (True, ctx', s')
      | Some (None, ctx', s') \<Rightarrow> ntfs_readdir callback fails ctx' s' entries)"

text \<open>\<open>ntfs_3g_recurse_directory\<close>: the return value, the children of the parent and the state.\<close>

definition ntfs_3g_recurse_directory ::
  "(build_args \<Rightarrow> build_result option) \<Rightarrow> capture_env \<Rightarrow> ntfs_inode \<Rightarrow> string
     \<Rightarrow> capture_dentry list \<Rightarrow> capture_state
     \<Rightarrow> (wimlib_error option \<times> capture_dentry list \<times> capture_state) option" where
  "ntfs_3g_recurse_directory build env ni path parent_children s =
     (case ntfs_readdir (filldir build env) (ni_readdir_fails ni)
             \<lparr>ctx_children = parent_children, ctx_path = path,
              ctx_dos_name_map = (\<lambda>ino. None), ctx_ret = None\<rparr>
             s (ni_dirents ni) of
        None \<Rightarrow> None
      | Some (failed, ctx, s1) \<Rightarrow>
          if failed
          then (case ctx_ret ctx of
                  Some e \<Rightarrow> Some (Some e, ctx_children ctx, s1)
                | None \<Rightarrow> Some (Some WIMLIB_ERR_NTFS_3G, ctx_children ctx, s1))
          else Some (set_dentry_dos_names env s1 (ctx_children ctx) (ctx_dos_name_map ctx)))"

text \<open>
  Lines 734 to 769 of \<open>ntfs_3g_build_dentry_tree_recursive\<close>: the streams of the
  reparse point and of the data, the flag of the reparse fixup, the security descriptor.
\<close>

definition scan_inode ::
  "capture_env \<Rightarrow> capture_state \<Rightarrow> wim_inode \<Rightarrow> ntfs_inode \<Rightarrow> u32
     \<Rightarrow> (wimlib_error option \<times> wim_inode \<times> capture_state) option" where
  "scan_inode env s inode ni attributes =
     (case (if attributes AND FILE_ATTRIBUTE_REPARSE_POINT \<noteq> 0
            then scan_ntfs_attrs_with_type env s inode ni AT_REPARSE_POINT
            else (None, inode, s)) of
        (Some e, inode1, s1) \<Rightarrow> Some (Some e, inode1, s1)
      | (None, inode1, s1) \<Rightarrow>
          (case scan_ntfs_attrs_with_type env s1 inode1 ni AT_DATA of
             (Some e, inode2, s2) \<Rightarrow> Some (Some e, inode2, s2)
           | (None, inode2, s2) \<Rightarrow>
               (let inode3 = (if ADD_FLAG_RPFIX env \<and> inode_is_symlink env inode2
                              then inode2\<lparr>i_rp_flags := i_rp_flags inode2 AND NOT WIM_RP_FLAG_NOT_FIXED\<rparr>
                              else inode2)
                in if \<not> ADD_FLAG_NO_ACLS env then get_security_descriptor env ni inode3 s2
                   else Some (None, inode3, s2))))"

text \<open>
  The label \<open>out\<close>: with an error the tree built so far is freed and the error goes
  through the capture-error hook. The label \<open>out_progress\<close>: the progress callback, then
  \<open>out\<close>.
\<close>

definition out_label ::
  "capture_env \<Rightarrow> string \<Rightarrow> wimlib_error option \<Rightarrow> capture_dentry option \<Rightarrow> capture_state
     \<Rightarrow> build_result" where
  "out_label env path ret root s =
     (case ret of
        None \<Rightarrow> (None, root, s)
      | Some e \<Rightarrow> (report_capture_error env e path, None, free_dentry_tree root s))"

definition out_progress ::
  "capture_env \<Rightarrow> string \<Rightarrow> capture_dentry option \<Rightarrow> capture_state \<Rightarrow> build_result" where
  "out_progress env path root s =
     out_label env path
       (do_capture_progress env
          (if root = None then WIMLIB_SCAN_DENTRY_EXCLUDED else WIMLIB_SCAN_DENTRY_OK) path)
       root s"

text \<open>
  Lines 729 to 776: the inode was not seen before. Its fields are set, its attributes
  scanned, and a directory is read. The inode of the table is the one that is changed.
\<close>

definition build_new_inode ::
  "(build_args \<Rightarrow> build_result option) \<Rightarrow> capture_env \<Rightarrow> capture_state \<Rightarrow> ntfs_inode
     \<Rightarrow> u32 \<Rightarrow> string \<Rightarrow> capture_dentry \<Rightarrow> wim_inode \<Rightarrow> build_result option" where
  "build_new_inode build env s1 ni attributes path root inode =
     (case scan_inode env s1
             (inode\<lparr>i_creation_time := creation_time ni,
                    i_last_write_time := last_data_change_time ni,
                    i_last_access_time := last_access_time ni,
                    i_attributes := attributes\<rparr>) ni attributes of
        None \<Rightarrow> None
      | Some (ret, inode2, s2) \<Rightarrow>
          (let s3 = s2\<lparr>inode_table := (inode_table s2)(d_inode (cd_rec root) \<mapsto> inode2)\<rparr>
           in case ret of
                Some e \<Rightarrow> Some (out_label env path (Some e) (Some root) s3)
              | None \<Rightarrow>
                  if inode_is_directory env inode2
                  then (case ntfs_3g_recurse_directory build env ni path (cd_children root) s3 of
                          None \<Rightarrow> None
                        | Some (Some e, children, s4) \<Rightarrow>
                            Some (out_label env path (Some e)
                                    (Some (CaptureDentry (cd_rec root) children)) s4)
                        | Some (None, children, s4) \<Rightarrow>
                            Some (out_progress env path
                                    (Some (CaptureDentry (cd_rec root) children)) s4))
                  else Some (out_progress env path (Some root) s3)))"

text \<open>
  The body of \<open>ntfs_3g_build_dentry_tree_recursive\<close>; \<open>build\<close> is the function itself
  in the calls that \<open>filldir\<close> makes. The NTFS inode is closed on every path.
\<close>

definition build_dentry_tree_body ::
  "(build_args \<Rightarrow> build_result option) \<Rightarrow> capture_env \<Rightarrow> ntfs_volume \<Rightarrow> build_args
     \<Rightarrow> build_result option" where
  "build_dentry_tree_body build env vol args =
     (case args of (s, mref, path, name_type) \<Rightarrow>
        if try_exclude env path < 0 then Some (out_progress env path None s)
        else if try_exclude env path > 0
        then Some (out_label env path (Some (WIMLIB_ERR_OTHER (try_exclude env path))) None s)
        else (case ntfs_inode_open vol mref of
                None \<Rightarrow> Some (out_label env path (Some WIMLIB_ERR_NTFS_3G) None s)
              | Some ni \<Rightarrow>
                  (case ni_attrib ni of
                     None \<Rightarrow> Some (out_label env path (Some WIMLIB_ERR_NTFS_3G) None s)
                   | Some attributes \<Rightarrow>
                       if attributes AND FILE_ATTRIBUTE_ENCRYPTED \<noteq> 0
                       then (if ADD_FLAG_NO_UNSUPPORTED_EXCLUDE env
                             then Some (out_label env path (Some WIMLIB_ERR_UNSUPPORTED_FILE) None s)
                             else Some (out_label env path
                                          (do_capture_progress env WIMLIB_SCAN_DENTRY_UNSUPPORTED path)
                                          None s))
                       else (case inode_table_new_dentry env s
                                    (path_basename_with_len path) (mft_no ni) of
                               (Inl e, s1) \<Rightarrow> Some (out_label env path (Some e) None s1)
                             | (Inr dentry, s1) \<Rightarrow>
                                 (let root = CaptureDentry
                                       ((cd_rec dentry)\<lparr>is_win32_name :=
                                           (is_win32_name (cd_rec dentry) \<or>
                                            name_type AND FILE_NAME_WIN32 \<noteq> 0)\<rparr>)
                                       (cd_children dentry);
                                      inode = dentry_inode s1 root
                                  in if i_nlink inode > 1
                                     then Some (out_progress env path (Some root) s1)
                                     else build_new_inode build env s1 ni attributes path root inode)))))"

text \<open>
  The recursion, with the depth of the directory tree that it may descend: a volume whose
  directories form a cycle would be scanned for ever. A scan that needs more than the
  given depth has no result here.
\<close>

primrec ntfs_3g_build_dentry_tree_recursive ::
  "nat \<Rightarrow> capture_env \<Rightarrow> ntfs_volume \<Rightarrow> build_args \<Rightarrow> build_result option" where
  "ntfs_3g_build_dentry_tree_recursive 0 env vol = (\<lambda>args. None)"
| "ntfs_3g_build_dentry_tree_recursive (Suc depth) env vol =
     build_dentry_tree_body (ntfs_3g_build_dentry_tree_recursive depth env vol) env vol"

text \<open>
  \<open>ntfs_3g_build_dentry_tree\<close>: the wrapper of the volume and the path buffer are
  allocated, the volume is mounted (\<open>None\<close> when \<open>ntfs_mount\<close> fails), the tree is built
  from the root directory, whose MFT record is \<open>FILE_root\<close>, and the reference to the
  volume is put back.
\<close>

definition FILE_root :: u64 where
  "FILE_root = 5"

definition ntfs_3g_build_dentry_tree ::
  "nat \<Rightarrow> capture_env \<Rightarrow> ntfs_volume option \<Rightarrow> capture_state \<Rightarrow> build_result option" where
  "ntfs_3g_build_dentry_tree depth env mounted s0 =
     (let (volume_ok, s1) = alloc env s0
      in if \<not> volume_ok then Some (Some WIMLIB_ERR_NOMEM, None, s1)
         else (case mounted of
                 None \<Rightarrow> Some (Some WIMLIB_ERR_NTFS_3G, None, s1)
               | Some vol \<Rightarrow>
                   (let s2 = s1\<lparr>volume_refcnt := 1, volume_mounted := True\<rparr>;
                        (path_ok, s3) = alloc env s2
                    in if \<not> path_ok then Some (Some WIMLIB_ERR_NOMEM, None, put_ntfs_volume s3)
                       else (case ntfs_3g_build_dentry_tree_recursive depth env vol
                                    (s3, FILE_root, ''/'', FILE_NAME_POSIX) of
                               None \<Rightarrow> None
                             | Some (ret, root, s4) \<Rightarrow> Some (ret, root, put_ntfs_volume s4)))))"

section \<open>Link counts\<close>

text \<open>
  The link count that the inode table has for an inode number (0 for a number it does not
  have), and the number of dentries of a tree that refer to an inode number.
\<close>

definition link_count :: "capture_state \<Rightarrow> u64 \<Rightarrow> nat" where
  "link_count s ino = (case inode_table s ino of None \<Rightarrow> 0 | Some inode \<Rightarrow> i_nlink inode)"



text \<open>
  Boundary scenario of the spec, hard link: the root directory has the directories
  \<open>a\<close> and \<open>b\<close>, and each of them has an entry \<open>f\<close> for the file with the inode
  number 100, which has one unnamed data stream of 3 bytes.
\<close>

definition hard_link_file :: ntfs_inode where
  "hard_link_file =
     \<lparr>mft_no = 100, creation_time = 1, last_data_change_time = 2, last_access_time = 3,
      ni_attrib = Some 0x20, ni_search_ctx_fails = False,
      ni_attr_records = [example_data_attr],
      ni_lookup_fails = (\<lambda>t. False),
      ni_acl = (\<lambda>avail. (0, [])),
      ni_dirents = [], ni_readdir_fails = False\<rparr>"

definition hard_link_dir :: "u64 \<Rightarrow> ntfs_dirent list \<Rightarrow> ntfs_inode" where
  "hard_link_dir ino entries =
     \<lparr>mft_no = ino, creation_time = 1, last_data_change_time = 2, last_access_time = 3,
      ni_attrib = Some 0x10, ni_search_ctx_fails = False,
      ni_attr_records = [],
      ni_lookup_fails = (\<lambda>t. False),
      ni_acl = (\<lambda>avail. (0, [])),
      ni_dirents = entries, ni_readdir_fails = False\<rparr>"

definition hard_link_volume :: ntfs_volume where
  "hard_link_volume mref =
     (if mref = 5
      then Some (hard_link_dir 5
                   [\<lparr>de_name = [0x2E], de_name_type = FILE_NAME_WIN32, de_mref = 5\<rparr>,
                    \<lparr>de_name = [0x61], de_name_type = FILE_NAME_WIN32, de_mref = 64\<rparr>,
                    \<lparr>de_name = [0x62], de_name_type = FILE_NAME_WIN32, de_mref = 65\<rparr>])
      else if mref = 64
      then Some (hard_link_dir 64 [\<lparr>de_name = [0x66], de_name_type = FILE_NAME_WIN32, de_mref = 100\<rparr>])
      else if mref = 65
      then Some (hard_link_dir 65 [\<lparr>de_name = [0x66], de_name_type = FILE_NAME_WIN32, de_mref = 100\<rparr>])
      else if mref = 100 then Some hard_link_file
      else None)"

text \<open>
  The inode of the file of the hard link scenario once it is captured, with one link,
  and the state of the capture after the file was captured under \<open>/a\<close> alone: four
  allocations (the dentry, the blob, its location and the stream), the wrapper of the
  volume referred to by the capture and by the location of the blob.
\<close>

definition hard_link_blob :: blob_descriptor where
  "hard_link_blob =
     \<lparr>blob_location = BLOB_IN_NTFS_VOLUME, blob_size = 3,
      blob_ntfs_loc = Some \<lparr>loc_mft_no = 100, loc_attr_type = AT_DATA,
                             loc_attr_name_nchars = 0, loc_attr_name = None,
                             loc_sort_key = 77\<rparr>\<rparr>"



text \<open>The dentry of a Win32 name without a short name.\<close>

definition win32_dentry :: "string \<Rightarrow> u64 \<Rightarrow> capture_dentry list \<Rightarrow> capture_dentry" where
  "win32_dentry name ino children =
     CaptureDentry
       \<lparr>d_name = name, d_inode = ino, is_win32_name = True,
        d_short_name = None, d_short_name_nbytes = 0\<rparr> children"

section \<open>Properties of read_metadata_resource\<close>

lemma empty_image_16_parses:
  "spec_read_wim_security_data empty_image_16 16
     = Inr \<lparr>total_length = 8, num_entries = 0, sizes = [], descriptors = []\<rparr>"
  "d_length (projr (spec_read_dentry empty_image_16 16 8)) = 0"
  "isl (spec_read_dentry empty_image_16 16 8) = False"
  by code_simp+

lemma empty_image_110_parses:
  "spec_read_wim_security_data empty_image_110 (lte_size (lte_of empty_image_110 [] True))
     = Inr \<lparr>total_length = 8, num_entries = 0, sizes = [], descriptors = []\<rparr>"
  "spec_read_dentry empty_image_110 (lte_size (lte_of empty_image_110 [] True)) 8
     = Inr \<lparr>d_length = 0, d_attributes = 0, d_security_id = 0, subdir_offset = 0,
             d_hard_link_group_id = 0, file_name = None, file_name_nbytes = 0,
             short_name = None, short_name_nbytes = 0\<rparr>"
  "\<not> lte_size (lte_of empty_image_110 [] True) < 8 + WIM_DENTRY_DISK_SIZE"
  by code_simp+

lemma named_root_image_parses:
  "spec_read_wim_security_data named_root_image (lte_size (lte_of named_root_image h f))
     = Inr \<lparr>total_length = 8, num_entries = 0, sizes = [], descriptors = []\<rparr>"
  "spec_read_dentry named_root_image (lte_size (lte_of named_root_image h f)) 8
     = Inr \<lparr>d_length = 120, d_attributes = 16, d_security_id = 0, subdir_offset = 0,
             d_hard_link_group_id = 0, file_name = Some [88, 0], file_name_nbytes = 4,
             short_name = None, short_name_nbytes = 0\<rparr>"
  "\<not> lte_size (lte_of named_root_image h f) < 8 + WIM_DENTRY_DISK_SIZE"
  unfolding lte_of_def wim_lookup_table_entry.simps by code_simp+

lemma file_root_image_parses:
  "spec_read_wim_security_data file_root_image (lte_size (lte_of file_root_image h f))
     = Inr \<lparr>total_length = 8, num_entries = 0, sizes = [], descriptors = []\<rparr>"
  "spec_read_dentry file_root_image (lte_size (lte_of file_root_image h f)) 8
     = Inr \<lparr>d_length = 120, d_attributes = 32, d_security_id = 0, subdir_offset = 0,
             d_hard_link_group_id = 0, file_name = Some [88, 0], file_name_nbytes = 4,
             short_name = None, short_name_nbytes = 0\<rparr>"
  "\<not> lte_size (lte_of file_root_image h f) < 8 + WIM_DENTRY_DISK_SIZE"
  unfolding lte_of_def wim_lookup_table_entry.simps by code_simp+

lemma named_root_image_buffer:
  "read_metadata_buffer (memory_env named_root_image) named_root_image
     (lte_size (lte_of named_root_image h f)) =
   Inr \<lparr>root_dentry = Some (Dentry
           \<lparr>d_length = 120, d_attributes = 16, d_security_id = 0,
              subdir_offset = 0, d_hard_link_group_id = 0,
              file_name = None, file_name_nbytes = 0,
              short_name = None, short_name_nbytes = 0\<rparr> []),
        security_data = \<lparr>total_length = 8, num_entries = 0, sizes = [], descriptors = []\<rparr>,
        inode_list = [\<lparr>i_attributes_r = 16, i_security_id_r = 0, i_hard_link_group = 0\<rparr>],
        unhashed_streams = []\<rparr>"
  unfolding lte_of_def wim_lookup_table_entry.simps by code_simp

text \<open>
  Claim C9. A metadata resource whose length is below 8 plus the minimum on-disk dentry
  size (102 bytes, so below 110) is rejected with \<open>WIMLIB_ERR_INVALID_METADATA_RESOURCE\<close>,
  whatever the collaborators would do: none of them is consulted.
\<close>

theorem read_metadata_resource_length_floor:
  "unat (lte_size metadata_lte) < 8 + unat WIM_DENTRY_DISK_SIZE \<Longrightarrow>
   read_metadata_resource env metadata_lte = Inl WIMLIB_ERR_INVALID_METADATA_RESOURCE"
  by (simp add: read_metadata_resource_def WIM_DENTRY_DISK_SIZE_def word_less_nat_alt)

theorem read_metadata_resource_length_floor_witness:
  "unat (lte_size (lte_of (replicate 20 0) [] True)) < 8 + unat WIM_DENTRY_DISK_SIZE \<and>
   read_metadata_resource (memory_env (replicate 20 0)) (lte_of (replicate 20 0) [] True)
     = Inl WIMLIB_ERR_INVALID_METADATA_RESOURCE"
proof -
  have short: "unat (lte_size (lte_of (replicate 20 0) [] True)) < 8 + unat WIM_DENTRY_DISK_SIZE"
    by (simp add: lte_of_def WIM_DENTRY_DISK_SIZE_def)
  from read_metadata_resource_length_floor [OF short] short show ?thesis
    by simp
qed

text \<open>
  Claim C3. Once the resource is in memory, its SHA-1 is compared with the expected hash
  exactly when \<open>dont_check_metadata_hash\<close> is false: with the flag false a differing
  digest ends the read with \<open>WIMLIB_ERR_INVALID_METADATA_RESOURCE\<close>; with the flag true
  neither the digest nor the expected hash is looked at, and the result is that of parsing
  the buffer, as it is with the flag false and an equal digest.
\<close>

theorem read_metadata_resource_hash_check:
  assumes "read_full_stream_into_alloc_buf env lte = Inr buf"
  shows "(\<not> dont_check_metadata_hash lte \<and>
          \<not> hashes_equal (lte_hash lte) (sha1_buffer env buf (lte_size lte))
            \<longrightarrow> read_metadata_resource env lte = Inl WIMLIB_ERR_INVALID_METADATA_RESOURCE)
       \<and> (dont_check_metadata_hash lte \<and> \<not> lte_size lte < 8 + WIM_DENTRY_DISK_SIZE
            \<longrightarrow> read_metadata_resource env lte = read_metadata_buffer env buf (lte_size lte))
       \<and> (\<not> dont_check_metadata_hash lte \<and> \<not> lte_size lte < 8 + WIM_DENTRY_DISK_SIZE
            \<and> hashes_equal (lte_hash lte) (sha1_buffer env buf (lte_size lte))
            \<longrightarrow> read_metadata_resource env lte = read_metadata_buffer env buf (lte_size lte))"
  using assms by (simp add: read_metadata_resource_def Let_def)

text \<open>
  The image of boundary scenario 2 with an expected hash that its digest does not equal
  (scenario 4): rejected with the flag false, read with the flag true.
\<close>

theorem read_metadata_resource_hash_check_witness:
  "\<not> hashes_equal [] (sha1_buffer (memory_env named_root_image) named_root_image
        (lte_size (lte_of named_root_image [] False)))
   \<and> read_metadata_resource (memory_env named_root_image) (lte_of named_root_image [] False)
       = Inl WIMLIB_ERR_INVALID_METADATA_RESOURCE
   \<and> isl (read_metadata_resource (memory_env named_root_image) (lte_of named_root_image [] True))
       = False"
proof -
  let ?env = "memory_env named_root_image"
  have rd: "read_full_stream_into_alloc_buf ?env l = Inr named_root_image" for l
    by (simp add: memory_env_def)
  have differ: "\<not> hashes_equal (lte_hash (lte_of named_root_image [] False))
      (sha1_buffer ?env named_root_image (lte_size (lte_of named_root_image [] False)))"
    by (simp add: memory_env_def lte_of_def hashes_equal_def checksum20_def)
  have flag_off: "\<not> dont_check_metadata_hash (lte_of named_root_image [] False)"
    and flag_on: "dont_check_metadata_hash (lte_of named_root_image [] True)"
    by (simp_all add: lte_of_def)
  from read_metadata_resource_hash_check [OF rd, of "lte_of named_root_image [] False"]
    differ flag_off
  have rejected: "read_metadata_resource ?env (lte_of named_root_image [] False)
      = Inl WIMLIB_ERR_INVALID_METADATA_RESOURCE"
    by blast
  from read_metadata_resource_hash_check [OF rd, of "lte_of named_root_image [] True"]
    flag_on named_root_image_parses(3) [of "[]" True]
  have "read_metadata_resource ?env (lte_of named_root_image [] True)
      = read_metadata_buffer ?env named_root_image (lte_size (lte_of named_root_image [] True))"
    by blast
  then have accepted: "isl (read_metadata_resource ?env (lte_of named_root_image [] True)) = False"
    by (simp add: named_root_image_buffer)
  from differ rejected accepted show ?thesis
    by (simp add: lte_of_def)
qed

text \<open>
  Claim C4, as the code has it. A resource that passes the length floor (at least
  8 + 102 = 110 bytes), that is read into memory and passes the hash check, whose
  security data parses, for which the root dentry is allocated and whose root position
  holds an entry of length 0, is read without error as an empty image: no root, the
  parsed security data, no unhashed streams.
\<close>

theorem read_metadata_resource_empty_image:
  assumes "\<not> lte_size lte < 8 + WIM_DENTRY_DISK_SIZE"
    and "read_full_stream_into_alloc_buf env lte = Inr buf"
    and "dont_check_metadata_hash lte \<or>
         hashes_equal (lte_hash lte) (sha1_buffer env buf (lte_size lte))"
    and "read_wim_security_data env buf (lte_size lte) = Inr sd"
    and "MALLOC_root env"
    and "read_dentry env buf (lte_size lte) (ucast (total_length sd)) = Inr root"
    and "d_length root = 0"
  shows "read_metadata_resource env lte =
         Inr \<lparr>root_dentry = None, security_data = sd, inode_list = [], unhashed_streams = []\<rparr>"
  using assms
  by (auto simp add: read_metadata_resource_def read_metadata_buffer_def out_success_def Let_def)

text \<open>The empty image padded to 110 bytes: no root, a security block without entries.\<close>

theorem read_metadata_resource_empty_image_witness:
  "\<not> lte_size (lte_of empty_image_110 [] True) < 8 + WIM_DENTRY_DISK_SIZE
   \<and> read_metadata_resource (memory_env empty_image_110) (lte_of empty_image_110 [] True) =
       Inr \<lparr>root_dentry = None,
            security_data = \<lparr>total_length = 8, num_entries = 0, sizes = [], descriptors = []\<rparr>,
            inode_list = [], unhashed_streams = []\<rparr>"
proof -
  let ?env = "memory_env empty_image_110" and ?lte = "lte_of empty_image_110 [] True"
  let ?sd = "\<lparr>total_length = 8, num_entries = 0, sizes = [], descriptors = []\<rparr> :: wim_security_data"
  have rd: "read_full_stream_into_alloc_buf ?env ?lte = Inr empty_image_110"
    by (simp add: memory_env_def)
  have flag: "dont_check_metadata_hash ?lte \<or>
      hashes_equal (lte_hash ?lte) (sha1_buffer ?env empty_image_110 (lte_size ?lte))"
    by (simp add: lte_of_def)
  have sd: "read_wim_security_data ?env empty_image_110 (lte_size ?lte) = Inr ?sd"
    by (simp add: memory_env_def empty_image_110_parses(1))
  have alloc: "MALLOC_root ?env"
    by (simp add: memory_env_def)
  have root: "read_dentry ?env empty_image_110 (lte_size ?lte) (ucast (total_length ?sd))
      = Inr \<lparr>d_length = 0, d_attributes = 0, d_security_id = 0, subdir_offset = 0,
              d_hard_link_group_id = 0, file_name = None, file_name_nbytes = 0,
              short_name = None, short_name_nbytes = 0\<rparr>"
    by (simp add: memory_env_def empty_image_110_parses(2))
  from read_metadata_resource_empty_image [OF empty_image_110_parses(3) rd flag sd alloc root]
    empty_image_110_parses(3)
  show ?thesis by simp
qed

text \<open>
  Claim C4, as the spec states it, fails on the 16 bytes of boundary scenario 1: the
  security block parses, the entry at the root position has length 0, and the read is
  rejected by the length floor.
\<close>

theorem read_metadata_resource_empty_image_16_rejected:
  "spec_read_wim_security_data empty_image_16 16
     = Inr \<lparr>total_length = 8, num_entries = 0, sizes = [], descriptors = []\<rparr>
   \<and> \<not> isl (spec_read_dentry empty_image_16 16 8)
   \<and> d_length (projr (spec_read_dentry empty_image_16 16 8)) = 0
   \<and> read_metadata_resource (memory_env empty_image_16) (lte_of empty_image_16 [] True)
       = Inl WIMLIB_ERR_INVALID_METADATA_RESOURCE"
proof -
  have "read_metadata_resource (memory_env empty_image_16) (lte_of empty_image_16 [] True)
       = Inl WIMLIB_ERR_INVALID_METADATA_RESOURCE"
    by (simp add: read_metadata_resource_def lte_of_def empty_image_16_def
        WIM_DENTRY_DISK_SIZE_def)
  with empty_image_16_parses show ?thesis by simp
qed

text \<open>
  What a successful read of a tree says about its root: it is the root that was decoded,
  with its names cleared, and it passed the directory test.
\<close>

lemma clear_root_names_empty:
  "file_name_nbytes (clear_root_names root) = 0"
  "short_name_nbytes (clear_root_names root) = 0"
  by (simp_all add: clear_root_names_def dentry_has_long_name_def dentry_has_short_name_def)

lemma read_root_and_tree_Inr:
  assumes "read_root_and_tree env buf len sd root0 = Inr imd"
  shows "\<exists>children. root_dentry imd = Some (Dentry (clear_root_names root0) children)"
    and "dentry_is_directory env (clear_root_names root0)"
  using assms
  by (auto simp add: read_root_and_tree_def Let_def out_success_def
      split: if_splits sum.splits option.splits)

lemma read_metadata_buffer_root:
  assumes "read_metadata_buffer env buf len = Inr imd" and "root_dentry imd = Some r"
  shows "\<exists>root0. d_rec r = clear_root_names root0 \<and> dentry_is_directory env (d_rec r)"
proof -
  from assms obtain sd root0 where tree: "read_root_and_tree env buf len sd root0 = Inr imd"
    by (auto simp add: read_metadata_buffer_def out_success_def split: sum.splits if_splits)
  from read_root_and_tree_Inr [OF tree] assms(2) show ?thesis
    by auto
qed

lemma read_metadata_resource_root:
  assumes "read_metadata_resource env lte = Inr imd" and "root_dentry imd = Some r"
  shows "\<exists>root0. d_rec r = clear_root_names root0 \<and> dentry_is_directory env (d_rec r)"
proof -
  from assms(1) obtain buf where "read_metadata_buffer env buf (lte_size lte) = Inr imd"
    by (auto simp add: read_metadata_resource_def Let_def split: if_splits sum.splits)
  from read_metadata_buffer_root [OF this assms(2)] show ?thesis .
qed

lemma read_metadata_resource_to_tree:
  assumes "\<not> lte_size lte < 8 + WIM_DENTRY_DISK_SIZE"
    and "read_full_stream_into_alloc_buf env lte = Inr buf"
    and "dont_check_metadata_hash lte \<or>
         hashes_equal (lte_hash lte) (sha1_buffer env buf (lte_size lte))"
    and "read_wim_security_data env buf (lte_size lte) = Inr sd"
    and "MALLOC_root env"
    and "read_dentry env buf (lte_size lte) (ucast (total_length sd)) = Inr root0"
    and "d_length root0 \<noteq> 0"
  shows "read_metadata_resource env lte = read_root_and_tree env buf (lte_size lte) sd root0"
  using assms by (auto simp add: read_metadata_resource_def read_metadata_buffer_def Let_def)

text \<open>
  Claim C5. A successful read that returns a root returns a directory whose long and
  short names are empty. On the way there, a decoded root with a name is not rejected:
  its names are cleared and the read goes on with the cleared root; a decoded root that
  is not a directory ends the read with \<open>WIMLIB_ERR_INVALID_METADATA_RESOURCE\<close>.
\<close>

theorem read_metadata_resource_root_sanity:
  "(read_metadata_resource env lte = Inr imd \<and> root_dentry imd = Some r \<longrightarrow>
      dentry_is_directory env (d_rec r) \<and>
      \<not> dentry_has_long_name (d_rec r) \<and> \<not> dentry_has_short_name (d_rec r))
   \<and> (\<not> lte_size lte < 8 + WIM_DENTRY_DISK_SIZE \<and>
        read_full_stream_into_alloc_buf env lte = Inr buf \<and>
        (dont_check_metadata_hash lte \<or>
         hashes_equal (lte_hash lte) (sha1_buffer env buf (lte_size lte))) \<and>
        read_wim_security_data env buf (lte_size lte) = Inr sd \<and>
        MALLOC_root env \<and>
        read_dentry env buf (lte_size lte) (ucast (total_length sd)) = Inr root0 \<and>
        d_length root0 \<noteq> 0 \<longrightarrow>
        (\<not> dentry_is_directory env (clear_root_names root0) \<longrightarrow>
           read_metadata_resource env lte = Inl WIMLIB_ERR_INVALID_METADATA_RESOURCE) \<and>
        (dentry_is_directory env (clear_root_names root0) \<and>
         read_dentry_tree env buf (lte_size lte) (clear_root_names root0) = Inr children \<and>
         dentry_tree_fix_inodes env (Dentry (clear_root_names root0) children) = Inr inodes \<and>
         verify_inodes env inodes sd = None \<longrightarrow>
           read_metadata_resource env lte =
           Inr \<lparr>root_dentry = Some (Dentry (clear_root_names root0) children),
                security_data = sd, inode_list = inodes, unhashed_streams = []\<rparr>))"
proof (intro conjI impI)
  assume ok: "read_metadata_resource env lte = Inr imd \<and> root_dentry imd = Some r"
  then obtain root0 where r: "d_rec r = clear_root_names root0"
    and dir: "dentry_is_directory env (d_rec r)"
    using read_metadata_resource_root by blast
  from dir show "dentry_is_directory env (d_rec r)" .
  from r show "\<not> dentry_has_long_name (d_rec r)"
    by (simp add: dentry_has_long_name_def clear_root_names_empty)
  from r show "\<not> dentry_has_short_name (d_rec r)"
    by (simp add: dentry_has_short_name_def clear_root_names_empty)
next
  assume path: "\<not> lte_size lte < 8 + WIM_DENTRY_DISK_SIZE \<and>
        read_full_stream_into_alloc_buf env lte = Inr buf \<and>
        (dont_check_metadata_hash lte \<or>
         hashes_equal (lte_hash lte) (sha1_buffer env buf (lte_size lte))) \<and>
        read_wim_security_data env buf (lte_size lte) = Inr sd \<and>
        MALLOC_root env \<and>
        read_dentry env buf (lte_size lte) (ucast (total_length sd)) = Inr root0 \<and>
        d_length root0 \<noteq> 0"
  then have tree: "read_metadata_resource env lte = read_root_and_tree env buf (lte_size lte) sd root0"
    using read_metadata_resource_to_tree by blast
  {
    assume "\<not> dentry_is_directory env (clear_root_names root0)"
    with tree show "read_metadata_resource env lte = Inl WIMLIB_ERR_INVALID_METADATA_RESOURCE"
      by (simp add: read_root_and_tree_def)
  }
  {
    assume "dentry_is_directory env (clear_root_names root0) \<and>
         read_dentry_tree env buf (lte_size lte) (clear_root_names root0) = Inr children \<and>
         dentry_tree_fix_inodes env (Dentry (clear_root_names root0) children) = Inr inodes \<and>
         verify_inodes env inodes sd = None"
    with tree show "read_metadata_resource env lte =
           Inr \<lparr>root_dentry = Some (Dentry (clear_root_names root0) children),
                security_data = sd, inode_list = inodes, unhashed_streams = []\<rparr>"
      by (simp add: read_root_and_tree_def out_success_def)
  }
qed

text \<open>
  Boundary scenario 2: the directory root named "X" is read and comes back without a
  name; the same bytes with the attributes of a plain file are rejected.
\<close>

theorem read_metadata_resource_root_sanity_witness:
  "dentry_has_long_name (projr (spec_read_dentry named_root_image 136 8))
   \<and> read_metadata_resource (memory_env named_root_image) (lte_of named_root_image [] True) =
       Inr \<lparr>root_dentry = Some (Dentry
               \<lparr>d_length = 120, d_attributes = 16, d_security_id = 0,
                  subdir_offset = 0, d_hard_link_group_id = 0,
                  file_name = None, file_name_nbytes = 0,
                  short_name = None, short_name_nbytes = 0\<rparr> []),
            security_data = \<lparr>total_length = 8, num_entries = 0, sizes = [], descriptors = []\<rparr>,
            inode_list = [\<lparr>i_attributes_r = 16, i_security_id_r = 0, i_hard_link_group = 0\<rparr>],
            unhashed_streams = []\<rparr>
   \<and> read_metadata_resource (memory_env file_root_image) (lte_of file_root_image [] True) =
       Inl WIMLIB_ERR_INVALID_METADATA_RESOURCE"
proof -
  let ?sd = "\<lparr>total_length = 8, num_entries = 0, sizes = [], descriptors = []\<rparr> :: wim_security_data"
  let ?root0 = "\<lparr>d_length = 120, d_attributes = 16, d_security_id = 0, subdir_offset = 0,
             d_hard_link_group_id = 0, file_name = Some [88, 0], file_name_nbytes = 4,
             short_name = None, short_name_nbytes = 0\<rparr> :: wim_dentry_rec"
  let ?file0 = "?root0\<lparr>d_attributes := 32\<rparr>"
  let ?inodes = "[\<lparr>i_attributes_r = 16, i_security_id_r = 0, i_hard_link_group = 0\<rparr>]"
  have cleared: "clear_root_names ?root0 = ?root0\<lparr>file_name := None, file_name_nbytes := 0\<rparr>"
    "clear_root_names ?file0 = ?file0\<lparr>file_name := None, file_name_nbytes := 0\<rparr>"
    by (simp_all add: clear_root_names_def dentry_has_long_name_def)
  have named: "dentry_has_long_name (projr (spec_read_dentry named_root_image 136 8))"
    using named_root_image_parses(2) [of "[]" True]
    by (simp add: lte_of_def named_root_image_def dentry_has_long_name_def)

  let ?env = "memory_env named_root_image" and ?lte = "lte_of named_root_image [] True"
  have path: "\<not> lte_size ?lte < 8 + WIM_DENTRY_DISK_SIZE \<and>
        read_full_stream_into_alloc_buf ?env ?lte = Inr named_root_image \<and>
        (dont_check_metadata_hash ?lte \<or>
         hashes_equal (lte_hash ?lte) (sha1_buffer ?env named_root_image (lte_size ?lte))) \<and>
        read_wim_security_data ?env named_root_image (lte_size ?lte) = Inr ?sd \<and>
        MALLOC_root ?env \<and>
        read_dentry ?env named_root_image (lte_size ?lte) (ucast (total_length ?sd)) = Inr ?root0 \<and>
        d_length ?root0 \<noteq> 0"
    using named_root_image_parses [of "[]" True]
    by (simp add: memory_env_def) (simp add: lte_of_def)
  have rest: "dentry_is_directory ?env (clear_root_names ?root0) \<and>
         read_dentry_tree ?env named_root_image (lte_size ?lte) (clear_root_names ?root0) = Inr [] \<and>
         dentry_tree_fix_inodes ?env (Dentry (clear_root_names ?root0) []) = Inr ?inodes \<and>
         verify_inodes ?env ?inodes ?sd = None"
    by (simp add: cleared memory_env_def spec_dentry_is_directory_def)
  from read_metadata_resource_root_sanity
    [of ?env ?lte _ _ named_root_image ?sd ?root0 "[]" ?inodes] path rest
  have accepted: "read_metadata_resource ?env ?lte =
           Inr \<lparr>root_dentry = Some (Dentry (clear_root_names ?root0) []),
                security_data = ?sd, inode_list = ?inodes, unhashed_streams = []\<rparr>"
    by blast

  let ?fenv = "memory_env file_root_image" and ?flte = "lte_of file_root_image [] True"
  have fpath: "\<not> lte_size ?flte < 8 + WIM_DENTRY_DISK_SIZE \<and>
        read_full_stream_into_alloc_buf ?fenv ?flte = Inr file_root_image \<and>
        (dont_check_metadata_hash ?flte \<or>
         hashes_equal (lte_hash ?flte) (sha1_buffer ?fenv file_root_image (lte_size ?flte))) \<and>
        read_wim_security_data ?fenv file_root_image (lte_size ?flte) = Inr ?sd \<and>
        MALLOC_root ?fenv \<and>
        read_dentry ?fenv file_root_image (lte_size ?flte) (ucast (total_length ?sd)) = Inr ?file0 \<and>
        d_length ?file0 \<noteq> 0"
    using file_root_image_parses [of "[]" True]
    by (simp add: memory_env_def) (simp add: lte_of_def)
  have nodir: "\<not> dentry_is_directory ?fenv (clear_root_names ?file0)"
    by (simp add: clear_root_names_def dentry_has_long_name_def memory_env_def
        spec_dentry_is_directory_def)
  from read_metadata_resource_root_sanity
    [of ?fenv ?flte _ _ file_root_image ?sd ?file0] fpath nodir
  have rejected: "read_metadata_resource ?fenv ?flte = Inl WIMLIB_ERR_INVALID_METADATA_RESOURCE"
    by blast
  from named accepted rejected show ?thesis
    by (simp add: clear_root_names_def dentry_has_long_name_def)
qed

section \<open>Properties of the blob descriptors of ntfs-3g_capture.c\<close>

text \<open>
  Claim C8, as the code has it. The comparison of two locations is the three-way
  comparison of their sort keys. Exchanging the arguments negates the result, the
  comparison is transitive and any two locations are comparable: a total order of the
  sort keys and a total preorder of the locations. It returns 0 exactly for equal sort
  keys, so it does not order two locations with the same key.
\<close>

theorem cmp_ntfs_locations_order:
  "cmp_ntfs_locations a b = - cmp_ntfs_locations b a
   \<and> (cmp_ntfs_locations a b \<le> 0 \<and> cmp_ntfs_locations b c \<le> 0 \<longrightarrow> cmp_ntfs_locations a c \<le> 0)
   \<and> (cmp_ntfs_locations a b < 0 \<and> cmp_ntfs_locations b c < 0 \<longrightarrow> cmp_ntfs_locations a c < 0)
   \<and> (cmp_ntfs_locations a b \<le> 0 \<or> cmp_ntfs_locations b a \<le> 0)
   \<and> (cmp_ntfs_locations a b = 0 \<longleftrightarrow> loc_sort_key a = loc_sort_key b)
   \<and> (cmp_ntfs_locations a b < 0 \<longleftrightarrow> loc_sort_key a < loc_sort_key b)"
  by (auto simp add: cmp_ntfs_locations_def cmp_u64_def)

theorem cmp_ntfs_locations_order_witness:
  "cmp_ntfs_locations (example_reparse_loc\<lparr>loc_sort_key := 3\<rparr>) (example_reparse_loc\<lparr>loc_sort_key := 5\<rparr>) < 0
   \<and> cmp_ntfs_locations (example_reparse_loc\<lparr>loc_sort_key := 5\<rparr>) (example_reparse_loc\<lparr>loc_sort_key := 9\<rparr>) < 0
   \<and> cmp_ntfs_locations (example_reparse_loc\<lparr>loc_sort_key := 3\<rparr>) (example_reparse_loc\<lparr>loc_sort_key := 9\<rparr>) < 0
   \<and> cmp_ntfs_locations (example_reparse_loc\<lparr>loc_sort_key := 5\<rparr>) (example_reparse_loc\<lparr>loc_sort_key := 3\<rparr>) = 1"
proof -
  let ?a = "example_reparse_loc\<lparr>loc_sort_key := 3\<rparr>"
  let ?b = "example_reparse_loc\<lparr>loc_sort_key := 5\<rparr>"
  let ?c = "example_reparse_loc\<lparr>loc_sort_key := 9\<rparr>"
  have ab: "cmp_ntfs_locations ?a ?b < 0" and bc: "cmp_ntfs_locations ?b ?c < 0"
    by (simp_all add: cmp_ntfs_locations_def cmp_u64_def)
  have ba: "cmp_ntfs_locations ?b ?a = 1"
    by (simp add: cmp_ntfs_locations_def cmp_u64_def)
  from cmp_ntfs_locations_order [of ?a ?b ?c] ab bc
  have "cmp_ntfs_locations ?a ?c < 0" by blast
  with ab bc ba show ?thesis by blast
qed

text \<open>
  Claim C8, as the spec states it, fails: the comparison is not antisymmetric on the
  locations and breaks no tie. Two different locations (of the inodes 5 and 6) with the
  same sort key compare as equal in both directions.
\<close>

theorem cmp_ntfs_locations_tie_not_broken:
  "example_reparse_loc \<noteq> example_reparse_loc\<lparr>loc_mft_no := 6\<rparr>
   \<and> loc_sort_key example_reparse_loc = loc_sort_key (example_reparse_loc\<lparr>loc_mft_no := 6\<rparr>)
   \<and> cmp_ntfs_locations example_reparse_loc (example_reparse_loc\<lparr>loc_mft_no := 6\<rparr>) = 0
   \<and> cmp_ntfs_locations (example_reparse_loc\<lparr>loc_mft_no := 6\<rparr>) example_reparse_loc = 0"
proof -
  have "loc_mft_no example_reparse_loc \<noteq> loc_mft_no (example_reparse_loc\<lparr>loc_mft_no := 6\<rparr>)"
    by (simp add: example_reparse_loc_def)
  then have "example_reparse_loc \<noteq> example_reparse_loc\<lparr>loc_mft_no := 6\<rparr>"
    by (rule contrapos_nn) simp
  then show ?thesis
    by (simp add: cmp_ntfs_locations_def cmp_u64_def)
qed

declare chunks.simps [simp del]
declare read_ntfs_attribute_loop.simps [simp del]

lemma to_read_facts:
  fixes bytes_remaining :: u64
  assumes "bytes_remaining \<noteq> 0"
  shows "unat (min bytes_remaining BUFFER_SIZE) = min (unat bytes_remaining) (unat BUFFER_SIZE)"
    and "unat (bytes_remaining - min bytes_remaining BUFFER_SIZE)
         = unat bytes_remaining - min (unat bytes_remaining) (unat BUFFER_SIZE)"
    and "0 < min (unat bytes_remaining) (unat BUFFER_SIZE)"
proof -
  show 1: "unat (min bytes_remaining BUFFER_SIZE) = min (unat bytes_remaining) (unat BUFFER_SIZE)"
    by (simp add: min_def word_le_nat_alt)
  have "min bytes_remaining BUFFER_SIZE \<le> bytes_remaining" by simp
  then show "unat (bytes_remaining - min bytes_remaining BUFFER_SIZE)
         = unat bytes_remaining - min (unat bytes_remaining) (unat BUFFER_SIZE)"
    by (simp only: unat_sub 1)
  have "0 < unat bytes_remaining" using assms by (simp add: unat_gt_0)
  moreover have "0 < unat BUFFER_SIZE" by (simp add: BUFFER_SIZE_def)
  ultimately show "0 < min (unat bytes_remaining) (unat BUFFER_SIZE)" by simp
qed

lemma unat_pos_add:
  fixes pos t :: u64
  assumes "unat pos + unat t < 2 ^ 64"
  shows "unat (pos + t) = unat pos + unat t"
  using assms by (simp add: unat_add_lem [THEN iffD1])

lemma drop_take_chunk:
  "drop B (take R (drop P v)) = take (R - min R B) (drop (P + min R B) v)"
  by (cases "R \<le> B") (simp_all add: min_def drop_take add.commute)

lemma chunks_step:
  assumes "0 < B" and "0 < R" and "P + R \<le> length v"
  shows "chunks B (take R (drop P v)) =
         take (min R B) (drop P v) # chunks B (take (R - min R B) (drop (P + min R B) v))"
proof -
  have "take R (drop P v) \<noteq> []" using assms by auto
  then have "chunks B (take R (drop P v)) =
      take B (take R (drop P v)) # chunks B (drop B (take R (drop P v)))"
    using assms(1) by (subst chunks.simps) simp
  also have "take B (take R (drop P v)) = take (min R B) (drop P v)"
    by (simp add: min.commute)
  finally show ?thesis by (simp only: drop_take_chunk)
qed

text \<open>One iteration of the loop, for a number of remaining bytes that is not 0.\<close>

lemma loop_step:
  assumes "bytes_remaining \<noteq> 0"
  shows "read_ntfs_attribute_loop na consume_chunk pos bytes_remaining ctx =
     (let to_read = min bytes_remaining BUFFER_SIZE;
          buf = ntfs_attr_pread na pos to_read
      in if length buf \<noteq> unat to_read then (Some WIMLIB_ERR_NTFS_3G, ctx)
         else (case consume_chunk buf ctx of
                 (Some ret, ctx') \<Rightarrow> (Some ret, ctx')
               | (None, ctx') \<Rightarrow>
                   read_ntfs_attribute_loop na consume_chunk
                     (pos + to_read) (bytes_remaining - to_read) ctx'))"
  using assms by (subst read_ntfs_attribute_loop.simps) simp

lemma loop_full:
  assumes "unat pos + unat bytes_remaining \<le> length (attr_contents na)"
    and "unat pos + unat bytes_remaining < 2 ^ 64"
  shows "read_ntfs_attribute_loop na consume_chunk pos bytes_remaining ctx =
         deliver consume_chunk
           (chunks (unat BUFFER_SIZE) (take (unat bytes_remaining) (drop (unat pos) (attr_contents na)))) ctx"
  using assms
proof (induction na consume_chunk pos bytes_remaining ctx rule: read_ntfs_attribute_loop.induct)
  case (1 na consume_chunk pos bytes_remaining ctx)
  show ?case
  proof (cases "bytes_remaining = 0")
    case True
    then show ?thesis
      by (simp add: read_ntfs_attribute_loop.simps chunks.simps)
  next
    case False
    let ?t = "min bytes_remaining BUFFER_SIZE"
    let ?v = "attr_contents na"
    let ?buf = "ntfs_attr_pread na pos ?t"
    let ?R = "unat bytes_remaining" and ?B = "unat BUFFER_SIZE" and ?P = "unat pos"
    note tf = to_read_facts [OF False]
    have R: "0 < ?R" using False by (simp add: unat_gt_0)
    have buf: "?buf = take (min ?R ?B) (drop ?P ?v)"
      by (simp only: ntfs_attr_pread_def tf(1))
    have len: "length ?buf = unat ?t"
      using "1.prems"(1) by (simp add: buf tf(1))
    have pos': "unat (pos + ?t) = ?P + min ?R ?B"
      using "1.prems"(2) unat_pos_add [of pos ?t] by (simp add: tf(1))
    have unfold: "chunks ?B (take ?R (drop ?P ?v)) =
        ?buf # chunks ?B (take (unat (bytes_remaining - ?t)) (drop (unat (pos + ?t)) ?v))"
      using chunks_step [of ?B ?R ?P ?v] tf(3) R "1.prems"(1)
      by (simp add: buf tf(2) pos')
    show ?thesis
    proof (cases "consume_chunk ?buf ctx")
      case (Pair r ctx')
      show ?thesis
      proof (cases r)
        case (Some e)
        with Pair len show ?thesis
          by (simp add: loop_step [OF False] unfold Let_def)
      next
        case None
        have ih: "read_ntfs_attribute_loop na consume_chunk (pos + ?t) (bytes_remaining - ?t) ctx' =
            deliver consume_chunk (chunks ?B
              (take (unat (bytes_remaining - ?t)) (drop (unat (pos + ?t)) ?v))) ctx'"
        proof (rule "1.IH" [OF False refl refl _ _ None])
          show "\<not> length ?buf \<noteq> unat ?t" using len by simp
          show "(r, ctx') = consume_chunk ?buf ctx" using Pair by simp
          show "unat (pos + ?t) + unat (bytes_remaining - ?t) \<le> length ?v"
            using "1.prems"(1) by (simp add: pos' tf(2))
          show "unat (pos + ?t) + unat (bytes_remaining - ?t) < 2 ^ 64"
            using "1.prems"(2) by (simp add: pos' tf(2))
        qed
        with Pair None len show ?thesis
          by (simp add: loop_step [OF False] unfold Let_def)
      qed
    qed
  qed
qed


lemma chunks_step_short:
  assumes "0 < B" and "B \<le> L" and "L = length v - P"
  shows "chunks B (take (L div B * B) (drop P v)) =
         take B (drop P v) # chunks B (take ((length v - (P + B)) div B * B) (drop (P + B) v))"
proof -
  obtain k where k: "L div B = Suc k"
    using assms(1,2) by (cases "L div B") (auto simp add: div_eq_0_iff)
  have kB: "Suc k * B \<le> L"
    using k by (metis div_times_less_eq_dividend)
  have "P < length v" using assms by simp
  then have "take (L div B * B) (drop P v) \<noteq> []"
    using assms(1) by (simp add: k)
  then have "chunks B (take (L div B * B) (drop P v)) =
      take B (take (L div B * B) (drop P v)) # chunks B (drop B (take (L div B * B) (drop P v)))"
    using assms(1) by (subst chunks.simps) simp
  moreover have "take B (take (L div B * B) (drop P v)) = take B (drop P v)"
    by (simp add: k)
  moreover have "(length v - (P + B)) div B = k"
  proof -
    have "length v - (P + B) = L - B" using assms(3) by simp
    moreover have "L div B = Suc ((L - B) div B)"
      using assms(1,2) by (simp add: le_div_geq)
    ultimately show ?thesis by (simp add: k)
  qed
  moreover have "drop B (take (L div B * B) (drop P v)) = take (k * B) (drop (P + B) v)"
    by (simp add: k drop_take add.commute)
  ultimately show ?thesis by simp
qed

lemma full_chunk_available:
  fixes lv P R B :: nat
  assumes "\<not> lv - P < min R B" and "lv < P + R" and "0 < min R B"
  shows "B < R" and "B \<le> lv - P"
  using assms by (auto simp add: min_def split: if_splits)

lemma loop_short:
  assumes "bytes_remaining \<noteq> 0"
    and "length (attr_contents na) < unat pos + unat bytes_remaining"
    and "unat pos + unat bytes_remaining < 2 ^ 64"
  shows "read_ntfs_attribute_loop na consume_chunk pos bytes_remaining ctx =
         (case deliver consume_chunk
                 (chunks (unat BUFFER_SIZE)
                    (take ((length (attr_contents na) - unat pos) div unat BUFFER_SIZE * unat BUFFER_SIZE)
                       (drop (unat pos) (attr_contents na)))) ctx of
            (Some ret, ctx') \<Rightarrow> (Some ret, ctx')
          | (None, ctx') \<Rightarrow> (Some WIMLIB_ERR_NTFS_3G, ctx'))"
  using assms
proof (induction na consume_chunk pos bytes_remaining ctx rule: read_ntfs_attribute_loop.induct)
  case (1 na consume_chunk pos bytes_remaining ctx)
  let ?t = "min bytes_remaining BUFFER_SIZE"
  let ?v = "attr_contents na"
  let ?buf = "ntfs_attr_pread na pos ?t"
  let ?R = "unat bytes_remaining" and ?B = "unat BUFFER_SIZE" and ?P = "unat pos"
  let ?L = "length ?v - ?P"
  have nz: "bytes_remaining \<noteq> 0" by (rule "1.prems"(1))
  note tf = to_read_facts [OF nz]
  have B: "0 < ?B" by (simp add: BUFFER_SIZE_def)
  have buf: "?buf = take (min ?R ?B) (drop ?P ?v)"
    by (simp only: ntfs_attr_pread_def tf(1))
  have lenbuf: "length ?buf = min (min ?R ?B) ?L"
    by (simp add: buf)
  show ?case
  proof (cases "?L < min ?R ?B")
    case True
    then have "length ?buf = ?L"
      by (simp add: lenbuf)
    moreover have "?L \<noteq> min ?R ?B"
      using True by arith
    ultimately have short: "length ?buf \<noteq> unat ?t"
      by (simp add: tf(1))
    have "?L div ?B = 0" using True by simp
    then have "chunks ?B (take (?L div ?B * ?B) (drop ?P ?v)) = []"
      by (simp add: chunks.simps)
    with short show ?thesis
      by (simp add: loop_step [OF nz] Let_def)
  next
    case False
    have big: "?B < ?R" and enough: "?B \<le> ?L"
      using full_chunk_available [OF False "1.prems"(2) tf(3)] by blast+
    have t: "unat ?t = ?B" using big by (simp add: tf(1))
    have full: "length ?buf = unat ?t"
      using enough big by (simp add: lenbuf t)
    have buf': "?buf = take ?B (drop ?P ?v)"
      using big by (simp add: buf)
    have pos': "unat (pos + ?t) = ?P + ?B"
      using "1.prems"(3) big unat_pos_add [of pos ?t] by (simp add: t)
    have rem': "unat (bytes_remaining - ?t) = ?R - ?B"
      using big by (simp add: tf(2))
    have remnz: "bytes_remaining - ?t \<noteq> 0"
      using rem' big by (auto simp add: unat_eq_zero [symmetric] simp del: unat_eq_zero)
    have unfold: "chunks ?B (take (?L div ?B * ?B) (drop ?P ?v)) =
        ?buf # chunks ?B (take ((length ?v - unat (pos + ?t)) div ?B * ?B) (drop (unat (pos + ?t)) ?v))"
      using chunks_step_short [OF B enough refl] by (simp add: buf' pos')
    show ?thesis
    proof (cases "consume_chunk ?buf ctx")
      case (Pair r ctx')
      show ?thesis
      proof (cases r)
        case (Some e)
        with Pair full show ?thesis
          by (simp add: loop_step [OF nz] unfold Let_def)
      next
        case None
        have ih: "read_ntfs_attribute_loop na consume_chunk (pos + ?t) (bytes_remaining - ?t) ctx' =
           (case deliver consume_chunk
                 (chunks ?B
                    (take ((length ?v - unat (pos + ?t)) div ?B * ?B)
                       (drop (unat (pos + ?t)) ?v))) ctx' of
            (Some ret, ctx') \<Rightarrow> (Some ret, ctx')
          | (None, ctx') \<Rightarrow> (Some WIMLIB_ERR_NTFS_3G, ctx'))"
        proof (rule "1.IH" [OF nz refl refl _ _ None remnz])
          show "\<not> length ?buf \<noteq> unat ?t" using full by simp
          show "(r, ctx') = consume_chunk ?buf ctx" using Pair by simp
          show "length ?v < unat (pos + ?t) + unat (bytes_remaining - ?t)"
            using "1.prems"(2) big by (simp add: pos' rem')
          show "unat (pos + ?t) + unat (bytes_remaining - ?t) < 2 ^ 64"
            using "1.prems"(3) big by (simp add: pos' rem')
        qed
        with Pair None full show ?thesis
          by (simp add: loop_step [OF nz] unfold Let_def)
      qed
    qed
  qed
qed


text \<open>
  Claim C7. The attribute that is read is the one that the library opens for the type
  and the name of the blob's location: a record of the inode with that type and that
  name. With the inode and this attribute opened, the read starts at byte 8 of a reparse
  point and at byte 0 of any other attribute. When the attribute holds the \<open>n\<close> bytes
  asked for, the sink is given exactly these bytes, cut into chunks of \<open>BUFFER_SIZE\<close>,
  until it returns a code, and its code (or 0 after the last chunk) is the result. When
  the attribute ends before, some chunk read comes back short: the chunks before it are
  delivered and, unless the sink ended the read, the result is the error
  \<open>WIMLIB_ERR_NTFS_3G\<close>, never success. At every iteration a short read is that error
  with the sink untouched, and a code returned by the sink is the result with nothing
  read after it.
\<close>

theorem read_ntfs_attribute_prefix_delivers:
  assumes "ntfs_inode_open vol (loc_mft_no loc) = Some ni"
    and "ntfs_attr_open ni (loc_attr_type loc) (loc_attr_name loc) (loc_attr_name_nchars loc)
           = Some na"
    and "off = (if loc_attr_type loc = AT_REPARSE_POINT then REPARSE_DATA_OFFSET else 0)"
    and "unat off + unat n < 2 ^ 63"
  shows "(na \<in> set (ni_attr_records ni) \<and> attr_rec_type na = loc_attr_type loc \<and>
          attr_rec_name na = (case loc_attr_name loc of None \<Rightarrow> [] | Some name \<Rightarrow> name))
       \<and> (unat off + unat n \<le> length (attr_contents na) \<longrightarrow>
            read_ntfs_attribute_prefix vol loc n consume_chunk ctx =
            deliver consume_chunk
              (chunks (unat BUFFER_SIZE) (take (unat n) (drop (unat off) (attr_contents na)))) ctx)
       \<and> (n \<noteq> 0 \<and> length (attr_contents na) < unat off + unat n \<longrightarrow>
            read_ntfs_attribute_prefix vol loc n consume_chunk ctx =
            (case deliver consume_chunk
                    (chunks (unat BUFFER_SIZE)
                       (take ((length (attr_contents na) - unat off) div unat BUFFER_SIZE
                                * unat BUFFER_SIZE)
                          (drop (unat off) (attr_contents na)))) ctx of
               (Some ret, ctx') \<Rightarrow> (Some ret, ctx')
             | (None, ctx') \<Rightarrow> (Some WIMLIB_ERR_NTFS_3G, ctx'))
            \<and> fst (read_ntfs_attribute_prefix vol loc n consume_chunk ctx) \<noteq> None)
       \<and> (bytes_remaining \<noteq> 0 \<and>
            length (ntfs_attr_pread na pos (min bytes_remaining BUFFER_SIZE))
              \<noteq> unat (min bytes_remaining BUFFER_SIZE) \<longrightarrow>
            read_ntfs_attribute_loop na consume_chunk pos bytes_remaining ctx
              = (Some WIMLIB_ERR_NTFS_3G, ctx))
       \<and> (bytes_remaining \<noteq> 0 \<and>
            length (ntfs_attr_pread na pos (min bytes_remaining BUFFER_SIZE))
              = unat (min bytes_remaining BUFFER_SIZE) \<and>
            consume_chunk (ntfs_attr_pread na pos (min bytes_remaining BUFFER_SIZE)) ctx
              = (Some ret, ctx1) \<longrightarrow>
            read_ntfs_attribute_loop na consume_chunk pos bytes_remaining ctx = (Some ret, ctx1))"
proof -
  have referenced: "na \<in> set (ni_attr_records ni) \<and> attr_rec_type na = loc_attr_type loc \<and>
          attr_rec_name na = (case loc_attr_name loc of None \<Rightarrow> [] | Some name \<Rightarrow> name)"
  proof -
    from assms(2) have found: "find (\<lambda>r. attr_rec_type r = loc_attr_type loc \<and>
                      attr_rec_name r = (case loc_attr_name loc of None \<Rightarrow> [] | Some n \<Rightarrow> n))
                (ni_attr_records ni) = Some na"
      by (simp add: ntfs_attr_open_def split: option.splits if_splits)
    then obtain i where "i < length (ni_attr_records ni)" and "ni_attr_records ni ! i = na"
      and "attr_rec_type na = loc_attr_type loc \<and>
           attr_rec_name na = (case loc_attr_name loc of None \<Rightarrow> [] | Some n \<Rightarrow> n)"
      unfolding find_Some_iff by blast
    then show ?thesis
      using nth_mem by blast
  qed
  have run: "read_ntfs_attribute_prefix vol loc n consume_chunk ctx =
      read_ntfs_attribute_loop na consume_chunk off n ctx"
    using assms(1-3) by (simp add: read_ntfs_attribute_prefix_def open_ntfs_attr_def)
  have bound: "unat off + unat n < 2 ^ 64"
    using assms(4) by simp
  have full: "read_ntfs_attribute_prefix vol loc n consume_chunk ctx =
            deliver consume_chunk
              (chunks (unat BUFFER_SIZE) (take (unat n) (drop (unat off) (attr_contents na)))) ctx"
    if "unat off + unat n \<le> length (attr_contents na)"
    using loop_full [OF that bound] by (simp only: run)
  have short: "read_ntfs_attribute_prefix vol loc n consume_chunk ctx =
            (case deliver consume_chunk
                    (chunks (unat BUFFER_SIZE)
                       (take ((length (attr_contents na) - unat off) div unat BUFFER_SIZE
                                * unat BUFFER_SIZE)
                          (drop (unat off) (attr_contents na)))) ctx of
               (Some ret, ctx') \<Rightarrow> (Some ret, ctx')
             | (None, ctx') \<Rightarrow> (Some WIMLIB_ERR_NTFS_3G, ctx'))"
    if "n \<noteq> 0" and "length (attr_contents na) < unat off + unat n"
    using loop_short [OF that bound] by (simp only: run)
  have failed: "fst (read_ntfs_attribute_prefix vol loc n consume_chunk ctx) \<noteq> None"
    if "n \<noteq> 0" and "length (attr_contents na) < unat off + unat n"
    unfolding short [OF that] by (simp split: prod.splits option.splits)
  have short_read: "read_ntfs_attribute_loop na consume_chunk pos bytes_remaining ctx
              = (Some WIMLIB_ERR_NTFS_3G, ctx)"
    if "bytes_remaining \<noteq> 0"
      and "length (ntfs_attr_pread na pos (min bytes_remaining BUFFER_SIZE))
              \<noteq> unat (min bytes_remaining BUFFER_SIZE)"
    using that(2) by (simp add: loop_step [OF that(1)] Let_def)
  have sink_code: "read_ntfs_attribute_loop na consume_chunk pos bytes_remaining ctx = (Some ret, ctx1)"
    if "bytes_remaining \<noteq> 0"
      and "length (ntfs_attr_pread na pos (min bytes_remaining BUFFER_SIZE))
              = unat (min bytes_remaining BUFFER_SIZE)"
      and "consume_chunk (ntfs_attr_pread na pos (min bytes_remaining BUFFER_SIZE)) ctx
              = (Some ret, ctx1)"
    using that(2,3) by (simp add: loop_step [OF that(1)] Let_def)
  from referenced full short failed short_read sink_code show ?thesis
    by blast
qed

text \<open>
  Inode 5 of the example has a reparse point and then an unnamed data attribute. 4 bytes
  of its reparse point are its bytes 8 to 11, in one chunk; 10 bytes are more than it
  holds after byte 8, and the read fails; 3 bytes of a location of type \<open>AT_DATA\<close> are
  the bytes 0 to 2 of the data attribute, not of the reparse point.
\<close>

theorem read_ntfs_attribute_prefix_delivers_witness:
  "read_ntfs_attribute_prefix (\<lambda>m. if m = 5 then Some example_link_inode else None)
       example_reparse_loc 4 keep_chunks [] = (None, [[1, 2, 3, 4]])
   \<and> read_ntfs_attribute_prefix (\<lambda>m. if m = 5 then Some example_link_inode else None)
       example_reparse_loc 10 keep_chunks [] = (Some WIMLIB_ERR_NTFS_3G, [])
   \<and> read_ntfs_attribute_prefix (\<lambda>m. if m = 5 then Some example_link_inode else None)
       (example_reparse_loc\<lparr>loc_attr_type := AT_DATA\<rparr>) 3 keep_chunks [] = (None, [[7, 8, 9]])"
proof -
  let ?vol = "\<lambda>m::u64. if m = 5 then Some example_link_inode else None"
  let ?data_loc = "example_reparse_loc\<lparr>loc_attr_type := AT_DATA\<rparr>"
  have ino: "ntfs_inode_open ?vol (loc_mft_no example_reparse_loc) = Some example_link_inode"
    by (simp add: ntfs_inode_open_def example_reparse_loc_def)
  have attr: "ntfs_attr_open example_link_inode (loc_attr_type example_reparse_loc)
                (loc_attr_name example_reparse_loc) (loc_attr_name_nchars example_reparse_loc)
              = Some example_reparse_attr"
    by (simp add: ntfs_attr_open_def example_reparse_loc_def
        example_link_inode_def example_reparse_attr_def)
  have off: "REPARSE_DATA_OFFSET =
      (if loc_attr_type example_reparse_loc = AT_REPARSE_POINT then REPARSE_DATA_OFFSET else 0)"
    by (simp add: example_reparse_loc_def)
  have len: "length (attr_contents example_reparse_attr) = 12"
    by (simp add: example_reparse_attr_def)
  have four: "unat REPARSE_DATA_OFFSET + unat (4 :: u64) < 2 ^ 63"
    and ten: "unat REPARSE_DATA_OFFSET + unat (10 :: u64) < 2 ^ 63"
    by (simp_all add: REPARSE_DATA_OFFSET_def)
  have cut: "chunks (unat BUFFER_SIZE) [1, 2, 3, 4 :: u8] = [[1, 2, 3, 4]]"
    "chunks (unat BUFFER_SIZE) [7, 8, 9 :: u8] = [[7, 8, 9]]"
    by (simp_all add: chunks.simps BUFFER_SIZE_def)
  have none: "chunks k ([] :: u8 list) = []" for k
    by (simp add: chunks.simps)
  from read_ntfs_attribute_prefix_delivers [OF ino attr off four, of keep_chunks "[]"]
  have "read_ntfs_attribute_prefix ?vol example_reparse_loc 4 keep_chunks [] =
      deliver keep_chunks (chunks (unat BUFFER_SIZE)
        (take (unat (4 :: u64)) (drop (unat REPARSE_DATA_OFFSET) (attr_contents example_reparse_attr)))) []"
    by (simp add: len REPARSE_DATA_OFFSET_def)
  then have first: "read_ntfs_attribute_prefix ?vol example_reparse_loc 4 keep_chunks []
      = (None, [[1, 2, 3, 4]])"
    by (simp add: example_reparse_attr_def REPARSE_DATA_OFFSET_def cut keep_chunks_def)
  from read_ntfs_attribute_prefix_delivers [OF ino attr off ten, of keep_chunks "[]"]
  have "read_ntfs_attribute_prefix ?vol example_reparse_loc 10 keep_chunks [] =
      (case deliver keep_chunks
              (chunks (unat BUFFER_SIZE)
                 (take ((length (attr_contents example_reparse_attr) - unat REPARSE_DATA_OFFSET)
                           div unat BUFFER_SIZE * unat BUFFER_SIZE)
                    (drop (unat REPARSE_DATA_OFFSET) (attr_contents example_reparse_attr)))) [] of
         (Some ret, ctx') \<Rightarrow> (Some ret, ctx')
       | (None, ctx') \<Rightarrow> (Some WIMLIB_ERR_NTFS_3G, ctx'))"
    by (simp add: len REPARSE_DATA_OFFSET_def)
  then have second: "read_ntfs_attribute_prefix ?vol example_reparse_loc 10 keep_chunks []
      = (Some WIMLIB_ERR_NTFS_3G, [])"
    by (simp add: len REPARSE_DATA_OFFSET_def BUFFER_SIZE_def none)
  have dino: "ntfs_inode_open ?vol (loc_mft_no ?data_loc) = Some example_link_inode"
    by (simp add: ntfs_inode_open_def example_reparse_loc_def)
  have dattr: "ntfs_attr_open example_link_inode (loc_attr_type ?data_loc)
                (loc_attr_name ?data_loc) (loc_attr_name_nchars ?data_loc)
              = Some example_data_attr"
    by (simp add: ntfs_attr_open_def example_reparse_loc_def
        example_link_inode_def example_reparse_attr_def example_data_attr_def)
  have doff: "(0 :: u64) = (if loc_attr_type ?data_loc = AT_REPARSE_POINT then REPARSE_DATA_OFFSET else 0)"
    by simp
  have three: "unat (0 :: u64) + unat (3 :: u64) < 2 ^ 63"
    by simp
  from read_ntfs_attribute_prefix_delivers [OF dino dattr doff three, of keep_chunks "[]"]
  have "read_ntfs_attribute_prefix ?vol ?data_loc 3 keep_chunks [] =
      deliver keep_chunks (chunks (unat BUFFER_SIZE)
        (take (unat (3 :: u64)) (drop (unat (0 :: u64)) (attr_contents example_data_attr)))) []"
    by (simp add: example_data_attr_def)
  then have third: "read_ntfs_attribute_prefix ?vol ?data_loc 3 keep_chunks [] = (None, [[7, 8, 9]])"
    by (simp add: example_data_attr_def cut keep_chunks_def)
  from first second third show ?thesis by simp
qed


section \<open>Properties of the attribute scan\<close>


lemma free_blob_descriptor_unhashed [simp]:
  "unhashed_blobs (free_blob_descriptor blob s) = unhashed_blobs s"
  by (simp add: free_blob_descriptor_def free_ntfs_location_def put_ntfs_volume_def
      split: option.splits)

text \<open>What the blob block returns when it succeeds on a reparse point.\<close>

lemma scan_ntfs_attr_blob_reparse_Inr:
  assumes "scan_ntfs_attr_blob env s inode ni AT_REPARSE_POINT attr = Inr (blob, inode', s')"
  shows "unat (blob_size blob) + 8 = unat (attr_value_length attr)"
    and "\<exists>loc. blob_ntfs_loc blob = Some loc \<and> loc_attr_type loc = AT_REPARSE_POINT"
    and "unhashed_blobs s' = unhashed_blobs s"
    and "i_streams inode' = i_streams inode"
proof -
  from assms have big: "\<not> attr_value_length attr < REPARSE_DATA_OFFSET"
    and size: "blob_size blob = attr_value_length attr - REPARSE_DATA_OFFSET"
    by (auto simp add: scan_ntfs_attr_blob_def Let_def
        split: prod.splits if_splits sum.splits)
  from big have "REPARSE_DATA_OFFSET \<le> attr_value_length attr" by simp
  then have "unat (attr_value_length attr - REPARSE_DATA_OFFSET)
      = unat (attr_value_length attr) - unat REPARSE_DATA_OFFSET"
    and "unat REPARSE_DATA_OFFSET \<le> unat (attr_value_length attr)"
    by (simp_all add: unat_sub word_le_nat_alt)
  then show "unat (blob_size blob) + 8 = unat (attr_value_length attr)"
    by (simp add: size REPARSE_DATA_OFFSET_def)
  from assms show "\<exists>loc. blob_ntfs_loc blob = Some loc \<and> loc_attr_type loc = AT_REPARSE_POINT"
    by (auto simp add: scan_ntfs_attr_blob_def Let_def set_attr_sort_key_def
        split: prod.splits if_splits sum.splits option.splits)
  from assms show "unhashed_blobs s' = unhashed_blobs s"
    by (auto simp add: scan_ntfs_attr_blob_def Let_def get_ntfs_volume_def alloc_def
        split: prod.splits if_splits sum.splits)
  from assms show "i_streams inode' = i_streams inode"
    by (auto simp add: scan_ntfs_attr_blob_def Let_def
        split: prod.splits if_splits sum.splits)
qed

lemma scan_ntfs_attr_blob_small:
  assumes "attr_value_length attr < REPARSE_DATA_OFFSET"
  shows "isl (scan_ntfs_attr_blob env s inode ni AT_REPARSE_POINT attr)"
  using assms
  by (auto simp add: scan_ntfs_attr_blob_def Let_def split: prod.splits sum.splits)

lemma scan_ntfs_attr_blob_small_errors:
  assumes "attr_value_length attr < REPARSE_DATA_OFFSET"
  shows "\<exists>e s2. scan_ntfs_attr_blob env s1 inode ni AT_REPARSE_POINT attr = Inl (e, s2) \<and>
           (e = WIMLIB_ERR_INVALID_REPARSE_DATA \<or> e = WIMLIB_ERR_NOMEM \<or> e = WIMLIB_ERR_NTFS_3G)"
  using assms
  by (auto simp add: scan_ntfs_attr_blob_def Let_def set_attr_sort_key_def
      split: prod.splits sum.splits option.splits)

lemma scan_ntfs_attr_blob_small_quiet:
  assumes small: "attr_value_length attr < REPARSE_DATA_OFFSET"
    and allocs: "\<forall>k. alloc_ok env k"
    and opens: "ntfs_attr_open ni AT_REPARSE_POINT
                  (if attr_rec_name attr = [] then None else Some (attr_rec_name attr))
                  (of_nat (length (attr_rec_name attr))) \<noteq> None"
  shows "\<exists>s'. scan_ntfs_attr_blob env s inode ni AT_REPARSE_POINT attr
           = Inl (WIMLIB_ERR_INVALID_REPARSE_DATA, s')"
proof -
  from opens obtain na where "ntfs_attr_open ni AT_REPARSE_POINT
                  (if attr_rec_name attr = [] then None else Some (attr_rec_name attr))
                  (of_nat (length (attr_rec_name attr))) = Some na" by blast
  with small allocs show ?thesis
    by (cases "attr_rec_name attr = []")
       (simp_all add: scan_ntfs_attr_blob_def Let_def alloc_def set_attr_sort_key_def
          open_ntfs_attr_def split: prod.splits)
qed

lemma scan_ntfs_attr_blob_big_quiet:
  assumes big: "REPARSE_DATA_OFFSET \<le> attr_value_length attr"
    and allocs: "\<forall>k. alloc_ok env k"
    and opens: "ntfs_attr_open ni AT_REPARSE_POINT
                  (if attr_rec_name attr = [] then None else Some (attr_rec_name attr))
                  (of_nat (length (attr_rec_name attr))) = Some na"
    and tag: "4 \<le> length (attr_contents na)"
  shows "\<exists>b i s2. scan_ntfs_attr_blob env s inode ni AT_REPARSE_POINT attr = Inr (b, i, s2)"
proof -
  from big have nz: "\<not> attr_value_length attr < REPARSE_DATA_OFFSET" by simp
  have rd: "length (ntfs_attr_pread na 0 4) = 4"
    using tag by (simp add: ntfs_attr_pread_def)
  have op: "ntfs_attr_open ni AT_REPARSE_POINT
                  (if attr_rec_name attr = [] then None else Some (attr_rec_name attr)) k = Some na" for k
    using opens by (simp add: ntfs_attr_open_def)
  show ?thesis
    using nz allocs rd op
    by (cases "attr_rec_name attr = []")
       (simp_all add: scan_ntfs_attr_blob_def Let_def alloc_def set_attr_sort_key_def
          open_ntfs_attr_def read_reparse_tag_def split: prod.splits)
qed

lemma scan_ntfs_attr_blob_error:
  assumes "attr_value_length attr \<noteq> 0"
    and "\<And>s1. \<exists>e s2. scan_ntfs_attr_blob env s1 inode ni type attr = Inl (e, s2) \<and> P e"
  shows "\<exists>e. fst (scan_ntfs_attr env s inode ni type attr) = Some e \<and> (P e \<or> e = WIMLIB_ERR_NOMEM)"
    and "\<forall>k. alloc_ok env k \<Longrightarrow> \<exists>e. fst (scan_ntfs_attr env s inode ni type attr) = Some e \<and> P e"
proof -
  obtain ok s1 where a: "(if length (attr_rec_name attr) \<noteq> 0 then alloc env s else (True, s)) = (ok, s1)"
    by force
  obtain e s2 where b: "scan_ntfs_attr_blob env s1 inode ni type attr = Inl (e, s2)" and e: "P e"
    using assms(2) [of s1] by blast
  show "\<exists>e. fst (scan_ntfs_attr env s inode ni type attr) = Some e \<and> (P e \<or> e = WIMLIB_ERR_NOMEM)"
    using assms(1) a b e by (cases ok) (simp_all add: scan_ntfs_attr_def Let_def)
  assume "\<forall>k. alloc_ok env k"
  then have "ok" using a by (auto simp add: alloc_def split: if_splits)
  then show "\<exists>e. fst (scan_ntfs_attr env s inode ni type attr) = Some e \<and> P e"
    using assms(1) a b e by (simp add: scan_ntfs_attr_def Let_def)
qed

lemma scan_ntfs_attr_big_quiet:
  assumes nonempty: "attr_value_length attr \<noteq> 0"
    and big: "REPARSE_DATA_OFFSET \<le> attr_value_length attr"
    and allocs: "\<forall>k. alloc_ok env k"
    and opens: "ntfs_attr_open ni AT_REPARSE_POINT
                  (if attr_rec_name attr = [] then None else Some (attr_rec_name attr))
                  (of_nat (length (attr_rec_name attr))) = Some na"
    and tag: "4 \<le> length (attr_contents na)"
  shows "fst (scan_ntfs_attr env s inode ni AT_REPARSE_POINT attr) = None"
proof -
  obtain ok s1 where a: "(if length (attr_rec_name attr) \<noteq> 0 then alloc env s else (True, s)) = (ok, s1)"
    by force
  from allocs a have ok: "ok" by (auto simp add: alloc_def split: if_splits)
  from scan_ntfs_attr_blob_big_quiet [OF big allocs opens tag, of s1 inode]
  obtain b i s2 where blob: "scan_ntfs_attr_blob env s1 inode ni AT_REPARSE_POINT attr = Inr (b, i, s2)"
    by blast
  obtain oks s3 where c: "alloc env s2 = (oks, s3)" by force
  with allocs have oks: "oks" by (auto simp add: alloc_def)
  from nonempty a ok blob c oks show ?thesis
    by (simp add: scan_ntfs_attr_def Let_def)
qed

lemma scan_ntfs_attr_small_errors:
  assumes nonempty: "attr_value_length attr \<noteq> 0"
    and small: "attr_value_length attr < REPARSE_DATA_OFFSET"
  shows "\<exists>e. fst (scan_ntfs_attr env s inode ni AT_REPARSE_POINT attr) = Some e \<and>
           (e = WIMLIB_ERR_INVALID_REPARSE_DATA \<or> e = WIMLIB_ERR_NOMEM \<or> e = WIMLIB_ERR_NTFS_3G)"
proof -
  have "\<exists>e s2. scan_ntfs_attr_blob env s1 inode ni AT_REPARSE_POINT attr = Inl (e, s2) \<and>
           (e = WIMLIB_ERR_INVALID_REPARSE_DATA \<or> e = WIMLIB_ERR_NOMEM \<or> e = WIMLIB_ERR_NTFS_3G)" for s1
    by (rule scan_ntfs_attr_blob_small_errors [OF small])
  from scan_ntfs_attr_blob_error(1) [OF nonempty this, of s]
  show ?thesis by auto
qed

text \<open>
  Claim C6, as the code has it. For a reparse point attribute that is not empty, with
  \<open>name\<close> the name under which the scan opens it. With fewer than 8 bytes the scan
  never succeeds: it ends with \<open>WIMLIB_ERR_INVALID_REPARSE_DATA\<close>, \<open>WIMLIB_ERR_NOMEM\<close>
  or \<open>WIMLIB_ERR_NTFS_3G\<close>, and with \<open>WIMLIB_ERR_INVALID_REPARSE_DATA\<close> when no
  allocation fails and the library opens the attribute (these steps come before the test
  of the size). With 8 bytes or more the scan succeeds when no allocation fails and the
  library opens the attribute and reads the 4 bytes of its tag. Whenever the scan
  succeeds, the stream it adds to the inode carries a blob that is registered as
  unhashed, whose location is the reparse point attribute and whose size plus 8 is the
  value length of the attribute.
\<close>

theorem scan_ntfs_attr_reparse_point:
  assumes "attr_value_length attr \<noteq> 0"
    and "name = (if attr_rec_name attr = [] then None else Some (attr_rec_name attr))"
    and "name_nchars = of_nat (length (attr_rec_name attr))"
  shows "(attr_value_length attr < REPARSE_DATA_OFFSET \<longrightarrow>
            (\<exists>e. fst (scan_ntfs_attr env s inode ni AT_REPARSE_POINT attr) = Some e \<and>
                 (e = WIMLIB_ERR_INVALID_REPARSE_DATA \<or> e = WIMLIB_ERR_NOMEM \<or>
                  e = WIMLIB_ERR_NTFS_3G)) \<and>
            ((\<forall>k. alloc_ok env k) \<and>
             ntfs_attr_open ni AT_REPARSE_POINT name name_nchars \<noteq> None
             \<longrightarrow> fst (scan_ntfs_attr env s inode ni AT_REPARSE_POINT attr)
                   = Some WIMLIB_ERR_INVALID_REPARSE_DATA))
       \<and> (REPARSE_DATA_OFFSET \<le> attr_value_length attr \<and>
            (\<forall>k. alloc_ok env k) \<and>
            ntfs_attr_open ni AT_REPARSE_POINT name name_nchars = Some na \<and>
            4 \<le> length (attr_contents na)
            \<longrightarrow> fst (scan_ntfs_attr env s inode ni AT_REPARSE_POINT attr) = None)
       \<and> (scan_ntfs_attr env s inode ni AT_REPARSE_POINT attr = (None, inode', s') \<longrightarrow>
            (\<exists>blob loc strm.
               i_streams inode' = i_streams inode @ [strm] \<and>
               stream_type strm = STREAM_TYPE_REPARSE_POINT \<and>
               stream_blob strm = Some blob \<and>
               unhashed_blobs s' = unhashed_blobs s @ [blob] \<and>
               blob_ntfs_loc blob = Some loc \<and> loc_attr_type loc = AT_REPARSE_POINT \<and>
               unat (blob_size blob) + 8 = unat (attr_value_length attr)))"
proof (intro conjI impI)
  assume small: "attr_value_length attr < REPARSE_DATA_OFFSET"
  from scan_ntfs_attr_small_errors [OF assms(1) small]
  show "\<exists>e. fst (scan_ntfs_attr env s inode ni AT_REPARSE_POINT attr) = Some e \<and>
                 (e = WIMLIB_ERR_INVALID_REPARSE_DATA \<or> e = WIMLIB_ERR_NOMEM \<or>
                  e = WIMLIB_ERR_NTFS_3G)" .
next
  assume small: "attr_value_length attr < REPARSE_DATA_OFFSET"
  assume quiet: "(\<forall>k. alloc_ok env k) \<and>
             ntfs_attr_open ni AT_REPARSE_POINT name name_nchars \<noteq> None"
  then have allocs: "\<forall>k. alloc_ok env k"
    and opens: "ntfs_attr_open ni AT_REPARSE_POINT
                  (if attr_rec_name attr = [] then None else Some (attr_rec_name attr))
                  (of_nat (length (attr_rec_name attr))) \<noteq> None"
    by (simp_all add: assms(2,3))
  have "\<exists>e s2. scan_ntfs_attr_blob env s1 inode ni AT_REPARSE_POINT attr = Inl (e, s2)
          \<and> e = WIMLIB_ERR_INVALID_REPARSE_DATA" for s1
    using scan_ntfs_attr_blob_small_quiet [OF small allocs opens, of s1 inode] by blast
  from scan_ntfs_attr_blob_error(2) [OF assms(1) this] allocs
  show "fst (scan_ntfs_attr env s inode ni AT_REPARSE_POINT attr)
                   = Some WIMLIB_ERR_INVALID_REPARSE_DATA"
    by auto
next
  assume big: "REPARSE_DATA_OFFSET \<le> attr_value_length attr \<and>
            (\<forall>k. alloc_ok env k) \<and>
            ntfs_attr_open ni AT_REPARSE_POINT name name_nchars = Some na \<and>
            4 \<le> length (attr_contents na)"
  then have "REPARSE_DATA_OFFSET \<le> attr_value_length attr" and "\<forall>k. alloc_ok env k"
    and "ntfs_attr_open ni AT_REPARSE_POINT
                  (if attr_rec_name attr = [] then None else Some (attr_rec_name attr))
                  (of_nat (length (attr_rec_name attr))) = Some na"
    and "4 \<le> length (attr_contents na)"
    by (simp_all add: assms(2,3))
  from scan_ntfs_attr_big_quiet [OF assms(1) this]
  show "fst (scan_ntfs_attr env s inode ni AT_REPARSE_POINT attr) = None" .
next
  assume ok: "scan_ntfs_attr env s inode ni AT_REPARSE_POINT attr = (None, inode', s')"
  obtain okn s1 where a: "(if length (attr_rec_name attr) \<noteq> 0 then alloc env s else (True, s)) = (okn, s1)"
    by force
  then have s1: "unhashed_blobs s1 = unhashed_blobs s"
    by (auto simp add: alloc_def split: if_splits)
  from ok a assms(1) have okn: "okn"
    by (cases okn) (simp_all add: scan_ntfs_attr_def Let_def)
  obtain blob inode2 s2 where
    blob: "scan_ntfs_attr_blob env s1 inode ni AT_REPARSE_POINT attr = Inr (blob, inode2, s2)"
    using ok a assms(1) okn
    by (cases "scan_ntfs_attr_blob env s1 inode ni AT_REPARSE_POINT attr")
       (auto simp add: scan_ntfs_attr_def Let_def)
  obtain oks s3 where c: "alloc env s2 = (oks, s3)"
    by force
  then have s3: "unhashed_blobs s3 = unhashed_blobs s2"
    by (auto simp add: alloc_def)
  from ok a assms(1) okn blob c have oks: "oks"
    by (cases oks) (simp_all add: scan_ntfs_attr_def Let_def)
  from ok a assms(1) okn blob c oks
  have inode': "i_streams inode' = i_streams inode2 @
           [\<lparr>stream_type = STREAM_TYPE_REPARSE_POINT,
             stream_name = (if length (attr_rec_name attr) \<noteq> 0 then Some (attr_rec_name attr) else None),
             stream_blob = Some blob, stream_id = length (i_streams inode2)\<rparr>]"
    and s': "s' = prepare_unhashed_blob (Some blob) s3"
    by (auto simp add: scan_ntfs_attr_def Let_def)
  note facts = scan_ntfs_attr_blob_reparse_Inr [OF blob]
  from facts(2) obtain loc where loc: "blob_ntfs_loc blob = Some loc"
    "loc_attr_type loc = AT_REPARSE_POINT" by blast
  have "unhashed_blobs s' = unhashed_blobs s @ [blob]"
    by (simp add: s' prepare_unhashed_blob_def s3 facts(3) s1)
  with inode' facts(1,4) loc
  show "\<exists>blob loc strm.
               i_streams inode' = i_streams inode @ [strm] \<and>
               stream_type strm = STREAM_TYPE_REPARSE_POINT \<and>
               stream_blob strm = Some blob \<and>
               unhashed_blobs s' = unhashed_blobs s @ [blob] \<and>
               blob_ntfs_loc blob = Some loc \<and> loc_attr_type loc = AT_REPARSE_POINT \<and>
               unat (blob_size blob) + 8 = unat (attr_value_length attr)"
    by (intro exI [of _ blob] exI [of _ loc]) auto
qed

text \<open>
  Boundary scenario 5: the reparse point of 4 bytes is rejected; the one of 8 bytes gives
  a blob of 0 bytes and the one of 12 bytes a blob of 4 bytes.
\<close>

theorem scan_ntfs_attr_reparse_point_witness:
  "fst (scan_ntfs_attr quiet_env initial_capture_state (new_inode 5) short_link_inode
          AT_REPARSE_POINT short_reparse_attr) = Some WIMLIB_ERR_INVALID_REPARSE_DATA
   \<and> fst (scan_ntfs_attr quiet_env initial_capture_state (new_inode 5) header_only_link_inode
          AT_REPARSE_POINT header_only_reparse_attr) = None
   \<and> map blob_size (unhashed_blobs (snd (snd
          (scan_ntfs_attr quiet_env initial_capture_state (new_inode 5) header_only_link_inode
             AT_REPARSE_POINT header_only_reparse_attr)))) = [0]
   \<and> fst (scan_ntfs_attr quiet_env initial_capture_state (new_inode 5) example_link_inode
          AT_REPARSE_POINT example_reparse_attr) = None
   \<and> map blob_size (unhashed_blobs (snd (snd
          (scan_ntfs_attr quiet_env initial_capture_state (new_inode 5) example_link_inode
             AT_REPARSE_POINT example_reparse_attr)))) = [4]"
proof -
  let ?short = "scan_ntfs_attr quiet_env initial_capture_state (new_inode 5) short_link_inode
          AT_REPARSE_POINT short_reparse_attr"
  let ?bare = "scan_ntfs_attr quiet_env initial_capture_state (new_inode 5) header_only_link_inode
          AT_REPARSE_POINT header_only_reparse_attr"
  let ?long = "scan_ntfs_attr quiet_env initial_capture_state (new_inode 5) example_link_inode
          AT_REPARSE_POINT example_reparse_attr"
  have nonempty: "attr_value_length short_reparse_attr \<noteq> 0"
    "attr_value_length header_only_reparse_attr \<noteq> 0"
    "attr_value_length example_reparse_attr \<noteq> 0"
    by (simp_all add: short_reparse_attr_def header_only_reparse_attr_def example_reparse_attr_def)
  have name: "None = (if attr_rec_name short_reparse_attr = [] then None
                      else Some (attr_rec_name short_reparse_attr))"
    "None = (if attr_rec_name header_only_reparse_attr = [] then None
             else Some (attr_rec_name header_only_reparse_attr))"
    "None = (if attr_rec_name example_reparse_attr = [] then None
             else Some (attr_rec_name example_reparse_attr))"
    by (simp_all add: short_reparse_attr_def header_only_reparse_attr_def example_reparse_attr_def)
  have nchars: "(0 :: u32) = of_nat (length (attr_rec_name short_reparse_attr))"
    "(0 :: u32) = of_nat (length (attr_rec_name header_only_reparse_attr))"
    "(0 :: u32) = of_nat (length (attr_rec_name example_reparse_attr))"
    by (simp_all add: short_reparse_attr_def header_only_reparse_attr_def example_reparse_attr_def)
  have small: "attr_value_length short_reparse_attr < REPARSE_DATA_OFFSET"
    by (simp add: short_reparse_attr_def REPARSE_DATA_OFFSET_def)
  have big: "REPARSE_DATA_OFFSET \<le> attr_value_length header_only_reparse_attr"
    "REPARSE_DATA_OFFSET \<le> attr_value_length example_reparse_attr"
    by (simp_all add: header_only_reparse_attr_def example_reparse_attr_def REPARSE_DATA_OFFSET_def)
  have allocs: "\<forall>k. alloc_ok quiet_env k"
    by (simp add: quiet_env_def)
  have opens: "ntfs_attr_open short_link_inode AT_REPARSE_POINT None 0 \<noteq> None"
    by (simp add: ntfs_attr_open_def short_link_inode_def
        example_link_inode_def short_reparse_attr_def)
  have opens_bare: "ntfs_attr_open header_only_link_inode AT_REPARSE_POINT None 0
      = Some header_only_reparse_attr"
    and tag_bare: "4 \<le> length (attr_contents header_only_reparse_attr)"
    by (simp_all add: ntfs_attr_open_def header_only_link_inode_def
        example_link_inode_def header_only_reparse_attr_def)
  have opens_long: "ntfs_attr_open example_link_inode AT_REPARSE_POINT None 0
      = Some example_reparse_attr"
    and tag_long: "4 \<le> length (attr_contents example_reparse_attr)"
    by (simp_all add: ntfs_attr_open_def example_link_inode_def example_reparse_attr_def)
  from scan_ntfs_attr_reparse_point [OF nonempty(1) name(1) nchars(1),
      where env = quiet_env and s = initial_capture_state and inode = "new_inode 5"
        and ni = short_link_inode] small allocs opens
  have rejected: "fst ?short = Some WIMLIB_ERR_INVALID_REPARSE_DATA"
    by blast
  from scan_ntfs_attr_reparse_point [OF nonempty(2) name(2) nchars(2),
      where env = quiet_env and s = initial_capture_state and inode = "new_inode 5"
        and ni = header_only_link_inode and na = header_only_reparse_attr]
    big(1) allocs opens_bare tag_bare
  have scanned_bare: "fst ?bare = None"
    by blast
  then have "?bare = (None, fst (snd ?bare), snd (snd ?bare))"
    by (cases ?bare) simp
  with scan_ntfs_attr_reparse_point [OF nonempty(2) name(2) nchars(2),
      where env = quiet_env and s = initial_capture_state and inode = "new_inode 5"
        and ni = header_only_link_inode and inode' = "fst (snd ?bare)" and s' = "snd (snd ?bare)"]
  obtain blob0 where "unhashed_blobs (snd (snd ?bare)) = unhashed_blobs initial_capture_state @ [blob0]"
    and "unat (blob_size blob0) + 8 = unat (attr_value_length header_only_reparse_attr)"
    by blast
  then have only0: "unhashed_blobs (snd (snd ?bare)) = [blob0]" and zero: "unat (blob_size blob0) = 0"
    by (simp_all add: initial_capture_state_def header_only_reparse_attr_def)
  from zero have "blob_size blob0 = 0"
    by (simp add: unat_eq_0)
  with only0 have bare_blob: "map blob_size (unhashed_blobs (snd (snd ?bare))) = [0]"
    by simp
  from scan_ntfs_attr_reparse_point [OF nonempty(3) name(3) nchars(3),
      where env = quiet_env and s = initial_capture_state and inode = "new_inode 5"
        and ni = example_link_inode and na = example_reparse_attr]
    big(2) allocs opens_long tag_long
  have scanned: "fst ?long = None"
    by blast
  then have "?long = (None, fst (snd ?long), snd (snd ?long))"
    by (cases ?long) simp
  with scan_ntfs_attr_reparse_point [OF nonempty(3) name(3) nchars(3),
      where env = quiet_env and s = initial_capture_state and inode = "new_inode 5"
        and ni = example_link_inode and inode' = "fst (snd ?long)" and s' = "snd (snd ?long)"]
  obtain blob where "unhashed_blobs (snd (snd ?long)) = unhashed_blobs initial_capture_state @ [blob]"
    and "unat (blob_size blob) + 8 = unat (attr_value_length example_reparse_attr)"
    by blast
  then have only: "unhashed_blobs (snd (snd ?long)) = [blob]" and four: "unat (blob_size blob) = 4"
    by (simp_all add: initial_capture_state_def example_reparse_attr_def)
  from arg_cong [where f = "of_nat :: nat \<Rightarrow> u64", OF four] have "blob_size blob = 4"
    by simp
  with only have "map blob_size (unhashed_blobs (snd (snd ?long))) = [4]"
    by simp
  with rejected scanned_bare bare_blob scanned show ?thesis by blast
qed

text \<open>
  Claim C6, as the spec states it, fails when a step before the test of the size fails:
  for the reparse point of 4 bytes and an allocator without memory the scan ends with
  \<open>WIMLIB_ERR_NOMEM\<close>, not with \<open>WIMLIB_ERR_INVALID_REPARSE_DATA\<close>.
\<close>

theorem scan_ntfs_attr_reparse_point_no_memory:
  "attr_value_length short_reparse_attr \<noteq> 0
   \<and> attr_value_length short_reparse_attr < REPARSE_DATA_OFFSET
   \<and> fst (scan_ntfs_attr no_memory_env initial_capture_state (new_inode 5) short_link_inode
            AT_REPARSE_POINT short_reparse_attr) = Some WIMLIB_ERR_NOMEM
   \<and> fst (scan_ntfs_attr no_memory_env initial_capture_state (new_inode 5) short_link_inode
            AT_REPARSE_POINT short_reparse_attr) \<noteq> Some WIMLIB_ERR_INVALID_REPARSE_DATA"
  by (simp add: scan_ntfs_attr_def scan_ntfs_attr_blob_def Let_def alloc_def no_memory_env_def
      quiet_env_def initial_capture_state_def short_reparse_attr_def REPARSE_DATA_OFFSET_def)

section \<open>Properties of get_security_descriptor\<close>

text \<open>
  Whatever the retries, the inode and the set of descriptors are as they were, or a
  descriptor of positive length was fetched and its ID stored.
\<close>

lemma get_security_descriptor_retry_stores:
  assumes "get_security_descriptor_retry env ni avail_size inode s = Some res"
  shows "(fst (snd res) = inode \<and> sd_set (snd (snd res)) = sd_set s)
       \<or> (\<exists>avail ret buf s1.
             ni_acl ni avail = (ret, buf) \<and> 0 < ret \<and> nat ret \<le> avail \<and>
             sd_set s1 = sd_set s \<and>
             fst (snd res) = inode\<lparr>i_security_id := fst (sd_set_add_sd env s1 (take (nat ret) buf))\<rparr> \<and>
             snd (snd res) = snd (sd_set_add_sd env s1 (take (nat ret) buf)))"
proof (rule get_security_descriptor_retry.raw_induct
    [where P = "\<lambda>env ni avail_size inode s res.
       (fst (snd res) = inode \<and> sd_set (snd (snd res)) = sd_set s)
       \<or> (\<exists>avail ret buf s1.
             ni_acl ni avail = (ret, buf) \<and> 0 < ret \<and> nat ret \<le> avail \<and>
             sd_set s1 = sd_set s \<and>
             fst (snd res) = inode\<lparr>i_security_id := fst (sd_set_add_sd env s1 (take (nat ret) buf))\<rparr> \<and>
             snd (snd res) = snd (sd_set_add_sd env s1 (take (nat ret) buf)))",
     OF _ assms], goal_cases)
  case (1 retry env ni avail_size inode s res)
  obtain ret buf where acl: "ni_acl ni avail_size = (ret, buf)"
    by force
  show ?case
  proof (cases "ret < 0")
    case True
    with 1(2) acl show ?thesis by auto
  next
    case False
    show ?thesis
    proof (cases "nat ret > avail_size")
      case True
      obtain ok s' where al: "alloc env s = (ok, s')" by force
      then have same: "sd_set s' = sd_set s" by (auto simp add: alloc_def)
      show ?thesis
      proof (cases ok)
        case False
        with 1(2) acl \<open>\<not> ret < 0\<close> True al same show ?thesis by auto
      next
        case ok: True
        with 1(2) acl \<open>\<not> ret < 0\<close> True al
        have "retry env ni (nat ret) inode s' = Some res" by simp
        from 1(1) [OF this] same show ?thesis by simp
      qed
    next
      case fits: False
      show ?thesis
      proof (cases "ret > 0")
        case True
        with 1(2) acl \<open>\<not> ret < 0\<close> fits
        have "fst (snd res) = inode\<lparr>i_security_id := fst (sd_set_add_sd env s (take (nat ret) buf))\<rparr>"
          and "snd (snd res) = snd (sd_set_add_sd env s (take (nat ret) buf))"
          by (auto simp add: Let_def split: prod.splits if_splits)
        with acl True fits show ?thesis
          by (intro disjI2 exI [of _ avail_size] exI [of _ ret] exI [of _ buf] exI [of _ s]) simp
      next
        case False
        with 1(2) acl \<open>\<not> ret < 0\<close> fits show ?thesis by auto
      qed
    qed
  qed
qed

text \<open>
  Claim C10. When the library reports a security descriptor of length 0, the function
  returns 0 at once: the inode, and with it its security ID (\<open>-1\<close> for an inode without
  descriptor), and the set of descriptors are unchanged. Whenever the function returns,
  either the inode and the set are unchanged, or a descriptor of positive length was
  fetched and the inode's security ID is what \<open>sd_set_add_sd\<close> returned for it.
\<close>

theorem get_security_descriptor_empty:
  "(fst (ni_acl ni 4096) = 0 \<longrightarrow>
      get_security_descriptor env ni inode s = Some (None, inode, s))
   \<and> (get_security_descriptor env ni inode s = Some (r, inode', s') \<longrightarrow>
        (inode' = inode \<and> sd_set s' = sd_set s)
        \<or> (\<exists>avail ret buf s1.
              ni_acl ni avail = (ret, buf) \<and> 0 < ret \<and> nat ret \<le> avail \<and>
              sd_set s1 = sd_set s \<and>
              inode' = inode\<lparr>i_security_id := fst (sd_set_add_sd env s1 (take (nat ret) buf))\<rparr> \<and>
              s' = snd (sd_set_add_sd env s1 (take (nat ret) buf))))"
proof (intro conjI impI)
  assume "fst (ni_acl ni 4096) = 0"
  then obtain buf where "ni_acl ni 4096 = (0, buf)"
    by (cases "ni_acl ni 4096") simp
  then show "get_security_descriptor env ni inode s = Some (None, inode, s)"
    by (subst get_security_descriptor_def, subst get_security_descriptor_retry.simps) simp
next
  assume "get_security_descriptor env ni inode s = Some (r, inode', s')"
  then have "get_security_descriptor_retry env ni 4096 inode s = Some (r, inode', s')"
    by (simp add: get_security_descriptor_def)
  from get_security_descriptor_retry_stores [OF this]
  show "(inode' = inode \<and> sd_set s' = sd_set s)
        \<or> (\<exists>avail ret buf s1.
              ni_acl ni avail = (ret, buf) \<and> 0 < ret \<and> nat ret \<le> avail \<and>
              sd_set s1 = sd_set s \<and>
              inode' = inode\<lparr>i_security_id := fst (sd_set_add_sd env s1 (take (nat ret) buf))\<rparr> \<and>
              s' = snd (sd_set_add_sd env s1 (take (nat ret) buf)))"
    by simp
qed

text \<open>
  An inode without descriptor keeps the ID \<open>-1\<close> and adds nothing to the empty set; the
  inode of the example, with its descriptor of 2 bytes, gets the ID 0.
\<close>

theorem get_security_descriptor_empty_witness:
  "fst (ni_acl no_acl_inode 4096) = 0
   \<and> get_security_descriptor quiet_env no_acl_inode (new_inode 5) initial_capture_state
       = Some (None, new_inode 5, initial_capture_state)
   \<and> i_security_id (new_inode 5) = -1
   \<and> sd_set initial_capture_state = []
   \<and> map_option (\<lambda>(r, inode', s'). (r, i_security_id inode', sd_set s'))
        (get_security_descriptor quiet_env example_link_inode (new_inode 5) initial_capture_state)
       = Some (None, 0, [[1, 2]])"
proof -
  have zero: "fst (ni_acl no_acl_inode 4096) = 0"
    by (simp add: no_acl_inode_def)
  from get_security_descriptor_empty [of no_acl_inode quiet_env "new_inode 5" initial_capture_state] zero
  have kept: "get_security_descriptor quiet_env no_acl_inode (new_inode 5) initial_capture_state
       = Some (None, new_inode 5, initial_capture_state)"
    by blast
  have stored: "map_option (\<lambda>(r, inode', s'). (r, i_security_id inode', sd_set s'))
        (get_security_descriptor quiet_env example_link_inode (new_inode 5) initial_capture_state)
       = Some (None, 0, [[1, 2]])"
    by (subst get_security_descriptor_def, subst get_security_descriptor_retry.simps)
       (simp add: example_link_inode_def sd_set_add_sd_def initial_capture_state_def alloc_def
          quiet_env_def)
  from zero kept stored show ?thesis
    by (simp add: new_inode_def initial_capture_state_def)
qed


section \<open>Properties of the metadata writer\<close>

lemma length_put_le [simp]: "length (put_le w v) = w"
  by (induction w arbitrary: v) simp_all

lemma length_name_bytes [simp]:
  "length (name_bytes name) = 2 * length (case name of None \<Rightarrow> [] | Some n \<Rightarrow> n)"
proof -
  have "length (concat (map (\<lambda>c. put_le 2 (unat c)) xs)) = 2 * length xs" for xs :: "u16 list"
    by (induction xs) simp_all
  then show ?thesis by (simp add: name_bytes_def)
qed

lemma align8_ge: "n \<le> align8 n"
  unfolding align8_def by presburger

lemma align8_align8 [simp]: "align8 (align8 n) = align8 n"
  unfolding align8_def by presburger

lemma length_padded: "length (xs @ replicate (align8 (length xs) - length xs) x) = align8 (length xs)"
  using align8_ge [of "length xs"] by simp

lemma length_write_dentry:
  assumes "dentry_names_ok d"
  shows "length (write_dentry d) = dentry_out_total_length d"
proof -
  have "length (write_dentry d) =
      align8 (108 + 2 * length (case file_name d of None \<Rightarrow> [] | Some n \<Rightarrow> n) + 2
                  + 2 * length (case short_name d of None \<Rightarrow> [] | Some n \<Rightarrow> n) + 2)"
    unfolding write_dentry_def Let_def length_padded by (simp add: add.assoc)
  with assms show ?thesis
    by (simp add: dentry_out_total_length_def dentry_names_ok_def)
qed

lemma length_write_dentry_offset:
  "length (write_dentry (d\<lparr>subdir_offset := x\<rparr>)) = length (write_dentry d)"
  unfolding write_dentry_def Let_def length_padded
  by (simp add: dentry_out_total_length_def)

lemma foldl_add_mod:
  "foldl (\<lambda>t sz. (t + f sz) mod m) (t0 mod m) xs = (t0 + sum_list (map f xs)) mod (m :: nat)"
proof (induction xs arbitrary: t0)
  case Nil
  show ?case by simp
next
  case (Cons x xs)
  have "foldl (\<lambda>t sz. (t + f sz) mod m) (t0 mod m) (x # xs)
      = foldl (\<lambda>t sz. (t + f sz) mod m) ((t0 + f x) mod m) xs"
    by (simp add: mod_add_left_eq)
  also have "\<dots> = (t0 + f x + sum_list (map f xs)) mod m"
    by (rule Cons.IH)
  finally show ?case by (simp add: add.assoc)
qed

lemma recalculated_total_length:
  assumes "security_data_ok sd"
  shows "unat (total_length (recalculate_security_data_length sd))
         = ((security_data_length sd mod 2 ^ 32 + 7) mod 2 ^ 32) div 8 * 8"
proof -
  let ?n = "unat (num_entries sd)"
  have take: "take ?n (sizes sd) = sizes sd"
    using assms by (simp add: security_data_ok_def)
  have "foldl (\<lambda>t sz. (t + unat sz) mod 2 ^ 32) ((8 * ?n + 2 * 4) mod 2 ^ 32) (sizes sd)
      = (8 * ?n + 2 * 4 + sum_list (map unat (sizes sd))) mod 2 ^ 32"
    by (rule foldl_add_mod)
  then have total1: "foldl (\<lambda>t sz. (t + unat sz) mod 2 ^ 32) ((8 * ?n + 2 * 4) mod 2 ^ 32) (sizes sd)
      = security_data_length sd mod 2 ^ 32"
    by (simp add: security_data_length_def add.commute add.left_commute)
  have small: "((security_data_length sd mod 2 ^ 32 + 7) mod 2 ^ 32) div 8 * 8 < 2 ^ 32"
  proof -
    have "((security_data_length sd mod 2 ^ 32 + 7) mod 2 ^ 32) div 8 * 8
        \<le> (security_data_length sd mod 2 ^ 32 + 7) mod 2 ^ 32"
      by (simp add: div_times_less_eq_dividend)
    also have "\<dots> < 2 ^ 32" by simp
    finally show ?thesis .
  qed
  define x where "x = ((security_data_length sd mod 2 ^ 32 + 7) mod 2 ^ 32) div 8 * 8"
  have "unat (of_nat x :: u32) = x mod 2 ^ 32"
    by (simp add: unat_of_nat)
  also have "\<dots> = x"
    using small by (simp only: x_def [symmetric]) simp
  finally have "unat (of_nat x :: u32) = x" .
  moreover have "total_length (recalculate_security_data_length sd) = of_nat x"
    unfolding recalculate_security_data_length_def Let_def take total1 x_def by simp
  ultimately show ?thesis
    by (simp only: x_def)
qed

lemma recalculated_fields [simp]:
  "num_entries (recalculate_security_data_length sd) = num_entries sd"
  "sizes (recalculate_security_data_length sd) = sizes sd"
  "descriptors (recalculate_security_data_length sd) = descriptors sd"
  by (simp_all add: recalculate_security_data_length_def Let_def)

lemma length_write_wim_security_data:
  assumes "security_data_ok sd"
  shows "length (write_wim_security_data (recalculate_security_data_length sd))
         = align8 (security_data_length sd)"
proof -
  have sizes: "length (concat (map (\<lambda>sz. put_le 8 (unat sz)) xs)) = 8 * length xs" for xs :: "u64 list"
    by (induction xs) simp_all
  have descs: "length (concat (descriptors sd)) = sum_list (map unat (sizes sd))"
    using assms by (simp add: security_data_ok_def length_concat)
  have "length (write_wim_security_data (recalculate_security_data_length sd))
      = align8 (4 + 4 + 8 * length (sizes sd) + sum_list (map unat (sizes sd)))"
    unfolding write_wim_security_data_def Let_def length_padded
    by (simp add: sizes descs add.assoc)
  with assms show ?thesis
    by (simp add: security_data_length_def security_data_ok_def)
qed

lemma children_written_length:
  assumes "list_all2 same_but_offset cs' cs" and "tree_names_ok_list cs"
  shows "length (concat (map (\<lambda>c. write_dentry (d_rec c)) cs'))
         = sum_list (map (\<lambda>c. dentry_out_total_length (d_rec c)) cs)"
  using assms
proof (induction cs' cs rule: list_all2_induct)
  case Nil
  show ?case by simp
next
  case (Cons c' cs' c cs)
  from Cons.hyps(1) obtain x where c': "d_rec c' = (d_rec c)\<lparr>subdir_offset := x\<rparr>"
    by (auto simp add: same_but_offset_def)
  from Cons.prems have "dentry_names_ok (d_rec c)" and rest: "tree_names_ok_list cs"
    by (cases c, simp)+
  then have "length (write_dentry (d_rec c')) = dentry_out_total_length (d_rec c)"
    by (simp add: c' length_write_dentry_offset length_write_dentry)
  with Cons.IH [OF rest] show ?case by simp
qed

lemma offset_assigned_nonzero:
  assumes "0 < cursor" and "cursor < 2 ^ 64"
  shows "(of_nat cursor :: u64) \<noteq> 0"
  using assms by (intro of_nat_neq_0) simp_all

lemma calculate_subdir_offsets_lengths:
  "calculate_subdir_offsets d cursor = (d', final) \<Longrightarrow>
     final = cursor + subdirs_length d \<and> same_but_offset d' d \<and>
     (0 < cursor \<and> final < 2 ^ 64 \<and> tree_names_ok d \<longrightarrow>
        length (write_dir_dentries d') = subdirs_length d)"
  "calculate_subdir_offsets_list cs cursor = (cs', final) \<Longrightarrow>
     final = cursor + subdirs_length_list cs \<and> list_all2 same_but_offset cs' cs \<and>
     (0 < cursor \<and> final < 2 ^ 64 \<and> tree_names_ok_list cs \<longrightarrow>
        length (write_dir_dentries_list cs') = subdirs_length_list cs)"
proof (induction d cursor and cs cursor arbitrary: d' final and cs' final
    rule: calculate_subdir_offsets_calculate_subdir_offsets_list.induct)
  case (1 d children cursor)
  let ?sum = "sum_list (map (\<lambda>c. dentry_out_total_length (d_rec c)) children)"
  show ?case
  proof (cases "spec_dentry_is_directory d")
    case True
    obtain children' where list: "calculate_subdir_offsets_list children (cursor + ?sum + 8)
        = (children', final)"
      and d': "d' = Dentry (d\<lparr>subdir_offset := of_nat cursor\<rparr>) children'"
      using "1.prems" True by (auto split: prod.splits)
    note ih = "1.IH"(1) [OF True list]
    have final: "final = cursor + subdirs_length (Dentry d children)"
      using ih True by simp
    have same: "same_but_offset d' (Dentry d children)"
      by (auto simp add: same_but_offset_def d')
    have written: "length (write_dir_dentries d') = subdirs_length (Dentry d children)"
      if "0 < cursor" and "final < 2 ^ 64" and "tree_names_ok (Dentry d children)"
    proof -
      from that(1,2) final have "(of_nat cursor :: u64) \<noteq> 0"
        by (intro offset_assigned_nonzero) simp_all
      moreover have "length (concat (map (\<lambda>c. write_dentry (d_rec c)) children')) = ?sum"
        using ih that(3) by (intro children_written_length) simp_all
      moreover have "length (write_dir_dentries_list children') = subdirs_length_list children"
        using ih that by simp
      ultimately show ?thesis
        using True by (simp add: d')
    qed
    from final same written show ?thesis by blast
  next
    case False
    obtain children' where list: "calculate_subdir_offsets_list children cursor = (children', final)"
      and d': "d' = Dentry (d\<lparr>subdir_offset := 0\<rparr>) children'"
      using "1.prems" False by (auto split: prod.splits)
    note ih = "1.IH"(2) [OF False list]
    have final: "final = cursor + subdirs_length (Dentry d children)"
      using ih False by simp
    have same: "same_but_offset d' (Dentry d children)"
      by (auto simp add: same_but_offset_def d')
    have written: "length (write_dir_dentries d') = subdirs_length (Dentry d children)"
      if "0 < cursor" and "final < 2 ^ 64" and "tree_names_ok (Dentry d children)"
      using ih that False by (simp add: d')
    from final same written show ?thesis by blast
  qed
next
  case (2 cursor)
  then show ?case by simp
next
  case (3 c cs cursor)
  obtain c' cursor1 where c: "calculate_subdir_offsets c cursor = (c', cursor1)"
    by force
  obtain cs1 where cs: "calculate_subdir_offsets_list cs cursor1 = (cs1, final)"
    and cs': "cs' = c' # cs1"
    using "3.prems" c by (auto split: prod.splits)
  note ih1 = "3.IH"(1) [OF c]
  note ih2 = "3.IH"(2) [OF c [symmetric] refl cs]
  have final: "final = cursor + subdirs_length_list (c # cs)"
    using ih1 ih2 by simp
  have same: "list_all2 same_but_offset cs' (c # cs)"
    using ih1 ih2 by (simp add: cs')
  have written: "length (write_dir_dentries_list cs') = subdirs_length_list (c # cs)"
    if "0 < cursor" and "final < 2 ^ 64" and "tree_names_ok_list (c # cs)"
  proof -
    have "cursor1 \<le> final" and "cursor \<le> cursor1"
      using ih1 ih2 by simp_all
    with that ih1 ih2 show ?thesis
      by (simp add: cs')
  qed
  from final same written show ?case by blast
qed

text \<open>
  What \<open>prepare_metadata_resource\<close> computes for an image that satisfies the invariants:
  the final cursor is built on the wrapped 32-bit length of the security data, the bytes
  written on its true length. The function returns when the two agree.
\<close>

lemma prepare_metadata_resource_cursor_and_bytes:
  assumes select: "select_wim_image env = None"
    and root: "(case root_dentry imd of None \<Rightarrow> new_filler_directory env | Some r \<Rightarrow> Inr r) = Inr root"
    and sd_ok: "security_data_ok (security_data imd)"
    and names: "tree_names_ok root"
    and sd': "sd' = recalculate_security_data_length (security_data imd)"
    and calc: "calculate_subdir_offsets root
                 (align8 (unat (total_length sd')) + dentry_out_total_length (d_rec root) + 8)
               = (root', final)"
    and bound: "final < 2 ^ 64"
    and malloc: "MALLOC_buf env final"
  shows "final = unat (total_length sd') + dentry_out_total_length (d_rec root) + 8
                 + subdirs_length root"
    and "length (write_wim_security_data sd' @ write_dentry_tree root')
         = align8 (security_data_length (security_data imd))
           + dentry_out_total_length (d_rec root) + 8 + subdirs_length root"
    and "prepare_metadata_resource env imd =
         (if length (write_wim_security_data sd' @ write_dentry_tree root') = final
          then Some (Inr (write_wim_security_data sd' @ write_dentry_tree root', final))
          else None)"
proof -
  let ?L = "security_data_length (security_data imd)"
  let ?cursor0 = "align8 (unat (total_length sd')) + dentry_out_total_length (d_rec root) + 8"
  have total: "unat (total_length sd') = ((?L mod 2 ^ 32 + 7) mod 2 ^ 32) div 8 * 8"
    unfolding sd' by (rule recalculated_total_length [OF sd_ok])
  have "align8 (k div 8 * 8) = k div 8 * 8" for k
    unfolding align8_def by presburger
  then have aligned: "align8 (unat (total_length sd')) = unat (total_length sd')"
    by (simp only: total)
  note tree = calculate_subdir_offsets_lengths(1) [OF calc]
  show final: "final = unat (total_length sd') + dentry_out_total_length (d_rec root) + 8
                 + subdirs_length root"
    using tree by (simp add: aligned)
  have "0 < ?cursor0" by simp
  with tree bound names have rest: "length (write_dir_dentries root') = subdirs_length root"
    by blast
  from tree obtain x where "d_rec root' = (d_rec root)\<lparr>subdir_offset := x\<rparr>"
    by (auto simp add: same_but_offset_def)
  moreover from names have "dentry_names_ok (d_rec root)"
    by (cases root) simp
  ultimately have rootlen: "length (write_dentry (d_rec root')) = dentry_out_total_length (d_rec root)"
    by (simp add: length_write_dentry_offset length_write_dentry)
  show "length (write_wim_security_data sd' @ write_dentry_tree root')
         = align8 ?L + dentry_out_total_length (d_rec root) + 8 + subdirs_length root"
    unfolding sd'
    by (simp add: length_write_wim_security_data [OF sd_ok] write_dentry_tree_def rootlen rest)
  show "prepare_metadata_resource env imd =
         (if length (write_wim_security_data sd' @ write_dentry_tree root') = final
          then Some (Inr (write_wim_security_data sd' @ write_dentry_tree root', final))
          else None)"
    using select root calc malloc
    by (simp add: prepare_metadata_resource_def sd' [symmetric] Let_def)
qed

text \<open>
  When the length of the security data, rounded up to a multiple of 8, fits in 32 bits,
  the final cursor of the offset assignment is the number of bytes written: the buffer is
  exactly filled and the function returns it.
\<close>

lemma prepare_metadata_resource_fills_buffer:
  assumes select: "select_wim_image env = None"
    and root: "(case root_dentry imd of None \<Rightarrow> new_filler_directory env | Some r \<Rightarrow> Inr r) = Inr root"
    and sd_ok: "security_data_ok (security_data imd)"
    and names: "tree_names_ok root"
    and fits: "security_data_length (security_data imd) + 7 < 2 ^ 32"
    and sd': "sd' = recalculate_security_data_length (security_data imd)"
    and calc: "calculate_subdir_offsets root
                 (align8 (unat (total_length sd')) + dentry_out_total_length (d_rec root) + 8)
               = (root', final)"
    and bound: "final < 2 ^ 64"
    and malloc: "MALLOC_buf env final"
  shows "prepare_metadata_resource env imd =
           Some (Inr (write_wim_security_data sd' @ write_dentry_tree root', final))
         \<and> length (write_wim_security_data sd' @ write_dentry_tree root') = final"
proof -
  let ?L = "security_data_length (security_data imd)"
  note facts = prepare_metadata_resource_cursor_and_bytes
    [OF select root sd_ok names sd' calc bound malloc]
  have "unat (total_length sd') = ((?L mod 2 ^ 32 + 7) mod 2 ^ 32) div 8 * 8"
    unfolding sd' by (rule recalculated_total_length [OF sd_ok])
  also have "\<dots> = align8 ?L"
    using fits by (simp add: align8_def)
  finally have "length (write_wim_security_data sd' @ write_dentry_tree root') = final"
    using facts(1,2) by simp
  with facts(3) show ?thesis by simp
qed

text \<open>
  The image with two descriptors and one file: 32 bytes of security data, the root of 112
  bytes and its end-of-directory entry, the file of 120 bytes and the end-of-directory
  entry of the root directory.
\<close>

lemma prepare_metadata_resource_small_image:
  "\<exists>written. prepare_metadata_resource plain_writer_env small_image = Some (Inr (written, 280))
             \<and> length written = 280"
proof -
  let ?root = "Dentry empty_root
        [Dentry (empty_root\<lparr>d_attributes := 0x20, file_name := Some [0x61],
                            file_name_nbytes := 2\<rparr>) []]"
  let ?sd' = "recalculate_security_data_length (security_data small_image)"
  have select: "select_wim_image plain_writer_env = None"
    by (simp add: plain_writer_env_def)
  have root: "(case root_dentry small_image of None \<Rightarrow> new_filler_directory plain_writer_env
               | Some r \<Rightarrow> Inr r) = Inr ?root"
    by (simp add: small_image_def)
  have sd_ok: "security_data_ok (security_data small_image)"
    by (simp add: security_data_ok_def small_image_def)
  have names: "tree_names_ok ?root"
    by (simp add: dentry_names_ok_def empty_root_def)
  have len: "security_data_length (security_data small_image) = 32"
    by (simp add: security_data_length_def small_image_def)
  then have fits: "security_data_length (security_data small_image) + 7 < 2 ^ 32"
    by simp
  have total: "unat (total_length ?sd') = 32"
    using recalculated_total_length [OF sd_ok] by (simp add: len)
  obtain root' final where calc: "calculate_subdir_offsets ?root
                 (align8 (unat (total_length ?sd')) + dentry_out_total_length (d_rec ?root) + 8)
               = (root', final)"
    by force
  from calculate_subdir_offsets_lengths(1) [OF calc]
  have final: "final = 280"
    by (simp add: total align8_def dentry_out_total_length_def empty_root_def
        spec_dentry_is_directory_def)
  have malloc: "MALLOC_buf plain_writer_env final"
    by (simp add: plain_writer_env_def)
  from prepare_metadata_resource_fills_buffer
    [OF select root sd_ok names fits refl calc _ malloc] final
  show ?thesis by simp
qed

text \<open>
  Claim C2 at an image whose security data does not fit in 32 bits. With two descriptors
  of \<open>2 ^ 31 - 8\<close> bytes the security data has \<open>2 ^ 32 + 8\<close> bytes and its 32-bit
  length wraps around to 8: the final cursor, and with it the buffer, is 136 bytes, the
  bytes written are \<open>2 ^ 32 + 136\<close>, and the assertion that the buffer was exactly
  filled fails.
\<close>

theorem prepare_metadata_resource_huge_security_data:
  "security_data_ok (security_data huge_security_image)
   \<and> unat (total_length (recalculate_security_data_length (security_data huge_security_image))) = 8
   \<and> snd (calculate_subdir_offsets (Dentry empty_root [])
            (align8 8 + dentry_out_total_length empty_root + 8)) = 136
   \<and> length (write_wim_security_data
               (recalculate_security_data_length (security_data huge_security_image))
             @ write_dentry_tree
                 (fst (calculate_subdir_offsets (Dentry empty_root [])
                         (align8 8 + dentry_out_total_length empty_root + 8))))
       = 4294967296 + 136
   \<and> prepare_metadata_resource plain_writer_env huge_security_image = None"
proof -
  let ?root = "Dentry empty_root []"
  let ?sd' = "recalculate_security_data_length (security_data huge_security_image)"
  have select: "select_wim_image plain_writer_env = None"
    by (simp add: plain_writer_env_def)
  have root: "(case root_dentry huge_security_image of None \<Rightarrow> new_filler_directory plain_writer_env
               | Some r \<Rightarrow> Inr r) = Inr ?root"
    by (simp add: huge_security_image_def)
  have sd_ok: "security_data_ok (security_data huge_security_image)"
    by (simp add: security_data_ok_def huge_security_image_def)
  have names: "tree_names_ok ?root"
    by (simp add: dentry_names_ok_def empty_root_def)
  have len: "security_data_length (security_data huge_security_image) = 4294967296 + 8"
    by (simp add: security_data_length_def huge_security_image_def)
  have total: "unat (total_length ?sd') = 8"
    using recalculated_total_length [OF sd_ok] by (simp add: len)
  obtain root' final where calc: "calculate_subdir_offsets ?root
                 (align8 (unat (total_length ?sd')) + dentry_out_total_length (d_rec ?root) + 8)
               = (root', final)"
    by force
  from calculate_subdir_offsets_lengths(1) [OF calc]
  have final: "final = 136"
    by (simp add: total align8_def dentry_out_total_length_def empty_root_def
        spec_dentry_is_directory_def)
  have malloc: "MALLOC_buf plain_writer_env final"
    by (simp add: plain_writer_env_def)
  have bound: "final < 2 ^ 64"
    by (simp add: final)
  note facts = prepare_metadata_resource_cursor_and_bytes
    [OF select root sd_ok names refl calc bound malloc]
  have written: "length (write_wim_security_data ?sd' @ write_dentry_tree root') = 4294967296 + 136"
    using facts(2)
    by (simp add: len align8_def dentry_out_total_length_def empty_root_def
        spec_dentry_is_directory_def)
  with facts(3) final have none: "prepare_metadata_resource plain_writer_env huge_security_image = None"
    by simp
  from calc have "snd (calculate_subdir_offsets ?root
      (align8 8 + dentry_out_total_length empty_root + 8)) = final"
    and "fst (calculate_subdir_offsets ?root
      (align8 8 + dentry_out_total_length empty_root + 8)) = root'"
    by (simp_all add: total)
  with sd_ok total final written none show ?thesis
    by simp
qed

section \<open>Properties of the dentry tree builder\<close>

text \<open>The scan of an inode changes neither the inode table nor the link count.\<close>

lemma inode_table_alloc:
  "alloc env s = (ok, s1) \<Longrightarrow> inode_table s1 = inode_table s"
  by (auto simp: alloc_def)

lemma inode_table_put_ntfs_volume [simp]:
  "inode_table (put_ntfs_volume s) = inode_table s"
  by (simp add: put_ntfs_volume_def)

lemma inode_table_get_ntfs_volume [simp]:
  "inode_table (get_ntfs_volume s) = inode_table s"
  by (simp add: get_ntfs_volume_def)

lemma inode_table_free_blob_descriptor [simp]:
  "inode_table (free_blob_descriptor blob s) = inode_table s"
  by (simp add: free_blob_descriptor_def free_ntfs_location_def split: option.splits)

lemma inode_table_prepare_unhashed_blob [simp]:
  "inode_table (prepare_unhashed_blob blob s) = inode_table s"
  by (simp add: prepare_unhashed_blob_def split: option.splits)




































text \<open>
  The capture of the whole volume of the hard link scenario: two dentries \<open>f\<close> under
  different parents refer to the inode 100, which has the link count 2, and the one blob
  of the file is registered once.
\<close>

lemma hard_link_volume_captured:
  "map_option (\<lambda>(ret, root, s). (ret, root, map (link_count s) [5, 64, 65, 100], unhashed_blobs s))
     (ntfs_3g_build_dentry_tree_recursive 3 quiet_env hard_link_volume
        (initial_capture_state, FILE_root, ''/'', FILE_NAME_POSIX))
   = Some (None,
           Some (CaptureDentry
                   \<lparr>d_name = [], d_inode = 5, is_win32_name = False,
                    d_short_name = None, d_short_name_nbytes = 0\<rparr>
                   [win32_dentry ''a'' 64 [win32_dentry ''f'' 100 []],
                    win32_dentry ''b'' 65 [win32_dentry ''f'' 100 []]]),
           [1, 1, 1, 2], [hard_link_blob])"
  by code_simp




end
